theory Spec2Isabelle
  imports Complex_Main "HOL-Library.Sublist"
begin

section \<open>Texts and findings\<close>

text \<open>
  The engines build the three prose fields of a finding (\<open>item\<close>, \<open>finding\<close>,
  \<open>recommendation\<close>) with f-strings. An f-string is kept here as the list of its
  pieces in source order: literal text (\<open>T\<close>), an interpolated number (\<open>N\<close>), an
  interpolated list of numbers (\<open>NS\<close>, which the source renders with \<open>str\<close>, \<open>join\<close> or
  \<open>repr\<close>) and an interpolated list of strings (\<open>TS\<close>). Literal text is written in
  ASCII (dashes and arrows of the source become \<open>-\<close> and \<open>->\<close>); long static prose of
  the fields \<open>finding\<close> and \<open>recommendation\<close> is cut after its opening words, marked
  by \<open>...\<close>. No check reads these two fields, and \<open>item\<close> is never read either; the
  fields that carry decisions (\<open>tmep_section\<close>, \<open>severity\<close>, \<open>class_number\<close>) are
  exact.
\<close>

datatype frag = T string | N int | NS "int list" | TS "string list"

type_synonym ftext = "frag list"

text \<open>The section sign that starts every \<open>tmep_section\<close> string (U+00A7).\<close>

definition sect :: "string \<Rightarrow> string" where
  "sect n = CHR 0xA7 # n"

section \<open>Python strings\<close>

text \<open>
  A Python \<open>str\<close> is modelled as a \<open>string\<close>, a list of 8-bit characters read as the
  code points 0..255 (Latin-1); text outside that range is outside the model. The
  functions below are the \<open>str\<close> methods and operators the engines use.
\<close>

text \<open>
  \<open>str.lower()\<close>: A-Z, and the capital letters of Latin-1 (0xC0..0xDE without 0xD7),
  move up by 32, which sets bit 5 of the code point (it is clear in both ranges).
\<close>

definition lower_char :: "char \<Rightarrow> char" where
  "lower_char c =
     (let n = (of_char c :: nat) in
      if (65 \<le> n \<and> n \<le> 90) \<or> (192 \<le> n \<and> n \<le> 222 \<and> n \<noteq> 215)
      then (case c of Char b0 b1 b2 b3 b4 b5 b6 b7 \<Rightarrow> Char b0 b1 b2 b3 b4 True b6 b7)
      else c)"

definition lower :: "string \<Rightarrow> string" where
  "lower s = map lower_char s"

text \<open>The characters \<open>str.isspace()\<close> accepts, which \<open>strip()\<close> and \<open>split()\<close> remove.\<close>

definition is_space :: "char \<Rightarrow> bool" where
  "is_space c =
     (let n = (of_char c :: nat) in
      (9 \<le> n \<and> n \<le> 13) \<or> (28 \<le> n \<and> n \<le> 32) \<or> n = 133 \<or> n = 160)"

definition strip :: "string \<Rightarrow> string" where
  "strip s = rev (dropWhile is_space (rev (dropWhile is_space s)))"

text \<open>
  \<open>needle in haystack\<close> on strings: the needle occurs as a contiguous run, that is,
  the haystack from some position on starts with the needle.
\<close>

fun starts_with :: "string \<Rightarrow> string \<Rightarrow> bool" where
  "starts_with [] s = True"
| "starts_with (x # xs) [] = False"
| "starts_with (x # xs) (y # ys) = (if x = y then starts_with xs ys else False)"

fun str_in :: "string \<Rightarrow> string \<Rightarrow> bool" where
  "str_in needle [] = (needle = [])"
| "str_in needle (c # cs) = (starts_with needle (c # cs) \<or> str_in needle cs)"

text \<open>\<open>any(k in text for k in keys)\<close>.\<close>

definition any_in :: "string list \<Rightarrow> string \<Rightarrow> bool" where
  "any_in keys txt = list_ex (\<lambda>k. str_in k txt) keys"

text \<open>
  \<open>str.split()\<close> without argument: the maximal runs of non-space characters. The
  first argument is the word being read.
\<close>

fun split_ws_from :: "string \<Rightarrow> string \<Rightarrow> string list" where
  "split_ws_from w [] = (if w = [] then [] else [w])"
| "split_ws_from w (c # cs) =
     (if is_space c then (if w = [] then split_ws_from [] cs else w # split_ws_from [] cs)
      else split_ws_from (w @ [c]) cs)"

definition split_ws :: "string \<Rightarrow> string list" where
  "split_ws s = split_ws_from [] s"

text \<open>\<open>str.split(sep)\<close> for a one-character separator: empty pieces are kept.\<close>

fun split_on_from :: "char \<Rightarrow> string \<Rightarrow> string \<Rightarrow> string list" where
  "split_on_from sep w [] = [w]"
| "split_on_from sep w (c # cs) =
     (if c = sep then w # split_on_from sep [] cs else split_on_from sep (w @ [c]) cs)"

definition split_on :: "char \<Rightarrow> string \<Rightarrow> string list" where
  "split_on sep s = split_on_from sep [] s"

text \<open>\<open>str.replace(a, b)\<close> for one-character \<open>a\<close> and \<open>b\<close>.\<close>

definition replace_char :: "char \<Rightarrow> char \<Rightarrow> string \<Rightarrow> string" where
  "replace_char a b s = map (\<lambda>c. if c = a then b else c) s"

section \<open>The classification knowledge base (nice_classification_db.py)\<close>

text \<open>
  One record of the table \<open>NICE_CLASSES\<close>. The list of keyword strings is the field \<open>class_keywords\<close> here; the field
  \<open>description\<close>, a prose summary that no function reads, is left out.
\<close>

record class_info =
  category :: string
  title :: string
  class_keywords :: "string list"

text \<open>
  The dict \<open>NICE_CLASSES\<close> as the list of its items in insertion order, which is the
  order in which Python iterates over a dict.
\<close>

definition NICE_CLASSES :: "(int \<times> class_info) list" where
  "NICE_CLASSES =
    [(1, \<lparr>category = ''GOODS'', title = ''Chemicals'',
        class_keywords =
         [''chemical'', ''chemicals'', ''adhesive'', ''fertilizer'', ''resin'', ''solvent'',
          ''catalyst'', ''reagent'', ''polymer'', ''plastic raw material'',
          ''glue industrial'', ''photographic chemical'', ''tanning'',
          ''fire extinguishing'', ''flux'']\<rparr>),
     (2, \<lparr>category = ''GOODS'', title = ''Paints and Coatings'',
        class_keywords =
         [''paint'', ''varnish'', ''lacquer'', ''dye'', ''colorant'', ''pigment'',
          ''ink printing'', ''rust prevention'', ''coating'', ''primer'', ''stain wood'',
          ''enamel'', ''glaze'']\<rparr>),
     (3, \<lparr>category = ''GOODS'', title = ''Cosmetics and Cleaning Products'',
        class_keywords =
         [''cosmetic'', ''shampoo'', ''soap'', ''perfume'', ''fragrance'', ''lotion'',
          ''cream skincare'', ''toothpaste'', ''deodorant'', ''makeup'', ''lipstick'',
          ''foundation'', ''cleanser'', ''detergent'', ''bleach'', ''polish'',
          ''conditioner hair'', ''sunscreen'', ''moisturizer'', ''hair care'',
          ''body wash'', ''face wash'', ''cologne'', ''essential oil'', ''nail polish'']\<rparr>),
     (4, \<lparr>category = ''GOODS'', title = ''Lubricants and Fuels'',
        class_keywords =
         [''lubricant'', ''oil industrial'', ''grease'', ''fuel'', ''petrol'', ''gasoline'',
          ''diesel'', ''candle'', ''wax'', ''kerosene'', ''biofuel'', ''engine oil'',
          ''motor oil'']\<rparr>),
     (5, \<lparr>category = ''GOODS'', title = ''Pharmaceuticals and Medical Preparations'',
        class_keywords =
         [''pharmaceutical'', ''drug'', ''medicine'', ''medication'', ''supplement'',
          ''vitamin'', ''antibiotic'', ''vaccine'', ''disinfectant'', ''bandage'',
          ''plaster medical'', ''baby food'', ''dietary supplement'', ''herbicide'',
          ''pesticide'', ''fungicide'', ''veterinary'', ''dental filling'', ''antiseptic'',
          ''laxative'', ''analgesic'']\<rparr>),
     (6, \<lparr>category = ''GOODS'', title = ''Metal Goods'',
        class_keywords =
         [''metal'', ''steel'', ''iron'', ''aluminum'', ''copper'', ''wire metal'',
          ''cable metal'', ''safe'', ''lock metal'', ''nail'', ''screw'', ''bolt'',
          ''metal container'', ''metal pipe'', ''metal hardware'', ''metal building'',
          ''chain'', ''metal fitting'']\<rparr>),
     (7, \<lparr>category = ''GOODS'', title = ''Machinery'',
        class_keywords =
         [''machine'', ''machinery'', ''engine'', ''motor industrial'', ''pump'',
          ''compressor'', ''turbine'', ''robot industrial'', ''tool power'', ''generator'',
          ''vending machine'', ''conveyor'', ''agricultural machine'', ''drill machine'',
          ''lathe'']\<rparr>),
     (8, \<lparr>category = ''GOODS'', title = ''Hand Tools'',
        class_keywords =
         [''hand tool'', ''knife'', ''fork'', ''spoon'', ''cutlery'', ''razor'',
          ''scissors'', ''hammer'', ''screwdriver manual'', ''saw hand'', ''plier'',
          ''wrench'', ''chisel'', ''sword'', ''blade'', ''shears'']\<rparr>),
     (9, \<lparr>category = ''GOODS'', title = ''Scientific and Electronic Apparatus'',
        class_keywords =
         [''software'', ''computer software'', ''app'', ''application'', ''mobile app'',
          ''computer'', ''laptop'', ''tablet'', ''smartphone'', ''hardware'',
          ''electronic'', ''downloadable'', ''digital content'', ''video game'',
          ''game software'', ''operating system'', ''firmware'', ''database software'',
          ''saas'', ''platform software'', ''camera'', ''telephone'', ''headphone'',
          ''speaker electronic'', ''television'', ''monitor'', ''server'',
          ''semiconductor'', ''circuit'', ''battery'', ''charger'', ''gps'',
          ''navigation device'', ''scanner'', ''printer hardware'', ''calculator'',
          ''data storage'', ''usb'', ''hard drive'', ''cloud software'',
          ''artificial intelligence software'', ''machine learning software'',
          ''recorded music'', ''downloadable music'', ''ebook'', ''downloadable video'',
          ''streaming software'', ''vr headset'', ''drone'', ''robot'']\<rparr>),
     (10, \<lparr>category = ''GOODS'', title = ''Medical Devices'',
        class_keywords =
         [''medical device'', ''surgical instrument'', ''dental instrument'',
          ''prosthetic'', ''wheelchair'', ''orthopedic'', ''hearing aid'', ''stethoscope'',
          ''syringe'', ''catheter'', ''implant'', ''pacemaker'', ''crutch'',
          ''bandage medical device'', ''thermometer medical'', ''blood pressure monitor'',
          ''massage device'']\<rparr>),
     (11, \<lparr>category = ''GOODS'', title = ''Environmental Control Apparatus'',
        class_keywords =
         [''light fixture'', ''lamp'', ''bulb'', ''air conditioner'', ''heater'',
          ''furnace'', ''refrigerator'', ''freezer'', ''oven'', ''microwave'',
          ''dishwasher'', ''washer'', ''dryer'', ''ventilation'', ''air purifier'',
          ''water filter'', ''toilet'', ''faucet'', ''shower'', ''boiler'', ''heat pump'',
          ''hvac'', ''stove'', ''cooking appliance'']\<rparr>),
     (12, \<lparr>category = ''GOODS'', title = ''Vehicles'',
        class_keywords =
         [''vehicle'', ''car'', ''automobile'', ''truck'', ''motorcycle'', ''bicycle'',
          ''boat'', ''ship'', ''aircraft'', ''airplane'', ''helicopter'',
          ''electric vehicle'', ''ev'', ''scooter'', ''train'', ''bus'', ''trailer'',
          ''wheel vehicle'', ''tire'', ''car part'']\<rparr>),
     (13, \<lparr>category = ''GOODS'', title = ''Firearms'',
        class_keywords =
         [''firearm'', ''gun'', ''pistol'', ''rifle'', ''ammunition'', ''bullet'',
          ''explosive'', ''firework'', ''grenade'', ''weapon'', ''shotgun'']\<rparr>),
     (14, \<lparr>category = ''GOODS'', title = ''Jewelry and Timepieces'',
        class_keywords =
         [''jewelry'', ''jewellery'', ''ring'', ''necklace'', ''bracelet'', ''earring'',
          ''watch'', ''clock'', ''gold'', ''silver precious'', ''diamond'', ''gemstone'',
          ''timepiece'', ''brooch'', ''pendant'', ''charm jewelry'']\<rparr>),
     (15, \<lparr>category = ''GOODS'', title = ''Musical Instruments'',
        class_keywords =
         [''musical instrument'', ''guitar'', ''piano'', ''violin'', ''drum'', ''trumpet'',
          ''flute'', ''keyboard instrument'', ''saxophone'', ''bass'',
          ''instrument accessory'']\<rparr>),
     (16, \<lparr>category = ''GOODS'', title = ''Paper and Printed Matter'',
        class_keywords =
         [''paper'', ''printed matter'', ''book'', ''magazine'', ''newspaper'',
          ''brochure'', ''stationery'', ''pen'', ''pencil'', ''notebook'', ''envelope'',
          ''cardboard'', ''photo print'', ''poster printed'', ''greeting card'',
          ''label printed'', ''manual printed'', ''instruction book'', ''catalog printed'',
          ''pamphlet'']\<rparr>),
     (17, \<lparr>category = ''GOODS'', title = ''Rubber and Plastic Products'',
        class_keywords =
         [''rubber'', ''gasket'', ''seal rubber'', ''insulation'', ''hose'',
          ''tube rubber'', ''plastic semi-processed'', ''foam insulation'',
          ''tape insulating'']\<rparr>),
     (18, \<lparr>category = ''GOODS'', title = ''Leather Goods'',
        class_keywords =
         [''leather'', ''bag'', ''handbag'', ''purse'', ''wallet'', ''luggage'',
          ''suitcase'', ''backpack'', ''umbrella'', ''tote bag'', ''briefcase'',
          ''belt leather'', ''harness'', ''saddle'', ''pet collar'', ''leash'']\<rparr>),
     (19, \<lparr>category = ''GOODS'', title = ''Building Materials'',
        class_keywords =
         [''building material'', ''cement'', ''concrete'', ''brick'', ''tile'',
          ''wood building'', ''glass building'', ''stone'', ''gravel'', ''asphalt'',
          ''pipe non-metal'', ''lumber'']\<rparr>),
     (20, \<lparr>category = ''GOODS'', title = ''Furniture'',
        class_keywords =
         [''furniture'', ''chair'', ''table'', ''desk'', ''bed'', ''sofa'', ''couch'',
          ''mirror'', ''shelf'', ''cabinet'', ''wardrobe'', ''mattress'', ''pillow'',
          ''cushion'', ''frame picture'']\<rparr>),
     (21, \<lparr>category = ''GOODS'', title = ''Household Utensils'',
        class_keywords =
         [''kitchen utensil'', ''pot'', ''pan'', ''cup'', ''mug'', ''plate'', ''bowl'',
          ''glass tableware'', ''cutlery set'', ''brush household'', ''comb'', ''sponge'',
          ''broom'', ''bucket'', ''storage container household'', ''vase'', ''canteen'',
          ''flask'']\<rparr>),
     (22, \<lparr>category = ''GOODS'', title = ''Cordage and Textile Fibers'',
        class_keywords =
         [''rope'', ''string'', ''net'', ''tent'', ''tarpaulin'', ''sack'',
          ''padding stuffing'', ''fiber textile raw'', ''twine'', ''cord'', ''canvas'']\<rparr>),
     (23, \<lparr>category = ''GOODS'', title = ''Yarns and Threads'',
        class_keywords =
         [''yarn'', ''thread'', ''sewing thread'', ''knitting yarn'', ''embroidery thread'']\<rparr>),
     (24, \<lparr>category = ''GOODS'', title = ''Textiles'',
        class_keywords =
         [''textile'', ''fabric'', ''cloth'', ''linen'', ''bedsheet'', ''towel'',
          ''curtain'', ''blanket'', ''duvet'', ''tablecloth'', ''upholstery fabric'']\<rparr>),
     (25, \<lparr>category = ''GOODS'', title = ''Clothing and Footwear'',
        class_keywords =
         [''clothing'', ''clothes'', ''apparel'', ''shirt'', ''t-shirt'', ''pants'',
          ''jeans'', ''dress'', ''skirt'', ''jacket'', ''coat'', ''suit'', ''shoes'',
          ''boots'', ''sneakers'', ''sandals'', ''hat'', ''cap'', ''gloves'', ''socks'',
          ''underwear'', ''sportswear'', ''swimwear'', ''uniform'', ''footwear'',
          ''headgear'', ''fashion apparel'']\<rparr>),
     (26, \<lparr>category = ''GOODS'', title = ''Lace and Embroidery'',
        class_keywords =
         [''lace'', ''embroidery'', ''button'', ''needle'', ''pin sewing'', ''ribbon'',
          ''artificial flower'', ''hair accessory'', ''bow ribbon'', ''zipper'']\<rparr>),
     (27, \<lparr>category = ''GOODS'', title = ''Floor Coverings'',
        class_keywords =
         [''carpet'', ''rug'', ''mat'', ''flooring'', ''linoleum'', ''wall hanging'']\<rparr>),
     (28, \<lparr>category = ''GOODS'', title = ''Games and Sporting Goods'',
        class_keywords =
         [''toy'', ''game board'', ''puzzle'', ''doll'', ''sport equipment'',
          ''gym equipment'', ''football'', ''basketball'', ''tennis racket'', ''golf club'',
          ''ski'', ''snowboard'', ''christmas decoration'', ''playing card'', ''chess'',
          ''game controller hardware'', ''fishing equipment'',
          ''hunting equipment non-firearm'']\<rparr>),
     (29, \<lparr>category = ''GOODS'', title = ''Meat and Processed Foods'',
        class_keywords =
         [''meat'', ''fish food'', ''poultry'', ''cheese'', ''butter'', ''milk'',
          ''yogurt'', ''egg'', ''vegetable preserved'', ''fruit preserved'', ''jam'',
          ''jelly food'', ''frozen food'', ''dairy'', ''oil food'', ''margarine'',
          ''broth'', ''soup canned'']\<rparr>),
     (30, \<lparr>category = ''GOODS'', title = ''Coffee and Staple Foods'',
        class_keywords =
         [''coffee'', ''tea'', ''cocoa'', ''chocolate'', ''sugar'', ''flour'', ''bread'',
          ''cake'', ''pastry'', ''cookie'', ''candy'', ''ice cream'', ''pasta'', ''noodle'',
          ''rice'', ''spice'', ''seasoning'', ''sauce'', ''condiment'', ''vinegar'',
          ''honey'', ''salt'']\<rparr>),
     (31, \<lparr>category = ''GOODS'', title = ''Agricultural Products'',
        class_keywords =
         [''fresh fruit'', ''fresh vegetable'', ''plant'', ''flower'', ''seed'',
          ''live animal'', ''pet food'', ''animal feed'', ''grain'',
          ''unprocessed agricultural'', ''malt'', ''bulb plant'']\<rparr>),
     (32, \<lparr>category = ''GOODS'', title = ''Beer and Non-Alcoholic Beverages'',
        class_keywords =
         [''beer'', ''non-alcoholic beverage'', ''soft drink'', ''soda'', ''juice'',
          ''water bottled'', ''energy drink'', ''sports drink'', ''lemonade'', ''cola'',
          ''syrup beverage'']\<rparr>),
     (33, \<lparr>category = ''GOODS'', title = ''Alcoholic Beverages'',
        class_keywords =
         [''wine'', ''spirits'', ''whiskey'', ''vodka'', ''rum'', ''gin'', ''liquor'',
          ''alcohol'', ''champagne'', ''brandy'', ''tequila'', ''cocktail preparation'']\<rparr>),
     (34, \<lparr>category = ''GOODS'', title = ''Tobacco Products'',
        class_keywords =
         [''tobacco'', ''cigarette'', ''cigar'', ''vape'', ''e-cigarette'', ''match'',
          ''lighter'', ''pipe smoking'', ''nicotine'', ''rolling paper'']\<rparr>),
     (35, \<lparr>category = ''SERVICES'', title = ''Advertising and Business Services'',
        class_keywords =
         [''advertising'', ''marketing'', ''business management'', ''business consulting'',
          ''public relations'', ''recruitment'', ''staffing'', ''retail store'',
          ''online marketplace'', ''import export'', ''business administration'',
          ''telemarketing'', ''seo'', ''market research'', ''business strategy'',
          ''ecommerce platform'', ''franchise'']\<rparr>),
     (36, \<lparr>category = ''SERVICES'', title = ''Insurance and Financial Services'',
        class_keywords =
         [''insurance'', ''financial service'', ''banking'', ''investment'',
          ''real estate'', ''mortgage'', ''loan'', ''credit'', ''fund management'',
          ''stock exchange'', ''cryptocurrency'', ''fintech'', ''payment service'',
          ''money transfer'', ''tax service'', ''accounting financial'', ''brokerage'',
          ''leasing financial'']\<rparr>),
     (37, \<lparr>category = ''SERVICES'', title = ''Building and Repair Services'',
        class_keywords =
         [''construction'', ''building service'', ''repair'', ''maintenance'',
          ''installation'', ''plumbing'', ''electrical installation'', ''painting service'',
          ''cleaning service building'', ''renovation'', ''carpentry service'', ''roofing'',
          ''drilling'']\<rparr>),
     (38, \<lparr>category = ''SERVICES'', title = ''Telecommunications Services'',
        class_keywords =
         [''telecommunications'', ''telecom'', ''internet provider'', ''broadband'',
          ''wireless'', ''telephone service'', ''satellite communication'', ''cable tv'',
          ''streaming platform'', ''voip'', ''messaging service'', ''email service'',
          ''social media platform'', ''broadcasting'', ''radio service'',
          ''tv broadcasting'']\<rparr>),
     (39, \<lparr>category = ''SERVICES'', title = ''Transport and Storage Services'',
        class_keywords =
         [''transport'', ''shipping'', ''delivery'', ''logistics'', ''freight'',
          ''courier'', ''travel agency'', ''airline service'', ''bus service'', ''taxi'',
          ''rideshare'', ''storage service'', ''warehousing'', ''moving service'', ''cargo'']\<rparr>),
     (40, \<lparr>category = ''SERVICES'', title = ''Treatment of Materials'',
        class_keywords =
         [''printing service'', ''manufacturing service'', ''recycling'',
          ''water treatment'', ''food processing'', ''custom manufacturing'',
          ''material treatment'', ''dyeing service'', ''engraving service'',
          ''welding service'', ''air treatment'']\<rparr>),
     (41, \<lparr>category = ''SERVICES'', title = ''Education and Entertainment Services'',
        class_keywords =
         [''education'', ''training'', ''entertainment'', ''sports event'',
          ''cultural event'', ''music streaming service'', ''streaming entertainment'',
          ''publishing service'', ''online education'', ''e-learning'', ''tutoring'',
          ''school'', ''university service'', ''fitness class'', ''yoga class'',
          ''gaming service online'', ''concert'', ''theater'', ''film production'',
          ''podcast'', ''radio entertainment'', ''sports club'', ''news service'',
          ''journalism'']\<rparr>),
     (42, \<lparr>category = ''SERVICES'', title = ''Scientific and Technology Services'',
        class_keywords =
         [''technology service'', ''it service'', ''software development'',
          ''web development'', ''app development'', ''cloud computing'', ''saas service'',
          ''paas'', ''iaas'', ''cybersecurity service'', ''data analytics service'',
          ''ai service'', ''ml service'', ''research and development'',
          ''scientific research'', ''quality control'', ''technical consulting'',
          ''it consulting'', ''web hosting'', ''database service'', ''api service'',
          ''blockchain service'', ''testing software'', ''ux design'',
          ''computer programming'', ''network service'']\<rparr>),
     (43, \<lparr>category = ''SERVICES'', title = ''Food and Beverage Services'',
        class_keywords =
         [''restaurant'', ''cafe'', ''bar service'', ''catering'',
          ''food delivery service'', ''hotel'', ''accommodation'', ''bed and breakfast'',
          ''canteen'', ''food service'', ''coffee shop'', ''bakery service'', ''fast food'']\<rparr>),
     (44, \<lparr>category = ''SERVICES'', title = ''Medical and Veterinary Services'',
        class_keywords =
         [''medical service'', ''healthcare'', ''hospital'', ''clinic'', ''doctor service'',
          ''dental service'', ''veterinary service'', ''beauty salon'', ''spa service'',
          ''hair salon'', ''nursing'', ''pharmacy service'', ''therapy'',
          ''mental health service'', ''agriculture service'', ''landscaping'',
          ''gardening service'', ''telemedicine'']\<rparr>),
     (45, \<lparr>category = ''SERVICES'', title = ''Legal and Security Services'',
        class_keywords =
         [''legal service'', ''law firm'', ''attorney service'', ''security service'',
          ''security guard'', ''investigation service'', ''social service'',
          ''dating service'', ''matchmaking'', ''online social network'',
          ''personal assistant service'', ''funeral service'', ''licensing service'',
          ''intellectual property service'', ''arbitration'']\<rparr>)]"

text \<open>\<open>get_class_info\<close>: \<open>NICE_CLASSES.get(class_number, None)\<close>.\<close>

definition get_class_info :: "int \<Rightarrow> class_info option" where
  "get_class_info class_number = map_of NICE_CLASSES class_number"

definition get_keywords_for_class :: "int \<Rightarrow> string list" where
  "get_keywords_for_class class_number =
     (case map_of NICE_CLASSES class_number of Some info \<Rightarrow> class_keywords info | None \<Rightarrow> [])"

subsection \<open>\<open>suggest_class_for_keyword\<close>\<close>

text \<open>
  The body of the inner loop: what one keyword of a class adds to the score. The three
  tests are the branches of one if/elif chain, so at most one of them adds.
\<close>

definition kw_points :: "string \<Rightarrow> string \<Rightarrow> int" where
  "kw_points keyword_lower kw =
     (if keyword_lower = kw then 10
      else if str_in keyword_lower kw \<or> str_in kw keyword_lower then 5
      else if list_ex (\<lambda>word. str_in word kw) (split_ws keyword_lower) then 2
      else 0)"

text \<open>The inner loop: \<open>score\<close> starts at 0 and is added to, keyword by keyword.\<close>

definition class_score :: "string \<Rightarrow> string list \<Rightarrow> int" where
  "class_score keyword_lower kws = foldl (\<lambda>score kw. score + kw_points keyword_lower kw) 0 kws"

type_synonym suggestion = "int \<times> string \<times> int"

definition sug_class :: "suggestion \<Rightarrow> int" where
  "sug_class x = fst x"

definition sug_score :: "suggestion \<Rightarrow> int" where
  "sug_score x = snd (snd x)"

text \<open>The outer loop over the items of the table: the state is the list \<open>suggestions\<close>.\<close>

definition suggest_step :: "string \<Rightarrow> suggestion list \<Rightarrow> int \<times> class_info \<Rightarrow> suggestion list" where
  "suggest_step keyword_lower suggestions item =
     (case item of (cls_num, cls_info) \<Rightarrow>
        (let score = class_score keyword_lower (class_keywords cls_info) in
         if score > 0 then suggestions @ [(cls_num, title cls_info, score)] else suggestions))"

text \<open>
  \<open>suggestions.sort(key=lambda x: x[2], reverse=True)\<close> is a stable sort by descending
  score: it is the stable insertion sort of the library on the negated score. The list
  after the sort is \<open>ranked_suggestions\<close>; the function returns its first five elements.
  The table is an argument, so that a call can be stated for any content of the module
  global.
\<close>

definition ranked_suggestions :: "(int \<times> class_info) list \<Rightarrow> string \<Rightarrow> suggestion list" where
  "ranked_suggestions table keyword =
     (let keyword_lower = strip (lower keyword);
          suggestions = foldl (suggest_step keyword_lower) [] table
      in sort_key (\<lambda>x. - sug_score x) suggestions)"

definition suggest_on :: "(int \<times> class_info) list \<Rightarrow> string \<Rightarrow> suggestion list" where
  "suggest_on table keyword = take 5 (ranked_suggestions table keyword)"

definition suggest_class_for_keyword :: "string \<Rightarrow> suggestion list" where
  "suggest_class_for_keyword keyword = suggest_on NICE_CLASSES keyword"

subsection \<open>\<open>suggest_class_for_keyword\<close> on a store\<close>

text \<open>
  The same function with the objects it works on held in a store, so that what a call
  changes can be stated. Dicts and lists are mutable objects and live at addresses;
  strings, integers and tuples are immutable and are values. The objects the function
  reaches are the dict \<open>NICE_CLASSES\<close> (its items in insertion order, each the class
  number with the address of the class dict), the class dicts (category, title and the
  address of the list under \<open>"keywords"\<close>), the keyword lists, and the lists of tuples
  the function makes itself. A store is the list of its objects, and the address of an
  object is its position; a new object is put at the end.
\<close>

type_synonym addr = nat

datatype pyobj =
    TableDict "(int \<times> addr) list"
  | ClassDict string string addr
  | StrList "string list"
  | TupleList "suggestion list"

type_synonym store = "pyobj list"

definition lookup :: "store \<Rightarrow> addr \<Rightarrow> pyobj option" where
  "lookup h a = (if a < length h then Some (h ! a) else None)"

definition new_object :: "pyobj \<Rightarrow> store \<Rightarrow> addr \<times> store" where
  "new_object v h = (length h, h @ [v])"

text \<open>
  \<open>xs.append(x)\<close>, \<open>xs.sort(key=lambda x: x[2], reverse=True)\<close> and \<open>xs[:n]\<close> on the
  list at an address: the first two change the object in place, the third makes a new
  list. \<open>None\<close> is an exception (the object is not a list of tuples).
\<close>

definition list_append :: "addr \<Rightarrow> suggestion \<Rightarrow> store \<Rightarrow> store option" where
  "list_append a x h =
     (case lookup h a of
        Some (TupleList xs) \<Rightarrow> Some (h[a := TupleList (xs @ [x])])
      | _ \<Rightarrow> None)"

definition list_sort_by_score :: "addr \<Rightarrow> store \<Rightarrow> store option" where
  "list_sort_by_score a h =
     (case lookup h a of
        Some (TupleList xs) \<Rightarrow> Some (h[a := TupleList (sort_key (\<lambda>x. - sug_score x) xs)])
      | _ \<Rightarrow> None)"

definition list_slice :: "nat \<Rightarrow> addr \<Rightarrow> store \<Rightarrow> (addr \<times> store) option" where
  "list_slice n a h =
     (case lookup h a of
        Some (TupleList xs) \<Rightarrow> Some (new_object (TupleList (take n xs)) h)
      | _ \<Rightarrow> None)"

fun fold_option :: "('s \<Rightarrow> 'a \<Rightarrow> 's option) \<Rightarrow> 's \<Rightarrow> 'a list \<Rightarrow> 's option" where
  "fold_option f s [] = Some s"
| "fold_option f s (x # xs) = (case f s x of None \<Rightarrow> None | Some s' \<Rightarrow> fold_option f s' xs)"

text \<open>
  Turn \<open>i\<close> of the loop over \<open>NICE_CLASSES.items()\<close>. The dict is read in the store as
  it is at this turn (a dict whose size changed since the loop began raises), and so are
  the class dict and its keyword list. The inner loop only adds to the local integer
  \<open>score\<close>; it is \<open>class_score\<close> on the keywords read.
\<close>

definition items_turn :: "addr \<Rightarrow> addr \<Rightarrow> string \<Rightarrow> nat \<Rightarrow> store \<Rightarrow> nat \<Rightarrow> store option" where
  "items_turn table_addr suggestions_addr keyword_lower n h i =
     (case lookup h table_addr of
        Some (TableDict items) \<Rightarrow>
          if length items \<noteq> n then None
          else
            (case items ! i of (cls_num, cls_addr) \<Rightarrow>
               (case lookup h cls_addr of
                  Some (ClassDict cat ttl kws_addr) \<Rightarrow>
                    (case lookup h kws_addr of
                       Some (StrList kws) \<Rightarrow>
                         (let score = class_score keyword_lower kws in
                          if score > 0
                          then list_append suggestions_addr (cls_num, ttl, score) h
                          else Some h)
                     | _ \<Rightarrow> None)
                | _ \<Rightarrow> None))
      | _ \<Rightarrow> None)"

text \<open>
  The call: \<open>suggestions = []\<close> makes a new list, the loop appends to it, the sort
  reorders it in place and the slice that is returned is a new list again. The result
  is the address of the returned list with the store after the call.
\<close>

definition call_suggest_class_for_keyword ::
  "addr \<Rightarrow> string \<Rightarrow> store \<Rightarrow> (addr \<times> store) option" where
  "call_suggest_class_for_keyword table_addr keyword h0 =
     (let keyword_lower = strip (lower keyword) in
      case new_object (TupleList []) h0 of (suggestions_addr, h1) \<Rightarrow>
        (case lookup h1 table_addr of
           Some (TableDict items) \<Rightarrow>
             (case fold_option (items_turn table_addr suggestions_addr keyword_lower (length items))
                     h1 [0..<length items] of
                None \<Rightarrow> None
              | Some h2 \<Rightarrow>
                  (case list_sort_by_score suggestions_addr h2 of
                     None \<Rightarrow> None
                   | Some h3 \<Rightarrow> list_slice 5 suggestions_addr h3))
         | _ \<Rightarrow> None))"

text \<open>The list of tuples at an address, as a value.\<close>

definition tuples_at :: "store \<Rightarrow> addr \<Rightarrow> suggestion list option" where
  "tuples_at h a = (case lookup h a of Some (TupleList xs) \<Rightarrow> Some xs | _ \<Rightarrow> None)"

text \<open>
  The store holds the table \<open>tbl\<close> at an address: the dict there has the class numbers
  of \<open>tbl\<close> in its order, and each of its class dicts has the category, the title and
  the keywords of the record.
\<close>

definition class_at :: "store \<Rightarrow> addr \<Rightarrow> class_info \<Rightarrow> bool" where
  "class_at h a info =
     (case lookup h a of
        Some (ClassDict cat ttl kws_addr) \<Rightarrow>
          cat = category info \<and> ttl = title info
          \<and> lookup h kws_addr = Some (StrList (class_keywords info))
      | _ \<Rightarrow> False)"

definition table_at :: "store \<Rightarrow> addr \<Rightarrow> (int \<times> class_info) list \<Rightarrow> bool" where
  "table_at h a tbl =
     (case lookup h a of
        Some (TableDict items) \<Rightarrow>
          list_all2 (\<lambda>it e. fst it = fst e \<and> class_at h (snd it) (snd e)) items tbl
      | _ \<Rightarrow> False)"

text \<open>
  The store after the module is loaded: the dict at address 0, then for each class its
  dict and its keyword list.
\<close>

fun class_objects :: "addr \<Rightarrow> (int \<times> class_info) list \<Rightarrow> pyobj list" where
  "class_objects a [] = []"
| "class_objects a (kv # rest) =
     ClassDict (category (snd kv)) (title (snd kv)) (Suc a) #
     StrList (class_keywords (snd kv)) # class_objects (a + 2) rest"

fun class_items :: "addr \<Rightarrow> (int \<times> class_info) list \<Rightarrow> (int \<times> addr) list" where
  "class_items a [] = []"
| "class_items a (kv # rest) = (fst kv, a) # class_items (a + 2) rest"

definition load_table :: "(int \<times> class_info) list \<Rightarrow> store" where
  "load_table tbl = TableDict (class_items 1 tbl) # class_objects 1 tbl"

section \<open>Pillar 1: the input model (tmep_1401_assessor.py)\<close>

record ClassEntry =
  class_number :: int
  identification :: string
  specimen_type :: string
  specimen_description :: string
  fee_paid :: bool
  filing_basis :: string
  date_of_first_use :: "string option"
  date_of_first_use_commerce :: "string option"
  flags :: "string list"
  suggestions :: "string list"

record TrademarkApplication =
  applicant_name :: string
  mark_text :: string
  mark_type :: string
  filing_date :: string
  nice_edition_claimed :: string
  application_serial :: string
  filing_type :: string
  classes :: "ClassEntry list"
  fees_paid_count :: int
  total_fee_paid :: real
  is_multi_class :: bool
  app_notes :: string

record AssessmentFinding =
  tmep_section :: string
  severity :: string
  f_class_number :: int
  item :: ftext
  finding :: ftext
  recommendation :: ftext

text \<open>
  The assessor object: the application it was built for and the list of findings that
  every check appends to. (\<open>assessment_date\<close>, a clock reading taken by the constructor
  and read by no check, is left out.)
\<close>

record TMEP1401Assessor =
  app :: TrademarkApplication
  findings :: "AssessmentFinding list"

definition append_finding :: "AssessmentFinding \<Rightarrow> TMEP1401Assessor \<Rightarrow> TMEP1401Assessor" where
  "append_finding f s = s\<lparr>findings := findings s @ [f]\<rparr>"

definition VALID_CLASS_NUMBERS :: "int set" where
  "VALID_CLASS_NUMBERS = {1..45}"

subsection \<open>\<open>_check_1401_02_international_classification_adopted\<close>\<close>

definition error_1401_02 :: "ClassEntry \<Rightarrow> AssessmentFinding" where
  "error_1401_02 c =
     \<lparr>tmep_section = sect ''1401.02'', severity = ''ERROR'',
      f_class_number = class_number c,
      item = [T ''Class '', N (class_number c)],
      finding = [T ''Class number '', N (class_number c),
                 T '' is NOT a valid International (Nice) Classification number. ...''],
      recommendation = [T ''Replace with a valid Nice Classification class number (1-45). ...'']\<rparr>"

definition ok_1401_02 :: "ClassEntry list \<Rightarrow> AssessmentFinding" where
  "ok_1401_02 cs =
     \<lparr>tmep_section = sect ''1401.02'', severity = ''OK'', f_class_number = 0,
      item = [T ''Nice Classification System Compliance''],
      finding = [T ''All class numbers ('', NS (sort (map class_number cs)),
                 T '') are valid International Nice Classification numbers ...''],
      recommendation = [T ''No action required.'']\<rparr>"

text \<open>
  One turn of the loop over \<open>self.app.classes\<close>: the state is the local list
  \<open>invalid_classes_found\<close> and the assessor.
\<close>

definition step_1401_02 ::
  "int list \<times> TMEP1401Assessor \<Rightarrow> ClassEntry \<Rightarrow> int list \<times> TMEP1401Assessor" where
  "step_1401_02 st c =
     (case st of (invalid_classes_found, s) \<Rightarrow>
        if class_number c \<notin> VALID_CLASS_NUMBERS
        then (invalid_classes_found @ [class_number c], append_finding (error_1401_02 c) s)
        else (invalid_classes_found, s))"

definition check_1401_02 :: "TMEP1401Assessor \<Rightarrow> TMEP1401Assessor" where
  "check_1401_02 s =
     (case foldl step_1401_02 ([], s) (classes (app s)) of
        (invalid_classes_found, s') \<Rightarrow>
          if invalid_classes_found = []
          then append_finding (ok_1401_02 (classes (app s'))) s'
          else s')"

subsection \<open>\<open>_check_1401_04_classification_determines_fees\<close>\<close>

text \<open>The fee table of nice_classification_db.py, and Python's \<open>dict.get(key, default)\<close>.\<close>

definition USPTO_FEES :: "string \<rightharpoonup> int" where
  "USPTO_FEES = [''TEAS_PLUS'' \<mapsto> 250, ''TEAS_STANDARD'' \<mapsto> 350, ''PAPER'' \<mapsto> 750]"

definition dict_get :: "('k \<rightharpoonup> 'v) \<Rightarrow> 'k \<Rightarrow> 'v \<Rightarrow> 'v" where
  "dict_get d k dflt = (case d k of Some v \<Rightarrow> v | None \<Rightarrow> dflt)"

definition fee_per_class_of :: "TrademarkApplication \<Rightarrow> int" where
  "fee_per_class_of a = dict_get USPTO_FEES (filing_type a) (the (USPTO_FEES ''TEAS_STANDARD''))"

text \<open>\<open>sorted(set(claimed_classes))\<close>.\<close>

definition distinct_classes_of :: "TrademarkApplication \<Rightarrow> int list" where
  "distinct_classes_of a = sort (remdups (map class_number (classes a)))"

definition duplicate_warning_1401_04 :: "int list \<Rightarrow> AssessmentFinding" where
  "duplicate_warning_1401_04 duplicates =
     \<lparr>tmep_section = sect ''1401.04'', severity = ''WARNING'', f_class_number = 0,
      item = [T ''Duplicate class entries: '', NS duplicates],
      finding = [T ''Class(es) '', NS duplicates,
                 T '' appear more than once in the application. Each class should appear once with a consolidated identification.''],
      recommendation = [T ''Consolidate all goods/services for each class into a single class entry. ...'']\<rparr>"

text \<open>
  The if/elif chain on \<open>fees_paid\<close>: the test \<open>fees_paid == 0\<close> comes first, before
  the comparisons with the number of distinct classes.
\<close>

definition fee_count_finding :: "TrademarkApplication \<Rightarrow> AssessmentFinding" where
  "fee_count_finding a =
     (let distinct_classes = distinct_classes_of a;
          num_distinct = int (length distinct_classes);
          fees_paid = fees_paid_count a;
          fee_per_class = fee_per_class_of a;
          expected_fee_total = num_distinct * fee_per_class
      in
      if fees_paid = 0 then
        \<lparr>tmep_section = sect ''1401.04'', severity = ''INFO'', f_class_number = 0,
         item = [T ''Fee Count Not Specified''],
         finding = [T ''The number of fees paid was not specified in the application input. Cannot perform fee count verification.''],
         recommendation = [T ''Verify that '', N num_distinct,
                           T '' fee(s) were submitted - one per class: Classes '', NS distinct_classes,
                           T ''. At '', T (filing_type a), T '' rate: $'', N fee_per_class,
                           T ''/class = $'', N expected_fee_total, T '' total.'']\<rparr>
      else if fees_paid < num_distinct then
        (let shortage = num_distinct - fees_paid in
         \<lparr>tmep_section = sect ''1401.04'', severity = ''ERROR'', f_class_number = 0,
          item = [T ''Fee Shortage: '', N fees_paid, T '' fees paid, '', N num_distinct,
                  T '' classes claimed''],
          finding = [T ''UNDERPAYMENT DETECTED: Application claims '', N num_distinct,
                     T '' class(es) ('', NS distinct_classes, T '') but only '', N fees_paid,
                     T '' fee(s) were submitted. Shortfall: '', N shortage,
                     T '' fee(s) = $'', N (shortage * fee_per_class), T '' at '',
                     T (filing_type a), T '' rate.''],
          recommendation = [T ''Submit '', N shortage, T '' additional fee(s) of $'',
                            N fee_per_class, T '' each ($'', N (shortage * fee_per_class),
                            T '' total) to cover all classes. ...'']\<rparr>)
      else if fees_paid > num_distinct then
        (let excess = fees_paid - num_distinct in
         \<lparr>tmep_section = sect ''1401.04'', severity = ''WARNING'', f_class_number = 0,
          item = [T ''Fee Excess: '', N fees_paid, T '' fees paid, '', N num_distinct,
                  T '' classes claimed''],
          finding = [T ''OVERPAYMENT: '', N fees_paid, T '' fees paid but only '',
                     N num_distinct, T '' class(es) claimed. Excess: '', N excess,
                     T '' fee(s) = $'', N (excess * fee_per_class), T ''.''],
          recommendation = [T ''Request refund of overpaid fees or add additional classes to match the number of fees submitted.'']\<rparr>)
      else
        \<lparr>tmep_section = sect ''1401.04'', severity = ''OK'', f_class_number = 0,
         item = [T ''Fee Verification''],
         finding = [T ''Fee count CORRECT: '', N fees_paid, T '' fee(s) paid for '',
                    N num_distinct, T '' class(es). Classes: '', NS distinct_classes,
                    T ''. Filing type: '', T (filing_type a), T '' ($'', N fee_per_class,
                    T ''/class). Total: $'', N (fees_paid * fee_per_class), T ''.''],
         recommendation = [T ''No action required.'']\<rparr>)"

definition no_fee_error_1401_04 :: "TrademarkApplication \<Rightarrow> ClassEntry \<Rightarrow> AssessmentFinding" where
  "no_fee_error_1401_04 a c =
     \<lparr>tmep_section = sect ''1401.04'', severity = ''ERROR'', f_class_number = class_number c,
      item = [T ''Class '', N (class_number c), T '' - No fee''],
      finding = [T ''No filing fee has been paid for Class '', N (class_number c),
                 T ''. Per 1401.04, each class requires a separate fee.''],
      recommendation = [T ''Submit $'', N (fee_per_class_of a), T '' ('', T (filing_type a),
                        T '') for Class '', N (class_number c), T ''.'']\<rparr>"

text \<open>
  The check: the duplicate warning, then the fee-count finding, then the loop over the
  per-class \<open>fee_paid\<close> flags. (The local \<open>actual_fee_total\<close>, the only reader of
  \<open>total_fee_paid\<close>, is assigned and never used.)
\<close>

definition check_1401_04 :: "TMEP1401Assessor \<Rightarrow> TMEP1401Assessor" where
  "check_1401_04 s =
     (let claimed_classes = map class_number (classes (app s));
          distinct_classes = distinct_classes_of (app s);
          s1 = (if length claimed_classes \<noteq> length distinct_classes
                then append_finding
                       (duplicate_warning_1401_04
                          (filter (\<lambda>cls. count_list claimed_classes cls > 1) distinct_classes)) s
                else s);
          s2 = append_finding (fee_count_finding (app s1)) s1
      in foldl (\<lambda>st c. if \<not> fee_paid c
                         then append_finding (no_fee_error_1401_04 (app st) c) st else st)
               s2 (classes (app s2)))"

text \<open>The number of distinct class numbers of an application.\<close>

definition num_distinct_classes :: "TrademarkApplication \<Rightarrow> int" where
  "num_distinct_classes a = int (card (class_number ` set (classes a)))"

section \<open>Pillar 1: dates and static tables\<close>

text \<open>
  A calendar date as (year, month, day), compared as \<open>datetime.date\<close> compares: by year,
  then month, then day.
\<close>

type_synonym date = "nat \<times> nat \<times> nat"

definition date_less :: "date \<Rightarrow> date \<Rightarrow> bool" where
  "date_less a b =
     (case a of (y1, m1, d1) \<Rightarrow> case b of (y2, m2, d2) \<Rightarrow>
        y1 < y2 \<or> (y1 = y2 \<and> (m1 < m2 \<or> (m1 = m2 \<and> d1 < d2))))"

text \<open>The value of a decimal digit: its position in the string of the ten digits.\<close>

definition digit_of :: "char \<Rightarrow> nat option" where
  "digit_of c = map_of (zip ''0123456789'' [0..<10]) c"

definition is_leap :: "nat \<Rightarrow> bool" where
  "is_leap y = (y mod 4 = 0 \<and> (y mod 100 \<noteq> 0 \<or> y mod 400 = 0))"

definition days_in_month :: "nat \<Rightarrow> nat \<Rightarrow> nat" where
  "days_in_month y m =
     (if m = 2 then (if is_leap y then 29 else 28)
      else if m \<in> set [4, 6, 9, 11] then 30 else 31)"

text \<open>
  The month field of the format, \<open>1[0-2]|0[1-9]|[1-9]\<close>, followed by the literal \<open>-\<close>:
  the month and the text after the dash. At most one alternative is followed by a dash.
\<close>

definition parse_month :: "string \<Rightarrow> (nat \<times> string) option" where
  "parse_month r =
     (case r of
        a # b # c # rest \<Rightarrow>
          (if a = CHR ''1'' \<and> b \<in> set ''012'' \<and> c = CHR ''-''
           then Some (10 + the (digit_of b), rest)
           else if a = CHR ''0'' \<and> b \<in> set ''123456789'' \<and> c = CHR ''-''
           then Some (the (digit_of b), rest)
           else if a \<in> set ''123456789'' \<and> b = CHR ''-''
           then Some (the (digit_of a), c # rest)
           else None)
      | [a, b] \<Rightarrow>
          (if a \<in> set ''123456789'' \<and> b = CHR ''-'' then Some (the (digit_of a), []) else None)
      | _ \<Rightarrow> None)"

text \<open>
  The day field, \<open>3[01]|[12]\d|0[1-9]|[1-9]| [1-9]\<close>, is the end of the pattern: the
  first alternative that matches is taken, and the call fails when text remains after it.
\<close>

definition parse_day :: "string \<Rightarrow> nat option" where
  "parse_day r =
     (case r of
        [] \<Rightarrow> None
      | [a] \<Rightarrow> (if a \<in> set ''123456789'' then digit_of a else None)
      | a # b # rest \<Rightarrow>
          (if a = CHR ''3'' \<and> b \<in> set ''01''
           then (if rest = [] then Some (30 + the (digit_of b)) else None)
           else if a \<in> set ''12'' \<and> digit_of b \<noteq> None
           then (if rest = [] then Some (10 * the (digit_of a) + the (digit_of b)) else None)
           else if a = CHR ''0'' \<and> b \<in> set ''123456789''
           then (if rest = [] then digit_of b else None)
           else if a \<in> set ''123456789'' then None
           else if a = CHR '' '' \<and> b \<in> set ''123456789''
           then (if rest = [] then digit_of b else None)
           else None))"

text \<open>
  A model of the library call \<open>datetime.strptime(s, "%Y-%m-%d").date()\<close>: four digits,
  a dash, the month, a dash, the day, nothing after; then the date must exist (year at
  least 1, day within the month). \<open>None\<close> stands for the \<open>ValueError\<close> the call raises
  otherwise, which is the only exception it raises on a string.
\<close>

definition strptime_ymd :: "string \<Rightarrow> date option" where
  "strptime_ymd s =
     (case s of
        y1 # y2 # y3 # y4 # dash # r \<Rightarrow>
          (if list_all (\<lambda>c. digit_of c \<noteq> None) [y1, y2, y3, y4] \<and> dash = CHR ''-'' then
             (let y = 1000 * the (digit_of y1) + 100 * the (digit_of y2)
                      + 10 * the (digit_of y3) + the (digit_of y4)
              in case parse_month r of
                   None \<Rightarrow> None
                 | Some (m, r2) \<Rightarrow>
                     (case parse_day r2 of
                        None \<Rightarrow> None
                      | Some d \<Rightarrow>
                          if 1 \<le> y \<and> d \<le> days_in_month y m then Some (y, m, d) else None))
           else None)
      | _ \<Rightarrow> None)"

text \<open>
  \<open>NICE_EDITION_TIMELINE\<close>: edition, start and end of its validity, and its TMEP
  section (the free-text field of remarks, read by no function, is left out).
\<close>

record edition_info =
  ed_start :: string
  ed_end :: string
  ed_section :: string

definition NICE_EDITION_TIMELINE :: "(string \<times> edition_info) list" where
  "NICE_EDITION_TIMELINE =
     [(''7th'',  \<lparr>ed_start = ''1992-01-01'', ed_end = ''1996-12-31'', ed_section = ''1401.09''\<rparr>),
      (''8th'',  \<lparr>ed_start = ''1997-01-01'', ed_end = ''2001-12-31'', ed_section = ''1401.11''\<rparr>),
      (''9th'',  \<lparr>ed_start = ''2002-01-01'', ed_end = ''2006-12-31'', ed_section = ''1401.12''\<rparr>),
      (''10th'', \<lparr>ed_start = ''2007-01-01'', ed_end = ''2011-12-31'', ed_section = ''1401.13''\<rparr>),
      (''11th'', \<lparr>ed_start = ''2012-01-01'', ed_end = ''2022-12-31'', ed_section = ''1401.14''\<rparr>),
      (''12th'', \<lparr>ed_start = ''2023-01-01'', ed_end = ''9999-12-31'', ed_section = ''1401.15''\<rparr>)]"

text \<open>
  \<open>COMMON_MISCLASSIFICATIONS\<close>: the items of the dict in insertion order, each
  ((keyword, wrong class), (correct class, reason)).
\<close>

definition COMMON_MISCLASSIFICATIONS :: "((string \<times> int) \<times> (int \<times> string)) list" where
  "COMMON_MISCLASSIFICATIONS =
     [((''software'', 25), (9, ''Software is a digital product -> Class 9, not clothing (Class 25)'')),
      ((''software'', 35), (42, ''Software development is a tech service -> Class 42, not business services (Class 35)'')),
      ((''app'', 35), (9, ''Mobile app (downloadable) -> Class 9; if SaaS -> Class 42'')),
      ((''website'', 35), (42, ''Website development is IT service -> Class 42'')),
      ((''downloadable music'', 41), (9, ''Downloadable music is a digital product -> Class 9'')),
      ((''music streaming service'', 9), (41, ''Streaming service is entertainment -> Class 41'')),
      ((''printed manual'', 9), (16, ''Printed manuals are printed matter -> Class 16'')),
      ((''restaurant'', 43), (43, ''OK'')),
      ((''restaurant'', 35), (43, ''Restaurant services -> Class 43, not business services'')),
      ((''coffee beverage'', 30), (30, ''OK - coffee as a product'')),
      ((''coffee shop'', 30), (43, ''Coffee shop (service) -> Class 43'')),
      ((''medical device'', 5), (10, ''Medical devices -> Class 10, not pharmaceuticals (Class 5)'')),
      ((''pharmaceutical'', 10), (5, ''Pharmaceuticals -> Class 5, not medical devices (Class 10)'')),
      ((''restaurant service'', 42), (43, ''Post 8th Ed.: restaurant services -> Class 43 (split from old Class 42)'')),
      ((''medical service'', 42), (44, ''Post 8th Ed.: medical services -> Class 44 (split from old Class 42)'')),
      ((''legal service'', 42), (45, ''Post 8th Ed.: legal services -> Class 45 (split from old Class 42)''))]"

text \<open>\<open>SPECIMEN_TYPES\<close>, one constant for each key of the dict.\<close>

definition goods_valid :: "string list" where
  "goods_valid =
     [''product label'', ''product packaging'', ''product tag'', ''product photo'',
      ''hang tag'', ''point of sale display'', ''screenshot showing product for sale'']"

definition goods_invalid :: "string list" where
  "goods_invalid =
     [''invoice'', ''purchase order'', ''business card'', ''letterhead'',
      ''press release'', ''rendering'', ''mockup'', ''logo alone'']"

definition services_valid :: "string list" where
  "services_valid =
     [''website screenshot'', ''advertisement'', ''brochure'', ''promotional material'',
      ''screenshot of service'', ''service description page'']"

definition services_invalid :: "string list" where
  "services_invalid = [''product label'', ''invoice'', ''business card alone'', ''rendering'']"

text \<open>
  The one exception that can leave a check: subscripting \<open>None\<close> where the source
  subscripts the result of \<open>get_class_info\<close> without a test.
\<close>

datatype error = TypeError

fun foldE :: "('s \<Rightarrow> 'a \<Rightarrow> error + 's) \<Rightarrow> 's \<Rightarrow> 'a list \<Rightarrow> error + 's" where
  "foldE f s [] = Inr s"
| "foldE f s (x # xs) = (case f s x of Inl e \<Rightarrow> Inl e | Inr s' \<Rightarrow> foldE f s' xs)"

definition AF ::
  "string \<Rightarrow> string \<Rightarrow> int \<Rightarrow> ftext \<Rightarrow> ftext \<Rightarrow> ftext \<Rightarrow> AssessmentFinding" where
  "AF sec sev cn it fi re =
     \<lparr>tmep_section = sect sec, severity = sev, f_class_number = cn, item = it,
      finding = fi, recommendation = re\<rparr>"

definition append_findings :: "AssessmentFinding list \<Rightarrow> TMEP1401Assessor \<Rightarrow> TMEP1401Assessor" where
  "append_findings fs s = s\<lparr>findings := findings s @ fs\<rparr>"

text \<open>
  \<open>[t.strip() for t in text.replace(";", ",").split(",") if t.strip()]\<close>, the list of
  terms of an identification.
\<close>

definition split_terms :: "string \<Rightarrow> string list" where
  "split_terms txt =
     filter (\<lambda>t. t \<noteq> []) (map strip (split_on CHR '','' (replace_char CHR '';'' CHR '','' txt)))"

text \<open>The title of a class in a text, or the given default when the class is unknown.\<close>

definition title_or :: "string \<Rightarrow> int \<Rightarrow> string" where
  "title_or dflt n = (case get_class_info n of Some info \<Rightarrow> title info | None \<Rightarrow> dflt)"

subsection \<open>\<open>_check_1401_01_statutory_authority\<close>\<close>

definition valid_bases :: "string list" where
  "valid_bases = [''1(a)'', ''1(b)'', ''44(d)'', ''44(e)'', ''66(a)'']"

definition check_1401_01 :: "TMEP1401Assessor \<Rightarrow> TMEP1401Assessor" where
  "check_1401_01 s =
     (case foldl (\<lambda>st c. case st of (found_invalid_basis, s1) \<Rightarrow>
                    if filing_basis c \<notin> set valid_bases
                    then (True,
                          append_findings
                            [AF ''1401.01'' ''ERROR'' (class_number c)
                                [T ''Filing basis: '', T (filing_basis c)]
                                [T ''Invalid or unrecognized filing basis. ...'']
                                [T ''Correct filing basis to one of: '', TS valid_bases, T ''.'']] s1)
                    else (found_invalid_basis, s1))
                (False, s) (classes (app s)) of
        (found_invalid_basis, s1) \<Rightarrow>
          if \<not> found_invalid_basis
          then append_findings
                 [AF ''1401.01'' ''OK'' 0 [T ''Filing Basis'']
                     [T ''All filing bases are recognized under the Lanham Act. ...'']
                     [T ''No action required.'']] s1
          else s1)"

subsection \<open>\<open>_check_1401_03_designation_of_class\<close>\<close>

text \<open>Step A: the known misclassification patterns; the flag \<open>misclassification_found\<close>.\<close>

definition step_A_1401_03 :: "int \<Rightarrow> string \<Rightarrow> class_info \<Rightarrow> ((string \<times> int) \<times> (int \<times> string)) list" where
  "step_A_1401_03 claimed_class id_text class_info =
     filter (\<lambda>e. case e of ((kw, wrong_class), (correct_class, reason)) \<Rightarrow>
               str_in kw id_text \<and> wrong_class = claimed_class \<and> correct_class \<noteq> claimed_class)
            COMMON_MISCLASSIFICATIONS"

definition error_A_1401_03 :: "int \<Rightarrow> class_info \<Rightarrow> (string \<times> int) \<times> (int \<times> string) \<Rightarrow> AssessmentFinding" where
  "error_A_1401_03 claimed_class class_info e =
     (case e of ((kw, wrong_class), (correct_class, reason)) \<Rightarrow>
        AF ''1401.03'' ''ERROR'' claimed_class
           [T kw, T '' in Class '', N claimed_class]
           [T ''MISCLASSIFICATION DETECTED: '', T kw, T '' is placed in Class '', N claimed_class,
            T '' ('', T (title class_info), T ''), but this is incorrect. '', T reason]
           [T ''Move '', T kw, T '' to Class '', N correct_class, T '' ('',
            T (title_or ''see TMEP'' correct_class), T '').''])"

text \<open>
  Step B, one term: the warning is built from \<open>top_cls_info['title']\<close>, where
  \<open>top_cls_info\<close> is the untested result of \<open>get_class_info\<close>.
\<close>

definition step_B_1401_03 ::
  "int \<Rightarrow> class_info \<Rightarrow> TMEP1401Assessor \<Rightarrow> string \<Rightarrow> error + TMEP1401Assessor" where
  "step_B_1401_03 claimed_class class_info s term =
     (case suggest_class_for_keyword term of
        [] \<Rightarrow> Inr s
      | best # _ \<Rightarrow>
          (let top_suggested_class = sug_class best; top_score = sug_score best in
           if top_suggested_class \<noteq> claimed_class \<and> top_score \<ge> 5 then
             (case get_class_info top_suggested_class of
                None \<Rightarrow> Inl TypeError
              | Some top_cls_info \<Rightarrow>
                  Inr (append_findings
                         [AF ''1401.03'' ''WARNING'' claimed_class
                             [T ''Term: '', T term, T '' in Class '', N claimed_class]
                             [T ''Possible classification mismatch: '', T term,
                              T '' appears to match Class '', N top_suggested_class, T '' ('',
                              T (title top_cls_info), T '') more closely than Class '',
                              N claimed_class, T '' ('', T (title class_info), T '').'']
                             [T ''Verify whether '', T term, T '' belongs in Class '',
                              N top_suggested_class, T '' ('', T (title top_cls_info),
                              T '') instead of Class '', N claimed_class, T ''. ...'']] s))
           else Inr s))"

definition service_indicators :: "string list" where
  "service_indicators =
     [''service'', ''services'', ''providing'', ''rendering'', ''consulting'',
      ''management of'', ''repair of'', ''installation of'', ''development of'']"

definition goods_indicators :: "string list" where
  "goods_indicators =
     [''downloadable'', ''printed'', ''physical'', ''apparatus'', ''device'', ''equipment'',
      ''machine'', ''clothing'', ''food'', ''beverage'', ''chemical'']"

text \<open>Step C: the class category against the language of the identification.\<close>

definition step_C_1401_03 :: "ClassEntry \<Rightarrow> string \<Rightarrow> class_info \<Rightarrow> AssessmentFinding list" where
  "step_C_1401_03 c id_text class_info =
     (let is_service_language = any_in service_indicators id_text;
          is_goods_language = any_in goods_indicators id_text
      in
      if category class_info = ''GOODS'' \<and> is_service_language \<and> \<not> is_goods_language then
        [AF ''1401.03'' ''WARNING'' (class_number c)
            [T ''Category mismatch in Class '', N (class_number c), T '' ('',
             T (title class_info), T '')'']
            [T ''The identification '', T (identification c),
             T '' appears to describe a SERVICE (contains service language: '',
             TS (filter (\<lambda>si. str_in si id_text) service_indicators), T ''), but Class '',
             N (class_number c), T '' is a GOODS class.'']
            [T ''Review the identification. Services must be placed in Classes 35-45. ...'']]
      else if category class_info = ''SERVICES'' \<and> is_goods_language \<and> \<not> is_service_language then
        [AF ''1401.03'' ''WARNING'' (class_number c)
            [T ''Category mismatch in Class '', N (class_number c), T '' ('',
             T (title class_info), T '')'']
            [T ''The identification '', T (identification c),
             T '' appears to describe GOODS, but Class '', N (class_number c),
             T '' is a SERVICES class.'']
            [T ''Review the identification. Goods must be placed in Classes 1-34.'']]
      else [])"

text \<open>
  Step D reads the findings made so far, those of earlier checks and earlier class
  entries included.
\<close>

definition step_D_1401_03 :: "ClassEntry \<Rightarrow> class_info \<Rightarrow> bool \<Rightarrow> TMEP1401Assessor \<Rightarrow> TMEP1401Assessor" where
  "step_D_1401_03 c class_info misclassification_found s =
     (if \<not> misclassification_found then
        (let has_warning = list_ex (\<lambda>f. tmep_section f = sect ''1401.03''
                                        \<and> f_class_number f = class_number c) (findings s)
         in
         if \<not> has_warning then
           append_findings
             [AF ''1401.03'' ''OK'' (class_number c)
                 [T ''Class '', N (class_number c), T '': '', T (take 60 (identification c)),
                  T (if length (identification c) > 60 then ''...'' else [])]
                 [T ''Class designation appears correct. Class '', N (class_number c), T '' ('',
                  T (title class_info), T '') is consistent with the identification provided.'']
                 [T ''No action required.'']] s
         else s)
      else s)"

text \<open>One turn of the loop over the class entries.\<close>

definition class_step_1401_03 :: "TMEP1401Assessor \<Rightarrow> ClassEntry \<Rightarrow> error + TMEP1401Assessor" where
  "class_step_1401_03 s c =
     (let claimed_class = class_number c;
          id_text = strip (lower (identification c))
      in
      case get_class_info claimed_class of
        None \<Rightarrow> Inr s
      | Some class_info \<Rightarrow>
          (let hits = step_A_1401_03 claimed_class id_text class_info;
               misclassification_found = (hits \<noteq> []);
               s1 = append_findings (map (error_A_1401_03 claimed_class class_info) hits) s
           in
           case foldE (step_B_1401_03 claimed_class class_info) s1 (split_terms id_text) of
             Inl e \<Rightarrow> Inl e
           | Inr s2 \<Rightarrow>
               Inr (step_D_1401_03 c class_info misclassification_found
                      (append_findings (step_C_1401_03 c id_text class_info) s2))))"

definition check_1401_03 :: "TMEP1401Assessor \<Rightarrow> error + TMEP1401Assessor" where
  "check_1401_03 s = foldE class_step_1401_03 s (classes (app s))"

subsection \<open>\<open>_check_1401_05_criteria_for_classification\<close>\<close>

text \<open>The ambiguous pairs: term, goods class, service class (the reasons are prose).\<close>

definition ambiguous_pairs :: "(string \<times> int \<times> int) list" where
  "ambiguous_pairs =
     [(''music'', 9, 41), (''video'', 9, 41), (''software'', 9, 42), (''book'', 9, 16),
      (''food'', 30, 43), (''education'', 16, 41)]"

definition class_findings_1401_05 :: "ClassEntry \<Rightarrow> AssessmentFinding list" where
  "class_findings_1401_05 c =
     (let id_text = lower (identification c) in
      case get_class_info (class_number c) of
        None \<Rightarrow> []
      | Some class_info \<Rightarrow>
          map (\<lambda>pair. case pair of (term, goods_class, service_class) \<Rightarrow>
                 AF ''1401.05'' ''INFO'' (class_number c)
                    [T ''Ambiguous term: '', T term, T '' in Class '', N (class_number c)]
                    [T ''CLASSIFICATION CRITERIA ANALYSIS for '', T term,
                     T '': If this is a PRODUCT (goods form) -> Class '', N goods_class,
                     T '' ... If this is a SERVICE (service form) -> Class '', N service_class,
                     T '' ... Current placement: Class '', N (class_number c), T '' ('',
                     T (title class_info), T ''). ...'']
                    [T ''Confirm identification clearly distinguishes between the PRODUCT form (-> Class '',
                     N goods_class, T '') and the SERVICE form (-> Class '', N service_class,
                     T ''). ...''])
              (filter (\<lambda>pair. str_in (fst pair) id_text) ambiguous_pairs) @
          [if category class_info = ''GOODS'' then
             AF ''1401.05'' ''INFO'' (class_number c)
                [T ''Classification Logic - Class '', N (class_number c), T '' (GOODS)'']
                [T ''Class '', N (class_number c), T '' is a GOODS class. ...'']
                [T ''Ensure identification describes the product by its nature ...'']
           else
             AF ''1401.05'' ''INFO'' (class_number c)
                [T ''Classification Logic - Class '', N (class_number c), T '' (SERVICES)'']
                [T ''Class '', N (class_number c), T '' is a SERVICES class. ...'']
                [T ''Ensure identification describes the service activity clearly ...'']])"

definition check_1401_05 :: "TMEP1401Assessor \<Rightarrow> TMEP1401Assessor" where
  "check_1401_05 s =
     foldl (\<lambda>st c. append_findings (class_findings_1401_05 c) st) s (classes (app s))"

subsection \<open>\<open>_check_1401_06_specimen_related_to_classification\<close>\<close>

text \<open>\<open>sum(1 for kw in kws if kw in text)\<close>.\<close>

definition count_in :: "string list \<Rightarrow> string \<Rightarrow> nat" where
  "count_in kws txt = length (filter (\<lambda>kw. str_in kw txt) kws)"

text \<open>
  The loop over the other classes stops at the first class whose first ten keywords
  match the specimen description at least twice and more often than the first ten
  keywords of the claimed class.
\<close>

definition specimen_mismatch :: "ClassEntry \<Rightarrow> class_info \<Rightarrow> (int \<times> class_info) option" where
  "specimen_mismatch c class_info =
     (let specimen_desc_lower = lower (specimen_description c);
          own_matches = count_in (take 10 (class_keywords class_info)) specimen_desc_lower
      in find (\<lambda>other. let other_matches =
                             count_in (take 10 (class_keywords (snd other))) specimen_desc_lower
                        in other_matches > own_matches \<and> other_matches \<ge> 2)
              (filter (\<lambda>other. fst other \<noteq> class_number c) NICE_CLASSES))"

definition class_findings_1401_06 :: "ClassEntry \<Rightarrow> AssessmentFinding list" where
  "class_findings_1401_06 c =
     (if filing_basis c = ''1(b)'' then
        [AF ''1401.06'' ''INFO'' (class_number c)
            [T ''Class '', N (class_number c), T '' - Intent to Use (1(b))'']
            [T ''No specimen required at this stage for 1(b) intent-to-use applications. ...'']
            [T ''Ensure specimen is filed with SOU when the mark is put into use.'']]
      else if specimen_type c = [] \<and> specimen_description c = [] then
        [AF ''1401.06'' ''ERROR'' (class_number c)
            [T ''Class '', N (class_number c), T '' - Specimen Missing'']
            [T ''No specimen was provided for Class '', N (class_number c), T ''. ...'']
            [T ''Submit an acceptable specimen showing the mark in actual use ...'']]
      else
        (case get_class_info (class_number c) of
           None \<Rightarrow> []
         | Some class_info \<Rightarrow>
             (let specimen_type_lower = lower (specimen_type c) in
              (if category class_info = ''GOODS'' then
                 (if any_in goods_invalid specimen_type_lower \<and> \<not> any_in goods_valid specimen_type_lower
                  then [AF ''1401.06'' ''ERROR'' (class_number c)
                           [T ''Class '', N (class_number c), T '' specimen: '', T (specimen_type c)]
                           [T ''UNACCEPTABLE SPECIMEN for GOODS: '', T (specimen_type c),
                            T '' is not an acceptable specimen for goods in Class '',
                            N (class_number c), T ''. ...'']
                           [T ''Replace specimen with an acceptable goods specimen such as: '',
                            TS goods_valid, T ''.'']]
                  else [])
               else if category class_info = ''SERVICES'' then
                 (if any_in services_invalid specimen_type_lower
                     \<and> \<not> any_in services_valid specimen_type_lower
                  then [AF ''1401.06'' ''ERROR'' (class_number c)
                           [T ''Class '', N (class_number c), T '' specimen: '', T (specimen_type c)]
                           [T ''UNACCEPTABLE SPECIMEN for SERVICES: '', T (specimen_type c),
                            T '' is not an acceptable specimen for services in Class '',
                            N (class_number c), T ''. ...'']
                           [T ''Replace specimen with an acceptable services specimen such as: '',
                            TS services_valid, T ''.'']]
                  else [])
               else []) @
              (case specimen_mismatch c class_info of
                 Some (other_cn, other_ci) \<Rightarrow>
                   [AF ''1401.06'' ''WARNING'' (class_number c)
                       [T ''Specimen mismatch with Class '', N (class_number c)]
                       [T ''Specimen description appears to match Class '', N other_cn, T '' ('',
                        T (title other_ci), T '') more closely than Class '', N (class_number c),
                        T '' ('', T (title class_info), T ''). Specimen: '',
                        T (take 100 (specimen_description c)), T ''...'']
                       [T ''Verify the specimen actually shows use of the mark in connection with the goods/services in Class '',
                        N (class_number c), T '', not Class '', N other_cn, T ''.'']]
               | None \<Rightarrow>
                   [AF ''1401.06'' ''OK'' (class_number c)
                       [T ''Class '', N (class_number c), T '' specimen alignment'']
                       [T ''Specimen ('', T (specimen_type c), T '') appears consistent with Class '',
                        N (class_number c), T '' ('', T (title class_info),
                        T ''). No obvious class mismatch detected.'']
                       [T ''Confirm specimen clearly shows the mark in actual use ...'']]))))"

definition check_1401_06 :: "TMEP1401Assessor \<Rightarrow> TMEP1401Assessor" where
  "check_1401_06 s =
     foldl (\<lambda>st c. append_findings (class_findings_1401_06 c) st) s (classes (app s))"

subsection \<open>\<open>_check_1401_07_specimen_discloses_special_characteristics\<close>\<close>

text \<open>
  The reclassification triggers: the keywords of the claimed description, the keywords
  the specimen reveals, the true class and the reason. (The field \<open>claimed_class\<close> of a
  trigger is not read by the check.)
\<close>

definition reclassification_triggers :: "(string list \<times> string list \<times> int \<times> string) list" where
  "reclassification_triggers =
     [([''printed manual'', ''printed guide'', ''printed instruction''],
       [''download'', ''online'', ''digital'', ''software'', ''app'', ''website''], 9,
       ''Specimen shows ONLINE/DOWNLOADABLE content. ...''),
      ([''physical software'', ''software disk'', ''cd-rom''],
       [''service'', ''cloud'', ''saas'', ''subscription'', ''access to''], 42,
       ''Specimen reveals this is a SOFTWARE SERVICE (SaaS/cloud), not a downloadable product. ...''),
      ([''clothing'', ''apparel'', ''t-shirt''],
       [''restaurant'', ''menu'', ''food service'', ''dining'', ''catering''], 43,
       ''Specimen shows RESTAURANT/FOOD SERVICES, not clothing. ...''),
      ([''book'', ''publication''],
       [''download'', ''ebook'', ''digital'', ''epub'', ''kindle''], 9,
       ''Specimen shows DOWNLOADABLE/DIGITAL format. ...''),
      ([''software'', ''application'', ''app''],
       [''web-based'', ''saas'', ''subscription service'', ''cloud service'', ''hosted service'',
        ''no download''], 42,
       ''Specimen reveals a WEB-BASED/SAAS service, not a downloaded product. ...'')]"

definition class_findings_1401_07 :: "ClassEntry \<Rightarrow> AssessmentFinding list" where
  "class_findings_1401_07 c =
     (if specimen_description c = [] then []
      else
        (let spec_desc_lower = lower (specimen_description c);
             id_text_lower = lower (identification c)
         in
         case find (\<lambda>trigger. case trigger of (claimed_kws, reveal_kws, true_class, reason) \<Rightarrow>
                      any_in claimed_kws id_text_lower \<and> any_in reveal_kws spec_desc_lower)
                   reclassification_triggers of
           Some (claimed_kws, reveal_kws, true_class, reason) \<Rightarrow>
             [AF ''1401.07'' ''ERROR'' (class_number c)
                 [T ''Specimen reveals reclassification need - Class '', N (class_number c)]
                 [T ''RECLASSIFICATION REQUIRED: ... Identification says: '',
                  T (take 80 (identification c)), T '' Specimen reveals: '', T reason,
                  T '' Current Class: '', N (class_number c), T '' -> Correct Class: '', N true_class]
                 [T ''Amend classification from Class '', N (class_number c), T '' to Class '',
                  N true_class, T '' and update the identification accordingly. ...'']]
         | None \<Rightarrow>
             [AF ''1401.07'' ''OK'' (class_number c)
                 [T ''Class '', N (class_number c), T '' - Specimen characteristic review'']
                 [T ''No special characteristics detected in the specimen that would require reclassification from Class '',
                  N (class_number c), T ''. ...'']
                 [T ''No reclassification required based on specimen characteristics.'']]))"

definition check_1401_07 :: "TMEP1401Assessor \<Rightarrow> TMEP1401Assessor" where
  "check_1401_07 s =
     foldl (\<lambda>st c. append_findings (class_findings_1401_07 c) st) s (classes (app s))"

subsection \<open>\<open>_check_1401_08_classification_and_identification\<close>\<close>

text \<open>
  The class and score at the head of the suggestions for an item, when there are
  suggestions and the class is not the claimed one and the score reaches the threshold.
\<close>

definition top_other_class :: "int \<Rightarrow> int \<Rightarrow> string \<Rightarrow> int option" where
  "top_other_class claimed_class threshold it =
     (case suggest_class_for_keyword it of
        [] \<Rightarrow> None
      | best # _ \<Rightarrow>
          if sug_class best \<noteq> claimed_class \<and> sug_score best \<ge> threshold
          then Some (sug_class best) else None)"

definition class_step_1401_08 :: "TMEP1401Assessor \<Rightarrow> ClassEntry \<Rightarrow> TMEP1401Assessor" where
  "class_step_1401_08 s c =
     (let claimed_class = class_number c in
      case get_class_info claimed_class of
        None \<Rightarrow> s
      | Some class_info \<Rightarrow>
          (let id_items = split_terms (identification c);
               misaligned_items =
                 concat (map (\<lambda>it. case top_other_class claimed_class 7 it of
                                      None \<Rightarrow> [] | Some top_cls \<Rightarrow> [(it, top_cls)]) id_items);
               s1 = append_findings
                      (map (\<lambda>mi. case mi of (it, suggested_class) \<Rightarrow>
                              AF ''1401.08'' ''WARNING'' claimed_class
                                 [T it, T '' in Class '', N claimed_class]
                                 [T ''ALIGNMENT ISSUE: The item '', T it, T '' is listed under Class '',
                                  N claimed_class, T '' ('', T (title class_info),
                                  T ''), but it appears to better align with Class '',
                                  N suggested_class, T '' ('', T (title_or ''Unknown'' suggested_class),
                                  T ''). ...'']
                                 [T ''Either: (a) move '', T it, T '' to Class '', N suggested_class,
                                  T '', or (b) confirm that this item is indeed a '',
                                  T (lower (title class_info)), T '' product/service ...''])
                           misaligned_items) s;
               other_classes_suggested =
                 remdups (concat (map (\<lambda>it. case top_other_class claimed_class 5 it of
                                               None \<Rightarrow> [] | Some top_cls \<Rightarrow> [top_cls]) id_items))
           in
           if length other_classes_suggested \<ge> 2 then
             append_findings
               [AF ''1401.08'' ''WARNING'' claimed_class
                   [T ''Class '', N claimed_class, T '' - Possible multi-class bundling'']
                   [T ''The identification for Class '', N claimed_class,
                    T '' may contain goods/services from multiple different classes. Items in this entry may belong to Classes: '',
                    NS (sort other_classes_suggested), T '' as well as Class '', N claimed_class, T ''.'']
                   [T ''Review the identification and separate goods/services into their correct individual classes. ...'']]
               s1
           else
             (let already_flagged =
                    list_ex (\<lambda>f. tmep_section f = sect ''1401.08'' \<and> f_class_number f = claimed_class
                                  \<and> severity f \<in> set [''ERROR'', ''WARNING'']) (findings s1)
              in
              if \<not> already_flagged then
                append_findings
                  [AF ''1401.08'' ''OK'' claimed_class
                      [T ''Class '', N claimed_class, T '' - Class/Identification Alignment'']
                      [T ''Class '', N claimed_class, T '' ('', T (title class_info),
                       T '') and the identification appear consistent and aligned. ...'']
                      [T ''No action required.'']] s1
              else s1)))"

definition check_1401_08 :: "TMEP1401Assessor \<Rightarrow> TMEP1401Assessor" where
  "check_1401_08 s = foldl class_step_1401_08 s (classes (app s))"

subsection \<open>\<open>_check_1401_09_implementation_of_nice_changes\<close>\<close>

definition current_edition :: string where
  "current_edition = ''12th''"

text \<open>The finding of the \<open>except ValueError\<close> branch.\<close>

definition parse_failure_info :: AssessmentFinding where
  "parse_failure_info =
     AF ''1401.09'' ''INFO'' 0 [T ''Filing date format'']
        [T ''Filing date could not be parsed. Unable to verify Nice edition validity against filing date.'']
        [T ''Provide filing date in YYYY-MM-DD format for edition compliance check.'']"

text \<open>
  The body of the \<open>try\<close> block parses the filing date first, then the two dates of the
  edition; a failure of any of the three leaves the block for the \<open>except\<close> branch.
\<close>

definition check_1401_09 :: "TMEP1401Assessor \<Rightarrow> TMEP1401Assessor" where
  "check_1401_09 s =
     (let edition_used = nice_edition_claimed (app s);
          filing_date_str = filing_date (app s)
      in
      case map_of NICE_EDITION_TIMELINE edition_used of
        None \<Rightarrow>
          append_findings
            [AF ''1401.09'' ''WARNING'' 0 [T ''Nice Edition: '', T edition_used]
                [T ''Unrecognized or unspecified Nice Agreement edition: '', T edition_used,
                 T ''. Cannot verify edition-specific compliance.'']
                [T ''Confirm the application uses the '', T current_edition,
                 T '' Edition of the Nice Agreement (current as of Nov 2025).'']] s
      | Some edition_info \<Rightarrow>
          if filing_date_str \<noteq> [] then
            (case strptime_ymd filing_date_str of
               None \<Rightarrow> append_findings [parse_failure_info] s
             | Some filing_dt \<Rightarrow>
                 (case strptime_ymd (ed_start edition_info) of
                    None \<Rightarrow> append_findings [parse_failure_info] s
                  | Some edition_start \<Rightarrow>
                      (case strptime_ymd (ed_end edition_info) of
                         None \<Rightarrow> append_findings [parse_failure_info] s
                       | Some edition_end \<Rightarrow>
                           if date_less filing_dt edition_start then
                             append_findings
                               [AF ''1401.09'' ''ERROR'' 0
                                   [T ''Edition/Date mismatch: '', T edition_used,
                                    T '' edition, filed '', T filing_date_str]
                                   [T ''Filing date '', T filing_date_str, T '' predates the '',
                                    T edition_used, T '' Edition (effective '',
                                    T (ed_start edition_info), T ''). ...'']
                                   [T ''Use the edition that was in effect on the filing date. ...'']] s
                           else if date_less edition_end filing_dt \<and> edition_used \<noteq> current_edition then
                             append_findings
                               [AF ''1401.09'' ''WARNING'' 0
                                   [T ''Outdated edition: '', T edition_used, T '' (filed '',
                                    T filing_date_str, T '')'']
                                   [T ''Application uses the '', T edition_used,
                                    T '' Edition of the Nice Agreement, but a newer edition was in effect on the filing date '',
                                    T filing_date_str, T ''. Current edition: '', T current_edition, T ''.'']
                                   [T ''Update classification to the '', T current_edition,
                                    T '' Edition requirements. ...'']] s
                           else
                             append_findings
                               [AF ''1401.09'' ''OK'' 0 [T ''Nice Edition Version Check'']
                                   [T ''Application uses the '', T edition_used,
                                    T '' Edition of the Nice Agreement, which was in effect on filing date '',
                                    T filing_date_str, T '' (Edition effective: '',
                                    T (ed_start edition_info), T '' to '',
                                    T (if ed_end edition_info = ''9999-12-31'' then ''present''
                                       else ed_end edition_info), T '').'']
                                   [T ''No edition conflict detected. '',
                                    T (if edition_used = current_edition
                                       then ''This is the current edition.'' else [])]] s)))
          else s)"

subsection \<open>\<open>_check_1401_10_effective_date_id_manual\<close>\<close>

text \<open>The recently added terms: term, date after which it was added, class, remark.\<close>

definition recently_added_terms :: "(string \<times> string \<times> int \<times> string) list" where
  "recently_added_terms =
     [(''non-fungible token'', ''2022-01-01'', 9,
       ''NFT-related downloadable goods were added to Class 9 in the ID Manual after USPTO guidance in 2022.''),
      (''artificial intelligence'', ''2019-01-01'', 42,
       ''AI-specific service descriptions were formally added to the ID Manual in updated USPTO guidance.''),
      (''cryptocurrency'', ''2014-01-01'', 36,
       ''Cryptocurrency financial services were added to Class 36 ID Manual entries.'')]"

text \<open>
  One term of one class entry. When the filing date or the date of the table does not
  parse, the \<open>except ValueError: pass\<close> branch leaves the findings as they are.
\<close>

definition term_findings_1401_10 ::
  "string \<Rightarrow> ClassEntry \<Rightarrow> string \<times> string \<times> int \<times> string \<Rightarrow> AssessmentFinding list" where
  "term_findings_1401_10 filing_date_str c term_info =
     (case term_info of (term, added_after, correct_class, remark) \<Rightarrow>
        if str_in term (lower (identification c)) \<and> filing_date_str \<noteq> [] then
          (case strptime_ymd filing_date_str of
             None \<Rightarrow> []
           | Some filing_dt \<Rightarrow>
               (case strptime_ymd added_after of
                  None \<Rightarrow> []
                | Some added_dt \<Rightarrow>
                    if date_less filing_dt added_dt then
                      [AF ''1401.10'' ''WARNING'' (class_number c)
                          [T term, T '' - ID Manual date check'']
                          [T ''The term '', T term,
                           T '' in the identification may not have been accepted in the ID Manual at the time of filing ('',
                           T filing_date_str, T ''). '', T remark]
                          [T ''Verify this term was acceptable in the USPTO ID Manual at the time of filing. ...'']]
                    else
                      [AF ''1401.10'' ''INFO'' (class_number c)
                          [T term, T '' - Modern term detected'']
                          [T ''Modern/specialized term '', T term, T '' detected. '', T remark,
                           T '' This term is acceptable in the current ID Manual.'']
                          [T ''Ensure identification uses the exact accepted ID Manual language for this term in Class '',
                           N correct_class, T ''.'']]))
        else [])"

definition general_notice_1401_10 :: AssessmentFinding where
  "general_notice_1401_10 =
     AF ''1401.10'' ''INFO'' 0 [T ''ID Manual Compliance'']
        [T ''Per 1401.10, identification language must conform to ID Manual entries as they existed at the time the registration is sought ...'']
        [T ''Verify all identification language against the current USPTO ID Manual at: https://idm.uspto.gov. ...'']"

definition check_1401_10 :: "TMEP1401Assessor \<Rightarrow> TMEP1401Assessor" where
  "check_1401_10 s =
     (let filing_date_str = filing_date (app s);
          s1 = foldl (\<lambda>st c. append_findings
                               (concat (map (term_findings_1401_10 filing_date_str c)
                                          recently_added_terms)) st)
                     s (classes (app s))
      in append_findings [general_notice_1401_10] s1)"

subsection \<open>\<open>_check_1401_11_class42_restructuring_8th_edition\<close>\<close>

definition old_class_42_misplacements :: "(string \<times> int \<times> string) list" where
  "old_class_42_misplacements =
     [(''restaurant'', 43, ''Food/restaurant services -> Class 43 (split from old Class 42 in 8th Ed.)''),
      (''food service'', 43, ''Food services -> Class 43''),
      (''hotel'', 43, ''Hotel/accommodation -> Class 43''),
      (''catering'', 43, ''Catering services -> Class 43''),
      (''accommodation'', 43, ''Accommodation -> Class 43''),
      (''medical service'', 44, ''Medical services -> Class 44 (split from old Class 42 in 8th Ed.)''),
      (''dental service'', 44, ''Dental services -> Class 44''),
      (''veterinary'', 44, ''Veterinary services -> Class 44''),
      (''beauty service'', 44, ''Beauty services -> Class 44''),
      (''salon'', 44, ''Salon services -> Class 44''),
      (''healthcare'', 44, ''Healthcare services -> Class 44''),
      (''legal service'', 45, ''Legal services -> Class 45 (split from old Class 42 in 8th Ed.)''),
      (''law firm'', 45, ''Law firm services -> Class 45''),
      (''security guard'', 45, ''Security guard services -> Class 45''),
      (''social service'', 45, ''Social services -> Class 45'')]"

definition tech_service_keywords :: "string list" where
  "tech_service_keywords =
     [''software'', ''technology'', ''it service'', ''computer'', ''research'', ''cloud'',
      ''saas'', ''data'', ''programming'', ''cybersecurity'', ''network'', ''engineering service'']"

text \<open>The first loop: the class 42 entries against the services moved out of class 42.\<close>

definition misplacement_errors_1401_11 :: "ClassEntry \<Rightarrow> AssessmentFinding list" where
  "misplacement_errors_1401_11 c =
     (if class_number c \<noteq> 42 then []
      else
        map (\<lambda>e. case e of (service_term, correct_class, reason) \<Rightarrow>
               AF ''1401.11'' ''ERROR'' 42 [T service_term, T '' in Class 42'']
                  [T ''POST-8TH EDITION CLASS 42 VIOLATION: '', T service_term,
                   T '' is placed in Class 42, but this service was moved to Class '',
                   N correct_class, T '' ... '', T reason]
                  [T ''Move '', T service_term, T '' from Class 42 to Class '', N correct_class,
                   T ''. ...''])
            (filter (\<lambda>e. str_in (fst e) (lower (identification c))) old_class_42_misplacements))"

text \<open>
  The second part, inside \<open>try\<close>: nothing is appended when the filing date does not
  parse (\<open>except ValueError: pass\<close>).
\<close>

definition date_findings_1401_11 :: "TrademarkApplication \<Rightarrow> AssessmentFinding list" where
  "date_findings_1401_11 a =
     (if filing_date a \<noteq> [] then
        (case strptime_ymd (filing_date a) of
           None \<Rightarrow> []
         | Some filing_dt \<Rightarrow>
             if date_less filing_dt (2002, 1, 1) then
               (case find (\<lambda>c. class_number c \<in> set [43, 44, 45]) (classes a) of
                  Some c \<Rightarrow>
                    [AF ''1401.11'' ''INFO'' (class_number c)
                        [T ''Pre-8th Edition filing using Class '', N (class_number c)]
                        [T ''This application has a filing date ('', T (filing_date a),
                         T '') BEFORE the 8th Edition restructuring of Class 42 ...'']
                        [T ''Review the application against the edition in effect at the time of filing. ...'']]
                | None \<Rightarrow> [])
             else
               (let class_42_entries = filter (\<lambda>c. class_number c = 42) (classes a) in
                if class_42_entries = [] then
                  [AF ''1401.11'' ''INFO'' 0 [T ''Class 42 Restructuring Check'']
                      [T ''No Class 42 entries in this application. ...'']
                      [T ''No action required for 1401.11.'']]
                else
                  map (\<lambda>cls42.
                         AF ''1401.11'' ''OK'' 42 [T ''Class 42 usage (post-8th Edition)'']
                            [T ''Class 42 is being used for technology/scientific services consistent with the post-8th Edition restructuring.'']
                            [T ''No action required.''])
                      (filter (\<lambda>cls42. any_in tech_service_keywords (lower (identification cls42)))
                         class_42_entries)))
      else [])"

definition check_1401_11 :: "TMEP1401Assessor \<Rightarrow> TMEP1401Assessor" where
  "check_1401_11 s =
     (let s1 = foldl (\<lambda>st c. append_findings (misplacement_errors_1401_11 c) st) s (classes (app s))
      in append_findings (date_findings_1401_11 (app s1)) s1)"

subsection \<open>\<open>_check_1401_12_9th_edition_changes\<close>\<close>

text \<open>The changes of the 9th edition: old class, old term, new class, remark.\<close>

definition ninth_edition_changes :: "(int \<times> string \<times> int \<times> string) list" where
  "ninth_edition_changes =
     [(41, ''Internet access provider'', 38,
       ''Internet access provider services: Class 41 -> Class 38 (Telecom) in 9th Ed.'')]"

definition class_findings_1401_12 :: "ClassEntry \<Rightarrow> AssessmentFinding list" where
  "class_findings_1401_12 c =
     map (\<lambda>change. case change of (old_class, old_term, new_class, remark) \<Rightarrow>
            AF ''1401.12'' ''WARNING'' (class_number c)
               [T old_term, T '' in Class '', N old_class]
               [T ''9TH EDITION CHANGE: '', T old_term, T '' was reclassified from Class '',
                N old_class, T '' to Class '', N new_class, T '' in the 9th Edition. '', T remark]
               [T ''Move '', T old_term, T '' from Class '', N old_class, T '' to Class '',
                N new_class, T ''.''])
         (filter (\<lambda>change. case change of (old_class, old_term, new_class, remark) \<Rightarrow>
                    class_number c = old_class
                    \<and> str_in (lower old_term) (lower (identification c)))
            ninth_edition_changes)"

definition check_1401_12 :: "TMEP1401Assessor \<Rightarrow> TMEP1401Assessor" where
  "check_1401_12 s =
     (let s1 = foldl (\<lambda>st c. append_findings (class_findings_1401_12 c) st) s (classes (app s))
      in append_findings
           [AF ''1401.12'' ''INFO'' 0 [T ''9th Edition Nice Agreement Review'']
               [T ''9th Edition (2002-2006): Key changes included refinements to educational and entertainment services (Class 41), ...'']
               [T ''If application was filed during 2002-2006, verify against 9th Edition ID Manual entries. ...'']]
           s1)"

subsection \<open>\<open>_check_1401_13_10th_edition_changes\<close>\<close>

definition digital_content_terms :: "string list" where
  "digital_content_terms =
     [''downloadable music'', ''downloadable video'', ''downloadable ringtone'',
      ''downloadable image'', ''downloadable audio'', ''downloadable software'',
      ''downloadable ebook'', ''downloadable digital content'']"

definition class_findings_1401_13 :: "ClassEntry \<Rightarrow> AssessmentFinding list" where
  "class_findings_1401_13 c =
     (let id_text_lower = lower (identification c) in
      map (\<lambda>term.
             AF ''1401.13'' ''ERROR'' (class_number c)
                [T term, T '' in Class '', N (class_number c)]
                [T ''10TH EDITION CHANGE VIOLATION: '', T term,
                 T '' is a DOWNLOADABLE DIGITAL PRODUCT. ... not in Class '', N (class_number c), T ''.'']
                [T ''Move '', T term, T '' to Class 9 (Scientific and Electronic Apparatus). ...''])
          (filter (\<lambda>term. str_in term id_text_lower \<and> class_number c \<noteq> 9) digital_content_terms) @
      (if class_number c = 9 \<and> any_in digital_content_terms id_text_lower then
         [AF ''1401.13'' ''OK'' 9 [T ''Class 9 - Downloadable digital content'']
             [T ''Downloadable digital content correctly placed in Class 9 per 10th Edition Nice Agreement expansion.'']
             [T ''Ensure identification specifies downloadable to distinguish from streaming services ...'']]
       else []))"

definition check_1401_13 :: "TMEP1401Assessor \<Rightarrow> TMEP1401Assessor" where
  "check_1401_13 s =
     foldl (\<lambda>st c. append_findings (class_findings_1401_13 c) st) s (classes (app s))"

subsection \<open>\<open>_check_1401_14_11th_edition_changes\<close>\<close>

text \<open>The checks of the 11th edition: term, expected class, remark.\<close>

definition eleventh_edition_checks :: "(string \<times> int \<times> string) list" where
  "eleventh_edition_checks =
     [(''online marketplace'', 35, ''11th Ed.: Online marketplace/platform services added explicitly to Class 35.''),
      (''retail store'', 35, ''11th Ed.: Online retail store services confirmed in Class 35.''),
      (''social media'', 38, ''11th Ed.: Social media platform services added to Class 38 (telecom).''),
      (''online social network'', 38, ''11th Ed.: Online social networking services -> Class 38.''),
      (''saas'', 42, ''11th Ed.: Software as a Service (SaaS) explicitly codified in Class 42.''),
      (''cloud computing'', 42, ''11th Ed.: Cloud computing services added to Class 42.''),
      (''platform as a service'', 42, ''11th Ed.: PaaS services -> Class 42.'')]"

definition class_findings_1401_14 :: "ClassEntry \<Rightarrow> AssessmentFinding list" where
  "class_findings_1401_14 c =
     map (\<lambda>chk. case chk of (term, expected_class, remark) \<Rightarrow>
            if class_number c \<noteq> expected_class then
              AF ''1401.14'' ''ERROR'' (class_number c)
                 [T term, T '' in Class '', N (class_number c)]
                 [T ''11TH EDITION CHANGE: '', T term, T '' should be in Class '', N expected_class,
                  T '' per 11th Edition changes. '', T remark, T '' Currently placed in Class '',
                  N (class_number c), T ''.'']
                 [T ''Move '', T term, T '' to Class '', N expected_class, T ''.'']
            else
              AF ''1401.14'' ''OK'' (class_number c)
                 [T term, T '' classification (11th Edition)'']
                 [T term, T '' correctly placed in Class '', N (class_number c),
                  T '' per 11th Edition Nice Agreement changes.'']
                 [T ''No action required.''])
         (filter (\<lambda>chk. str_in (fst chk) (lower (identification c))) eleventh_edition_checks)"

definition check_1401_14 :: "TMEP1401Assessor \<Rightarrow> TMEP1401Assessor" where
  "check_1401_14 s =
     foldl (\<lambda>st c. append_findings (class_findings_1401_14 c) st) s (classes (app s))"

subsection \<open>\<open>_check_1401_15_12th_edition_changes\<close>\<close>

text \<open>The checks of the 12th edition: term, expected class, wrong-class examples, remark.\<close>

definition twelfth_edition_checks :: "(string \<times> int \<times> int list \<times> string) list" where
  "twelfth_edition_checks =
     [(''artificial intelligence'', 42, [9, 35],
       ''12th Ed.: AI services (AI software development, AI consulting) -> Class 42.''),
      (''machine learning'', 42, [9, 35], ''12th Ed.: Machine learning services -> Class 42.''),
      (''non-fungible token'', 9, [35, 36],
       ''12th Ed.: NFT digital files/goods -> Class 9. NFT marketplace services -> Class 35.''),
      (''nft'', 9, [35, 36, 42],
       ''12th Ed.: Downloadable NFT goods -> Class 9. NFT authentication services -> Class 42.''),
      (''virtual goods'', 9, [28, 35],
       ''12th Ed.: Virtual/digital goods (metaverse items, in-game items) -> Class 9.''),
      (''blockchain'', 42, [9, 36],
       ''12th Ed.: Blockchain technology services -> Class 42. Blockchain financial services -> Class 36.''),
      (''metaverse'', 41, [9, 42],
       ''12th Ed.: Metaverse entertainment/virtual events -> Class 41. Virtual goods within metaverse -> Class 9.'')]"

definition class_findings_1401_15 :: "ClassEntry \<Rightarrow> AssessmentFinding list" where
  "class_findings_1401_15 c =
     concat (map (\<lambda>chk. case chk of (term, expected_class, wrong_class_examples, remark) \<Rightarrow>
                    if str_in term (lower (identification c)) then
                      (if class_number c \<in> set wrong_class_examples then
                         [AF ''1401.15'' ''WARNING'' (class_number c)
                             [T term, T '' in Class '', N (class_number c)]
                             [T ''12TH EDITION (CURRENT) NOTE: '', T term,
                              T '' may be misplaced in Class '', N (class_number c), T ''. '', T remark]
                             [T ''Per the 12th Edition Nice Agreement (current), consider whether '',
                              T term, T '' belongs in Class '', N expected_class, T ''. ...'']]
                       else if class_number c = expected_class then
                         [AF ''1401.15'' ''OK'' (class_number c)
                             [T term, T '' - 12th Edition compliance'']
                             [T term, T '' correctly placed in Class '', N (class_number c),
                              T '' per 12th Edition Nice Agreement (current edition). '', T remark]
                             [T ''No action required.'']]
                       else [])
                    else [])
               twelfth_edition_checks)"

definition check_1401_15 :: "TMEP1401Assessor \<Rightarrow> TMEP1401Assessor" where
  "check_1401_15 s =
     (let s1 = foldl (\<lambda>st c. append_findings (class_findings_1401_15 c) st) s (classes (app s))
      in append_findings
           [AF ''1401.15'' ''INFO'' 0 [T ''12th Edition (Current) Compliance - Nov 2025'']
               [T ''This assessment is based on the 12th Edition of the Nice Agreement (effective January 1, 2023), ...'']
               [T ''Ensure all identification language conforms to 12th Edition requirements and current USPTO ID Manual entries.'']]
           s1)"

subsection \<open>\<open>run_full_assessment\<close>\<close>

text \<open>
  The entry point clears the findings and runs the fifteen checks in sequence; it
  returns \<open>self.findings\<close>, which is the field \<open>findings\<close> of the assessor returned here.
  An exception that leaves a check leaves the entry point as well (\<open>Inl\<close>).
\<close>

definition checks_04_to_15 :: "TMEP1401Assessor \<Rightarrow> TMEP1401Assessor" where
  "checks_04_to_15 s =
     check_1401_15 (check_1401_14 (check_1401_13 (check_1401_12 (check_1401_11
       (check_1401_10 (check_1401_09 (check_1401_08 (check_1401_07 (check_1401_06
          (check_1401_05 (check_1401_04 s)))))))))))"

definition run_full_assessment :: "TMEP1401Assessor \<Rightarrow> error + TMEP1401Assessor" where
  "run_full_assessment s0 =
     (let s = s0\<lparr>findings := []\<rparr>;
          s1 = check_1401_01 s;
          s2 = check_1401_02 s1
      in case check_1401_03 s2 of
           Inl e \<Rightarrow> Inl e
         | Inr s3 \<Rightarrow> Inr (checks_04_to_15 s3))"

text \<open>What a check appended: the findings of the assessor after it, past those before.\<close>

definition new_findings ::
  "(TMEP1401Assessor \<Rightarrow> TMEP1401Assessor) \<Rightarrow> TMEP1401Assessor \<Rightarrow> AssessmentFinding list" where
  "new_findings check s = drop (length (findings s)) (findings (check s))"

text \<open>A class entry with the defaults of the dataclass, and an application with its defaults.\<close>

definition entry :: "int \<Rightarrow> string \<Rightarrow> ClassEntry" where
  "entry n ident =
     \<lparr>class_number = n, identification = ident, specimen_type = [],
      specimen_description = [], fee_paid = True, filing_basis = ''1(a)'',
      date_of_first_use = None, date_of_first_use_commerce = None,
      flags = [], suggestions = []\<rparr>"

definition application :: "ClassEntry list \<Rightarrow> int \<Rightarrow> string \<Rightarrow> TrademarkApplication" where
  "application cs paid fdate =
     \<lparr>applicant_name = [], mark_text = [], mark_type = ''standard_character'',
      filing_date = fdate, nice_edition_claimed = ''12th'', application_serial = [],
      filing_type = ''TEAS_PLUS'', classes = cs, fees_paid_count = paid,
      total_fee_paid = 0, is_multi_class = False, app_notes = []\<rparr>"

definition assessor :: "TrademarkApplication \<Rightarrow> TMEP1401Assessor" where
  "assessor a = \<lparr>app = a, findings = []\<rparr>"

section \<open>Pillar 3: the multi-class assessor (tmep_1403_pillar3.py)\<close>

text \<open>
  Field names that an earlier record already uses carry a prefix (\<open>cs_\<close> for
  ClassSummary, \<open>ctx_\<close> for MultiClassApplicationContext, \<open>p3_\<close> for Pillar3Finding
  and the assessor).
\<close>

datatype ClassStatus = CLEAN | HAS_WARNINGS | HAS_ERRORS | REFUSAL_CANDIDATE

datatype ApplicationStage =
  PRE_FILING | FILED_PENDING | OFFICE_ACTION | STATEMENT_OF_USE | REGISTERED | POST_REGISTRATION

definition stage_value :: "ApplicationStage \<Rightarrow> string" where
  "stage_value st =
     (case st of PRE_FILING \<Rightarrow> ''PRE_FILING'' | FILED_PENDING \<Rightarrow> ''FILED_PENDING''
      | OFFICE_ACTION \<Rightarrow> ''OFFICE_ACTION'' | STATEMENT_OF_USE \<Rightarrow> ''STATEMENT_OF_USE''
      | REGISTERED \<Rightarrow> ''REGISTERED'' | POST_REGISTRATION \<Rightarrow> ''POST_REGISTRATION'')"

record ClassSummary =
  cs_class_number :: int
  class_title :: string
  class_category :: string
  cs_identification :: string
  cs_filing_basis :: string
  cs_specimen_type :: string
  cs_specimen_description :: string
  cs_date_of_first_use :: "string option"
  cs_date_of_first_use_commerce :: "string option"
  cs_fee_paid :: bool
  p1_error_count :: int
  p1_warning_count :: int
  p1_error_messages :: "string list"
  p2_is_definite :: bool
  p2_error_count :: int
  p2_warning_count :: int
  p2_error_messages :: "string list"
  status :: ClassStatus

definition has_any_error :: "ClassSummary \<Rightarrow> bool" where
  "has_any_error c = (p1_error_count c > 0 \<or> p2_error_count c > 0)"

definition has_any_warning :: "ClassSummary \<Rightarrow> bool" where
  "has_any_warning c = (p1_warning_count c > 0 \<or> p2_warning_count c > 0)"

definition is_use_based :: "ClassSummary \<Rightarrow> bool" where
  "is_use_based c = (cs_filing_basis c \<in> set [''1(a)'', ''44(e)''])"

definition is_intent_to_use :: "ClassSummary \<Rightarrow> bool" where
  "is_intent_to_use c = (cs_filing_basis c = ''1(b)'')"

record MultiClassApplicationContext =
  ctx_applicant_name :: string
  ctx_mark_text :: string
  ctx_filing_date :: string
  ctx_filing_type :: string
  ctx_fees_paid_count :: int
  ctx_total_fee_paid :: real
  application_stage :: ApplicationStage
  amendment_requested :: bool
  amendment_affects_classes :: "int list"
  amendment_description :: string
  division_requested :: bool
  classes_to_divide_out :: "int list"
  surrender_requested :: bool
  classes_to_surrender :: "int list"
  post_filing_action_type :: string

record Pillar3Finding =
  p3_tmep_section :: string
  p3_severity :: string
  p3_class_number :: int
  p3_item :: ftext
  p3_finding :: ftext
  p3_recommendation :: ftext
  triggered_by :: ftext

text \<open>
  \<open>partial_refusal_reasons\<close> maps a class number to its reasons; the source joins
  them with \<open>"; "\<close> into one string, the model keeps the list.
\<close>

record Pillar3AssessmentResult =
  r_findings :: "Pillar3Finding list"
  division_eligible_classes :: "int list"
  division_recommended :: bool
  partial_refusal_classes :: "int list"
  partial_refusal_reasons :: "int \<rightharpoonup> string list"
  is_multi_class_compliant :: bool
  total_errors :: int
  total_warnings :: int

record Pillar3Assessor =
  p3_classes :: "ClassSummary list"
  ctx :: MultiClassApplicationContext
  p3_findings :: "Pillar3Finding list"

definition P3 ::
  "string \<Rightarrow> string \<Rightarrow> int \<Rightarrow> ftext \<Rightarrow> ftext \<Rightarrow> ftext \<Rightarrow> ftext \<Rightarrow> Pillar3Finding" where
  "P3 sec sev cn it fi re tb =
     \<lparr>p3_tmep_section = sect sec, p3_severity = sev, p3_class_number = cn, p3_item = it,
      p3_finding = fi, p3_recommendation = re, triggered_by = tb\<rparr>"

definition p3_append :: "Pillar3Finding list \<Rightarrow> Pillar3Assessor \<Rightarrow> Pillar3Assessor" where
  "p3_append fs s = s\<lparr>p3_findings := p3_findings s @ fs\<rparr>"

text \<open>\<open>Pillar3Assessor.USPTO_FEES.get(self.ctx.filing_type, 350)\<close>.\<close>

definition p3_fee_per_class :: "MultiClassApplicationContext \<Rightarrow> int" where
  "p3_fee_per_class c = dict_get USPTO_FEES (ctx_filing_type c) 350"

definition cls_label :: "ClassSummary \<Rightarrow> ftext" where
  "cls_label c = [T ''Class '', N (cs_class_number c), T '' ('', T (class_title c), T '')'']"

text \<open>Truth value of an \<open>Optional[str]\<close>: false for \<open>None\<close> and for the empty string.\<close>

definition truthy :: "string option \<Rightarrow> bool" where
  "truthy v = (case v of None \<Rightarrow> False | Some t \<Rightarrow> t \<noteq> [])"

subsection \<open>\<open>_check_1403_01_multi_class_requirements\<close>\<close>

text \<open>The findings one turn of the loop over the classes appends, check by check.\<close>

definition check1_1403_01 :: "ClassSummary \<Rightarrow> Pillar3Finding" where
  "check1_1403_01 c =
     (if cs_identification c = [] \<or> length (strip (cs_identification c)) < 5 then
        P3 ''1403.01'' ''ERROR'' (cs_class_number c)
           (cls_label c @ [T '' - Missing identification''])
           [T ''No identification of goods/services found for this class. ...'']
           [T ''Provide a complete identification of goods/services for this class.'']
           [T ''P1:ClassEntry.identification'']
      else if \<not> p2_is_definite c then
        P3 ''1403.01'' ''ERROR'' (cs_class_number c)
           (cls_label c @ [T '' - Identification not definite (Pillar 2)''])
           ([T ''Pillar 2 (1402) determined the identification for ''] @ cls_label c @
            [T '' is NOT sufficiently definite. Issues: '',
             (if p2_error_messages c \<noteq> [] then TS (take 2 (p2_error_messages c))
              else T ''Identification does not meet 1402 specificity standards'')])
           [T ''Amend the identification to meet 1402 specificity requirements ...'']
           [T ''P2:1402.03'']
      else
        P3 ''1403.01'' ''OK'' (cs_class_number c)
           (cls_label c @ [T '' - Identification''])
           [T ''Separate, definite identification present for this class.'']
           [T ''No action required.''] [])"

definition check2_1403_01 :: "MultiClassApplicationContext \<Rightarrow> ClassSummary \<Rightarrow> Pillar3Finding" where
  "check2_1403_01 cx c =
     (if \<not> cs_fee_paid c then
        P3 ''1403.01'' ''ERROR'' (cs_class_number c)
           (cls_label c @ [T '' - Fee not paid''])
           ([T ''No filing fee was paid for ''] @ cls_label c @ [T ''. ...''])
           ([T ''Submit the per-class fee ($'', N (p3_fee_per_class cx), T '') for ''] @
            cls_label c @ [T '' to avoid deletion of this class.''])
           [T ''P1:1401.04'']
      else
        P3 ''1403.01'' ''OK'' (cs_class_number c)
           (cls_label c @ [T '' - Fee'']) [T ''Fee paid for this class.'']
           [T ''No action required.''] [])"

definition check3_1403_01 :: "ClassSummary \<Rightarrow> Pillar3Finding" where
  "check3_1403_01 c =
     (if is_use_based c then
        (if cs_specimen_type c = [] \<and> cs_specimen_description c = [] then
           P3 ''1403.01'' ''ERROR'' (cs_class_number c)
              (cls_label c @ [T '' - Specimen missing''])
              ([T ''No specimen provided for ''] @ cls_label c @ [T ''. ...''])
              [T ''Submit a specimen showing the mark in actual commercial use ...'']
              [T ''P1:1401.06'']
         else if p1_error_count c > 0 \<and>
                 list_ex (\<lambda>m. str_in ''specimen'' (lower m)) (p1_error_messages c) then
           P3 ''1403.01'' ''ERROR'' (cs_class_number c)
              (cls_label c @ [T '' - Specimen invalid (Pillar 1)''])
              ([T ''Pillar 1 detected a specimen issue for ''] @ cls_label c @
               [T '': '', TS (filter (\<lambda>m. str_in ''specimen'' (lower m)) (p1_error_messages c))])
              [T ''Replace the specimen with an acceptable one for this class. ...'']
              [T ''P1:1401.06'']
         else
           P3 ''1403.01'' ''OK'' (cs_class_number c)
              (cls_label c @ [T '' - Specimen''])
              [T ''Specimen present: '', T (cs_specimen_type c), T ''.'']
              [T ''No action required.''] [])
      else
        P3 ''1403.01'' ''INFO'' (cs_class_number c)
           (cls_label c @ [T '' - Specimen (1(b))''])
           [T ''Intent-to-use basis ('', T (cs_filing_basis c),
            T ''). No specimen required at this stage.'']
           [T ''Specimen must be submitted with Statement of Use.''] [])"

definition check4_1403_01 :: "ClassSummary \<Rightarrow> Pillar3Finding" where
  "check4_1403_01 c =
     (let p1_class_errors =
            filter (\<lambda>m. any_in [''misclassif'', ''class'', ''wrong'', ''incorrect'', ''reclassif'']
                           (lower m))
                   (p1_error_messages c)
      in
      if p1_class_errors \<noteq> [] then
        P3 ''1403.01'' ''ERROR'' (cs_class_number c)
           (cls_label c @ [T '' - Classification issue (Pillar 1)''])
           ([T ''Pillar 1 (1401.03) detected incorrect class assignment for ''] @ cls_label c @
            [T '': '', T (take 120 (hd p1_class_errors))])
           [T ''Correct the class assignment per Pillar 1 recommendations ...'']
           [T ''P1:1401.03'']
      else
        (let has_p1_class_warning = (p1_warning_count c > 0) in
         P3 ''1403.01'' (if has_p1_class_warning then ''WARNING'' else ''OK'') (cs_class_number c)
            (cls_label c @ [T '' - Class assignment''])
            (if has_p1_class_warning
             then [T ''Pillar 1 raised '', N (p1_warning_count c),
                   T '' warning(s) about the class assignment - review recommended.'']
             else [T ''No class assignment errors detected for this class.''])
            (if has_p1_class_warning then [T ''Review Pillar 1 warnings for this class.'']
             else [T ''No action required.''])
            [T ''P1:1401.03'']))"

definition check5_1403_01 :: "ClassSummary \<Rightarrow> Pillar3Finding list" where
  "check5_1403_01 c =
     (if is_use_based c then
        (let missing_dates =
               (if \<not> truthy (cs_date_of_first_use c) then [''date of first use anywhere''] else []) @
               (if \<not> truthy (cs_date_of_first_use_commerce c)
                then [''date of first use in commerce''] else [])
         in
         if missing_dates \<noteq> [] then
           [P3 ''1403.01'' ''WARNING'' (cs_class_number c)
               (cls_label c @ [T '' - Missing dates of use''])
               ([T ''Missing for ''] @ cls_label c @ [T '': '', TS missing_dates, T ''. ...''])
               [T ''Add separate dates of first use (anywhere) and first use in commerce for this class.'']
               [T ''P1:ClassEntry.date_of_first_use'']]
         else
           [P3 ''1403.01'' ''OK'' (cs_class_number c)
               (cls_label c @ [T '' - Dates of use''])
               [T ''First use: '', T (the (cs_date_of_first_use c)),
                T '' | First use in commerce: '', T (the (cs_date_of_first_use_commerce c))]
               [T ''No action required.''] []])
      else [])"

definition class_findings_1403_01 ::
  "MultiClassApplicationContext \<Rightarrow> ClassSummary \<Rightarrow> Pillar3Finding list" where
  "class_findings_1403_01 cx c =
     [check1_1403_01 c, check2_1403_01 cx c, check3_1403_01 c, check4_1403_01 c] @
     check5_1403_01 c"

definition fee_count_1403_01 :: "Pillar3Assessor \<Rightarrow> Pillar3Finding list" where
  "fee_count_1403_01 s =
     (let unique_cls_count = int (card (cs_class_number ` set (p3_classes s)));
          fees_paid = ctx_fees_paid_count (ctx s)
      in
      if fees_paid > 0 \<and> fees_paid \<noteq> unique_cls_count then
        (let shortage = unique_cls_count - fees_paid in
         [P3 ''1403.01'' (if shortage > 0 then ''ERROR'' else ''WARNING'') 0
             [T ''Application-level fee count: '', N fees_paid, T '' paid, '',
              N unique_cls_count, T '' classes'']
             [T (if shortage > 0 then ''UNDERPAYMENT'' else ''OVERPAYMENT''), T '': '',
              N fees_paid, T '' fee(s) submitted but '', N unique_cls_count,
              T '' class(es) filed. '',
              T (if shortage > 0 then ''Shortage: '' else ''Excess: ''), N (abs shortage),
              T '' fee(s).'']
             (if shortage > 0
              then [T ''Submit '', N (abs shortage), T '' additional fee(s) at $'',
                    N (p3_fee_per_class (ctx s)), T ''/class. Unpaid classes will be deleted.'']
              else [T ''Request refund for excess fees or add additional classes.''])
             [T ''P1:1401.04'']])
      else if fees_paid > 0 then
        [P3 ''1403.01'' ''OK'' 0 [T ''Application-level fee count'']
            [T ''Fee count matches class count: '', N fees_paid, T '' fee(s) for '',
             N unique_cls_count, T '' class(es).'']
            [T ''No action required.''] []]
      else [])"

definition check_1403_01 :: "Pillar3Assessor \<Rightarrow> Pillar3Assessor" where
  "check_1403_01 s =
     (let s1 = foldl (\<lambda>st c. p3_append (class_findings_1403_01 (ctx st) c) st) s (p3_classes s)
      in p3_append (fee_count_1403_01 s1) s1)"


subsection \<open>\<open>_check_1403_02_amendment_review\<close>\<close>

definition amendment_stopwords :: "string list" where
  "amendment_stopwords =
     [''and'', ''or'', ''for'', ''the'', ''of'', ''in'', ''a'', ''an'',
      ''to'', ''with'', ''by'', ''from'', ''on'', ''at'']"

text \<open>
  \<open>amended_words & other_words - {...}\<close>: the difference binds tighter than the
  intersection. Python lists a set in no fixed order; the model lists the shared words in
  the order of their first occurrence in the amended identification. Only the number of
  elements decides.
\<close>

definition shared_words :: "ClassSummary \<Rightarrow> ClassSummary \<Rightarrow> string list" where
  "shared_words c other =
     (let amended_words = split_ws (lower (cs_identification c));
          other_words = split_ws (lower (cs_identification other))
      in remdups (filter (\<lambda>w. w \<in> set other_words \<and> w \<notin> set amendment_stopwords)
                         amended_words))"

text \<open>The pairs at which the nested loops append a conflict, in loop order.\<close>

definition conflict_pairs :: "int list \<Rightarrow> ClassSummary list \<Rightarrow> (ClassSummary \<times> ClassSummary) list" where
  "conflict_pairs affected cs =
     concat (map (\<lambda>c.
       if cs_class_number c \<notin> set affected then []
       else concat (map (\<lambda>other.
              if cs_class_number other \<in> set affected then []
              else if length (shared_words c other) \<ge> 3 then [(c, other)] else []) cs)) cs)"

definition conflict_finding :: "ClassSummary \<times> ClassSummary \<Rightarrow> Pillar3Finding" where
  "conflict_finding p =
     (case p of (c, other) \<Rightarrow>
        P3 ''1403.02'' ''WARNING'' (cs_class_number c)
           [T ''Cross-class amendment conflict: Class '', N (cs_class_number c),
            T '' <-> Class '', N (cs_class_number other)]
           [T ''Amending Class '', N (cs_class_number c), T '' may affect Class '',
            N (cs_class_number other), T '' - they share terminology: '',
            TS (take 5 (shared_words c other)), T ''. ...'']
           [T ''Review whether the amendment to Class '', N (cs_class_number c),
            T '' creates any scope overlap with Class '', N (cs_class_number other), T ''. ...'']
           [T ''P1+P2:Class'', N (cs_class_number c), T ''<->Class'', N (cs_class_number other)])"

definition broadening_keywords :: "string list" where
  "broadening_keywords =
     [''add'', ''adding'', ''expand'', ''include'', ''broader'', ''additional'',
      ''new goods'', ''new services'', ''new class'']"

definition broadening_guard :: "MultiClassApplicationContext \<Rightarrow> Pillar3Finding list" where
  "broadening_guard cx =
     (if amendment_description cx \<noteq> [] \<and>
         any_in broadening_keywords (lower (amendment_description cx))
      then [P3 ''1403.02'' ''ERROR'' 0 [T ''Amendment may attempt to broaden scope'']
               [T ''Amendment description '', T (take 80 (amendment_description cx)),
                T '' contains language suggesting scope broadening. ...'']
               [T ''Amendments may only CLARIFY or LIMIT the identification. ...''] []]
      else [])"

text \<open>The check returns the list \<open>conflict_classes\<close> with the assessor.\<close>

definition check_1403_02 :: "Pillar3Assessor \<Rightarrow> int list \<times> Pillar3Assessor" where
  "check_1403_02 s =
     (if \<not> amendment_requested (ctx s) then
        ([], p3_append
               [P3 ''1403.02'' ''INFO'' 0 [T ''No amendment in this assessment'']
                   [T ''No amendment has been requested. 1403.02 amendment rules are noted for reference.'']
                   [T ''When filing any amendment, ensure changes are class-specific ...''] []] s)
      else
        (let affected = amendment_affects_classes (ctx s);
             all_class_numbers = map cs_class_number (p3_classes s)
         in
         if affected = [] \<or> set affected = set all_class_numbers then
           ([], p3_append
                  ([P3 ''1403.02'' ''WARNING'' 0 [T ''Amendment scope: ALL classes'']
                       [T ''The requested amendment appears to affect all classes ('',
                        NS (sort all_class_numbers), T ''). ...'']
                       [T ''Confirm which classes actually need amendment. ...''] []] @
                   broadening_guard (ctx s)) s)
         else
           (let pairs = conflict_pairs affected (p3_classes s);
                conflict_classes = map (\<lambda>p. cs_class_number (fst p)) pairs
            in (conflict_classes,
                p3_append
                  (map conflict_finding pairs @
                   (if conflict_classes = [] then
                      [P3 ''1403.02'' ''OK'' 0
                          [T ''Amendment scope: Class(es) '', NS (sort affected), T '' only'']
                          [T ''Amendment is limited to Class(es) '', NS (sort affected),
                           T ''. No obvious cross-class terminology conflicts detected.'']
                          [T ''Ensure the amendment is filed with correct class-specific language ...'']
                          []]
                    else []) @
                   broadening_guard (ctx s)) s))))"

subsection \<open>\<open>_check_1403_03_division_eligibility\<close>\<close>

text \<open>One turn of the loop over \<open>classes_to_divide_out\<close>: the eligible list and the assessor.\<close>

definition divide_step ::
  "int list \<times> Pillar3Assessor \<Rightarrow> int \<Rightarrow> int list \<times> Pillar3Assessor" where
  "divide_step st cls_num =
     (case st of (division_eligible, s) \<Rightarrow>
        (case find (\<lambda>c. cs_class_number c = cls_num) (p3_classes s) of
           None \<Rightarrow> (division_eligible, s)
         | Some c \<Rightarrow>
             (let issues =
                    (if strip (cs_identification c) = [] then [''missing identification''] else []) @
                    (if is_use_based c \<and> cs_specimen_type c = [] then [''missing specimen''] else []) @
                    (if \<not> cs_fee_paid c then [''fee not paid''] else [])
              in
              if issues \<noteq> [] then
                (division_eligible,
                 p3_append
                   [P3 ''1403.03'' ''ERROR'' cls_num
                       [T ''Class '', N cls_num, T '' - Cannot divide: incomplete requirements'']
                       [T ''Class '', N cls_num,
                        T '' cannot be divided out because it does not meet standalone filing requirements: '',
                        TS issues, T ''. A divided application must be complete in itself.'']
                       [T ''Resolve these issues before dividing: '', TS issues, T ''.''] []] s)
              else
                (division_eligible @ [cls_num],
                 p3_append
                   [P3 ''1403.03'' ''OK'' cls_num
                       [T ''Class '', N cls_num, T '' - Division eligible'']
                       [T ''Class '', N cls_num,
                        T '' meets all standalone requirements and can be divided into its own application.'']
                       [T ''Proceed with division request for Class '', N cls_num, T ''. ...''] []] s))))"

definition check_1403_03 :: "Pillar3Assessor \<Rightarrow> int list \<times> Pillar3Assessor" where
  "check_1403_03 s =
     (let error_classes = filter has_any_error (p3_classes s);
          clean_classes = filter (\<lambda>c. \<not> has_any_error c) (p3_classes s);
          use_based = filter is_use_based (p3_classes s);
          intent_to_use = filter is_intent_to_use (p3_classes s)
      in
      if division_requested (ctx s) then
        (let to_divide = classes_to_divide_out (ctx s);
             remaining = map cs_class_number
                           (filter (\<lambda>c. cs_class_number c \<notin> set to_divide) (p3_classes s))
         in
         case foldl divide_step ([], s) to_divide of
           (division_eligible, s1) \<Rightarrow>
             (division_eligible,
              if remaining \<noteq> [] then
                p3_append
                  [P3 ''1403.03'' ''INFO'' 0
                      [T ''Remaining after division: Class(es) '', NS (sort remaining)]
                      [T ''After dividing out Class(es) '', NS (sort to_divide),
                       T '', the parent application retains Class(es) '', NS (sort remaining), T ''.'']
                      [T ''Verify the parent application remains complete ...''] []] s1
              else s1))
      else if error_classes \<noteq> [] \<and> clean_classes \<noteq> [] then
        (let error_cls_nums = map cs_class_number error_classes;
             clean_cls_nums = map cs_class_number clean_classes
         in (clean_cls_nums,
             p3_append
               [P3 ''1403.03'' ''WARNING'' 0
                   [T ''Division RECOMMENDED - Clean vs. problem classes detected'']
                   [T ''DIVISION ANALYSIS (1403.03): Class(es) '', NS (sort clean_cls_nums),
                    T '' are clean, but Class(es) '', NS (sort error_cls_nums),
                    T '' have errors. Without division, the errors in '', NS (sort error_cls_nums),
                    T '' will delay registration for the clean classes too.'']
                   [T ''Consider dividing Class(es) '', NS (sort clean_cls_nums), T '' ...''] []] s))
      else if use_based \<noteq> [] \<and> intent_to_use \<noteq> [] then
        (let itu_nums = map cs_class_number intent_to_use;
             use_nums = map cs_class_number use_based
         in (use_nums,
             p3_append
               [P3 ''1403.03'' ''INFO'' 0 [T ''Mixed filing basis - potential division candidate'']
                   [T ''Application has mixed filing bases: Class(es) '', NS (sort use_nums),
                    T '' are 1(a) use-based; Class(es) '', NS (sort itu_nums),
                    T '' are 1(b) intent-to-use. ...'']
                   [T ''Consider dividing the 1(a) classes ('', NS (sort use_nums), T '') ...''] []] s))
      else
        ([], p3_append
               [P3 ''1403.03'' ''INFO'' 0 [T ''Division not currently indicated'']
                   [T ''All classes appear to be at the same stage with similar issue profiles. ...'']
                   [T ''Monitor application progress. ...''] []] s))"

subsection \<open>\<open>_check_1403_04_partial_refusals\<close>\<close>

definition refusal_reasons_of :: "ClassSummary \<Rightarrow> string list" where
  "refusal_reasons_of c =
     (if p1_error_count c > 0
      then map (\<lambda>msg. ''[Pillar 1 - 1401] '' @ take 100 msg) (take 2 (p1_error_messages c))
      else []) @
     (if \<not> p2_is_definite c \<or> p2_error_count c > 0
      then map (\<lambda>msg. ''[Pillar 2 - 1402] '' @ take 100 msg) (take 2 (p2_error_messages c)) @
           (if \<not> p2_is_definite c \<and> p2_error_messages c = []
            then [''[Pillar 2 - 1402] Identification is not sufficiently definite.''] else [])
      else [])"

text \<open>
  One turn of the loop: the list \<open>refusal_classes\<close>, the dict \<open>refusal_reasons\<close> and the
  assessor.
\<close>

definition refusal_step ::
  "int list \<times> (int \<rightharpoonup> string list) \<times> Pillar3Assessor \<Rightarrow> ClassSummary \<Rightarrow>
   int list \<times> (int \<rightharpoonup> string list) \<times> Pillar3Assessor" where
  "refusal_step st c =
     (case st of (refusal_classes, refusal_reasons, s) \<Rightarrow>
        (let reasons = refusal_reasons_of c in
         if reasons \<noteq> [] then
           (refusal_classes @ [cs_class_number c],
            refusal_reasons(cs_class_number c \<mapsto> reasons),
            p3_append
              [P3 ''1403.04'' (if status c = REFUSAL_CANDIDATE then ''ERROR'' else ''WARNING'')
                  (cs_class_number c)
                  [T ''Class '', N (cs_class_number c), T '' - PARTIAL REFUSAL CANDIDATE'']
                  [T ''Class '', N (cs_class_number c), T '' ('', T (class_title c), T '') has '',
                   N (p1_error_count c), T '' Pillar 1 error(s) and '', N (p2_error_count c),
                   T '' Pillar 2 error(s) that constitute grounds for a PARTIAL REFUSAL under 1403.04. Reasons: '',
                   TS (take 2 reasons)]
                  [T ''Issue a partial refusal limited to Class '', N (cs_class_number c), T ''. ...'']
                  [T ''P1:'', N (p1_error_count c), T ''errors + P2:'', N (p2_error_count c),
                   T ''errors'']] s)
         else
           (refusal_classes, refusal_reasons,
            p3_append
              [P3 ''1403.04'' ''OK'' (cs_class_number c)
                  [T ''Class '', N (cs_class_number c), T '' - No refusal grounds'']
                  [T ''Class '', N (cs_class_number c), T '' ('', T (class_title c),
                   T '') has no errors from Pillar 1 or Pillar 2. No refusal is indicated for this class.'']
                  [T ''This class may proceed independently. ...''] []] s)))"

definition check_1403_04 ::
  "Pillar3Assessor \<Rightarrow> (int list \<times> (int \<rightharpoonup> string list)) \<times> Pillar3Assessor" where
  "check_1403_04 s =
     (case foldl refusal_step ([], Map.empty, s) (p3_classes s) of
        (refusal_classes, refusal_reasons, s1) \<Rightarrow>
          ((refusal_classes, refusal_reasons),
           if refusal_classes \<noteq> [] then
             (let non_refusal = filter (\<lambda>n. n \<notin> set refusal_classes)
                                  (map cs_class_number (p3_classes s1))
              in p3_append
                   [P3 ''1403.04'' ''INFO'' 0 [T ''Partial refusal summary'']
                       [T ''PARTIAL REFUSAL applies to: Class(es) '', NS (sort refusal_classes),
                        T ''. Classes NOT subject to refusal: '',
                        (if non_refusal \<noteq> [] then NS (sort non_refusal) else T ''None''), T ''.'']
                       [T ''Issue Office Action with partial refusal. ...''] []] s1)
           else s1))"


subsection \<open>\<open>_check_1403_05_post_filing_fees\<close>\<close>

definition check_1403_05 :: "Pillar3Assessor \<Rightarrow> Pillar3Assessor" where
  "check_1403_05 s =
     (let stage = application_stage (ctx s);
          action = post_filing_action_type (ctx s)
      in
      if action = [] \<and> stage \<in> set [PRE_FILING, FILED_PENDING] then
        p3_append
          [P3 ''1403.05'' ''INFO'' 0 [T ''No post-filing action in this assessment'']
              [T ''Application is at filing/pending stage. ...'']
              [T ''When filing any post-filing action, ensure the correct per-class fee is included ...'']
              []] s
      else
        (let itu_classes = filter is_intent_to_use (p3_classes s);
             sou_fee_total = int (length itu_classes) * 100
         in
         p3_append
           ((if (stage = STATEMENT_OF_USE \<or> action = ''sou'') \<and> itu_classes \<noteq> [] then
               [P3 ''1403.05'' ''INFO'' 0
                   [T ''Statement of Use - '', N (int (length itu_classes)), T '' class(es)'']
                   [T ''Statement of Use being filed for '', N (int (length itu_classes)),
                    T '' 1(b) class(es): '', NS (map cs_class_number itu_classes),
                    T ''. SOU fee: $100/class x '', N (int (length itu_classes)), T '' = $'',
                    N sou_fee_total, T ''.'']
                   [T ''Submit SOU with $'', N sou_fee_total, T '' total ($'', N 100,
                    T ''/class for each of the '', N (int (length itu_classes)),
                    T '' 1(b) class(es)). Each class needs its own specimen with the SOU.''] []]
             else []) @
            (if action \<in> set [''amendment'', ''response''] \<and> amendment_affects_classes (ctx s) \<noteq> []
             then
               (let affected_count = int (length (amendment_affects_classes (ctx s))) in
                [P3 ''1403.05'' ''INFO'' 0
                    [T ''Post-filing '', T action, T '' fee - '', N affected_count,
                     T '' class(es) affected'']
                    [T ''Post-filing '', T action, T '' affects '', N affected_count,
                     T '' class(es): '', NS (sort (amendment_affects_classes (ctx s))), T ''. ...'']
                    [T ''Check USPTO fee schedule for post-filing '', T action,
                     T '' fees. Ensure fee is submitted for each of the '', N affected_count,
                     T '' affected class(es).''] []])
             else []) @
            (if surrender_requested (ctx s) \<and> classes_to_surrender (ctx s) \<noteq> [] then
               [P3 ''1403.05'' ''INFO'' 0
                   [T ''Surrender fee check - Class(es) '', NS (classes_to_surrender (ctx s))]
                   [T ''Partial surrender of classes in a multi-class registration. ...'']
                   [T ''File a Section 7 Request for Amendment/Surrender ...''] []]
             else []) @
            [P3 ''1403.05'' ''INFO'' 0 [T ''Multi-class post-filing fee rule'']
                [T ''Per 1403.05: in multi-class applications, post-filing actions require separate fees for each class ...'']
                [T ''Always verify the number of classes affected by any post-filing action ...'']
                []]) s))"

subsection \<open>\<open>_check_1403_06_surrender_or_amendment\<close>\<close>

definition surrender_stopwords :: "string list" where
  "surrender_stopwords =
     [''and'', ''or'', ''for'', ''the'', ''of'', ''in'', ''a'', ''an'', ''to'',
      ''with'', ''by'', ''from'', ''on'', ''at'', ''namely'', ''including'']"

text \<open>
  The words of a surrendered class (stopwords removed) that a retained identification
  also has and that are longer than 4 characters, in the order of first occurrence.
\<close>

definition significant_overlap :: "ClassSummary list \<Rightarrow> ClassSummary \<Rightarrow> string list" where
  "significant_overlap to_retain sc =
     (let retained_id_words = concat (map (\<lambda>rc. split_ws (lower (cs_identification rc))) to_retain);
          surrendered_words = filter (\<lambda>w. w \<notin> set surrender_stopwords)
                                (remdups (split_ws (lower (cs_identification sc))))
      in filter (\<lambda>w. length w > 4) (filter (\<lambda>w. w \<in> set retained_id_words) surrendered_words))"

definition surrender_finding :: "ClassSummary list \<Rightarrow> ClassSummary \<Rightarrow> Pillar3Finding" where
  "surrender_finding to_retain sc =
     (if significant_overlap to_retain sc \<noteq> [] then
        P3 ''1403.06'' ''WARNING'' (cs_class_number sc)
           [T ''Scope overlap: surrendering Class '', N (cs_class_number sc),
            T '' while retaining other classes'']
           [T ''Surrendering Class '', N (cs_class_number sc), T '' ('', T (class_title sc),
            T '') may create inconsistency with retained classes. Shared terminology between surrendered and retained identifications: '',
            TS (take 5 (significant_overlap to_retain sc)), T ''. ...'']
           [T ''Review whether surrendering Class '', N (cs_class_number sc), T '' ...''] []
      else
        P3 ''1403.06'' ''OK'' (cs_class_number sc)
           [T ''Class '', N (cs_class_number sc), T '' - Surrender scope check'']
           [T ''Surrendering Class '', N (cs_class_number sc), T '' ('', T (class_title sc),
            T '') does not appear to create scope inconsistency with retained classes.'']
           [T ''Proceed with surrender of Class '', N (cs_class_number sc),
            T ''. Remember: surrender is irrevocable.''] [])"

definition check_1403_06 :: "Pillar3Assessor \<Rightarrow> Pillar3Assessor" where
  "check_1403_06 s =
     (let stage = application_stage (ctx s) in
      if stage \<notin> set [REGISTERED, POST_REGISTRATION] then
        p3_append
          [P3 ''1403.06'' ''INFO'' 0
              [T ''1403.06 - Not yet registered (stage: '', T (stage_value stage), T '')'']
              [T ''Application has not yet reached registration. ...'']
              [T ''Note for post-registration: partial surrender is possible via Section 7 amendment. ...'']
              []] s
      else if \<not> surrender_requested (ctx s) then
        p3_append
          [P3 ''1403.06'' ''INFO'' 0 [T ''No surrender requested'']
              [T ''No surrender of classes has been requested in this assessment.'']
              [T ''If a partial surrender is needed post-registration, file a Section 7 Request ...'']
              []] s
      else
        (let to_surrender = classes_to_surrender (ctx s);
             to_retain = filter (\<lambda>c. cs_class_number c \<notin> set to_surrender) (p3_classes s)
         in
         if length to_surrender \<ge> length (p3_classes s) then
           p3_append
             [P3 ''1403.06'' ''ERROR'' 0
                 [T ''Full surrender - entire registration would be abandoned'']
                 [T ''Surrendering all classes would result in complete abandonment of the registration. ...'']
                 [T ''File a Request for Cancellation (USPTO Form) ...''] []] s
         else
           (let surrendered_cls_objects =
                  filter (\<lambda>c. cs_class_number c \<in> set to_surrender) (p3_classes s)
            in p3_append
                 (map (surrender_finding to_retain) surrendered_cls_objects @
                  (if to_retain \<noteq> [] then
                     [P3 ''1403.06'' ''INFO'' 0
                         [T ''Post-surrender retained: Class(es) '',
                          NS (sort (map cs_class_number to_retain))]
                         [T ''After surrendering Class(es) '', NS (sort to_surrender),
                          T '', the registration will retain Class(es) '',
                          NS (sort (map cs_class_number to_retain)), T ''.'']
                         [T ''Ensure maintenance fees (Section 8/71 Declarations) are paid for all RETAINED classes ...'']
                         []]
                   else [])) s)))"

subsection \<open>\<open>_build_result\<close> and \<open>run_full_assessment\<close>\<close>

text \<open>\<open>sum(1 for f in self.findings if f.severity == sev)\<close>.\<close>

definition count_severity :: "string \<Rightarrow> Pillar3Finding list \<Rightarrow> int" where
  "count_severity sev fs = int (length (filter (\<lambda>f. p3_severity f = sev) fs))"

definition build_result ::
  "Pillar3Assessor \<Rightarrow> int list \<Rightarrow> int list \<Rightarrow> (int \<rightharpoonup> string list) \<Rightarrow> Pillar3AssessmentResult" where
  "build_result s division_eligible refusal_classes refusal_reasons =
     (let errors = count_severity ''ERROR'' (p3_findings s);
          warnings = count_severity ''WARNING'' (p3_findings s);
          is_compliant = (errors = 0)
      in \<lparr>r_findings = p3_findings s,
          division_eligible_classes = division_eligible,
          division_recommended = (length division_eligible > 0),
          partial_refusal_classes = refusal_classes,
          partial_refusal_reasons = refusal_reasons,
          is_multi_class_compliant = is_compliant,
          total_errors = errors,
          total_warnings = warnings\<rparr>)"

definition single_class_finding :: Pillar3Finding where
  "single_class_finding =
     P3 ''1403'' ''INFO'' 0 [T ''Single-class application'']
        [T ''Application contains only one class. 1403 multi-class requirements do not apply.'']
        [T ''No 1403 action required.''] []"

text \<open>
  The entry point clears the findings, returns at once for fewer than two distinct class
  numbers, and otherwise runs the six checks in sequence.
\<close>

definition p3_run_full_assessment :: "Pillar3Assessor \<Rightarrow> Pillar3AssessmentResult" where
  "p3_run_full_assessment s0 =
     (let s = s0\<lparr>p3_findings := []\<rparr>;
          unique_classes = remdups (map cs_class_number (p3_classes s))
      in
      if length unique_classes < 2 then
        build_result (p3_append [single_class_finding] s) [] [] Map.empty
      else
        (let s1 = check_1403_01 s in
         case check_1403_02 s1 of (amendment_conflicts, s2) \<Rightarrow>
         case check_1403_03 s2 of (division_eligible, s3) \<Rightarrow>
         case check_1403_04 s3 of ((refusal_classes, refusal_reasons), s4) \<Rightarrow>
         (let s5 = check_1403_05 s4;
              s6 = check_1403_06 s5
          in build_result s6 division_eligible refusal_classes refusal_reasons)))"

text \<open>A constructor call \<open>Pillar3Assessor(class_summaries, app_context)\<close>.\<close>

definition Pillar3Assessor_init ::
  "ClassSummary list \<Rightarrow> MultiClassApplicationContext \<Rightarrow> Pillar3Assessor" where
  "Pillar3Assessor_init class_summaries app_context =
     \<lparr>p3_classes = class_summaries, ctx = app_context, p3_findings = []\<rparr>"

text \<open>A class summary and a context with the defaults of their dataclasses.\<close>

definition summary :: "int \<Rightarrow> string \<Rightarrow> string \<Rightarrow> ClassSummary" where
  "summary n ident basis =
     \<lparr>cs_class_number = n, class_title = [], class_category = ''GOODS'',
      cs_identification = ident, cs_filing_basis = basis, cs_specimen_type = [],
      cs_specimen_description = [], cs_date_of_first_use = None,
      cs_date_of_first_use_commerce = None, cs_fee_paid = True, p1_error_count = 0,
      p1_warning_count = 0, p1_error_messages = [], p2_is_definite = True,
      p2_error_count = 0, p2_warning_count = 0, p2_error_messages = [], status = CLEAN\<rparr>"

definition default_context :: MultiClassApplicationContext where
  "default_context =
     \<lparr>ctx_applicant_name = [], ctx_mark_text = [], ctx_filing_date = [],
      ctx_filing_type = ''TEAS_PLUS'', ctx_fees_paid_count = 0, ctx_total_fee_paid = 0,
      application_stage = FILED_PENDING, amendment_requested = False,
      amendment_affects_classes = [], amendment_description = [],
      division_requested = False, classes_to_divide_out = [],
      surrender_requested = False, classes_to_surrender = [],
      post_filing_action_type = []\<rparr>"


section \<open>Regular expressions of Pillar 2\<close>

text \<open>
  Every pattern of tmep_1402_pillar2.py is a lower-case literal with word boundaries
  and a few character classes, and every search but the bracket search is made with
  \<open>re.IGNORECASE\<close>. Within the modelled range of characters a case-insensitive search
  for such a pattern is the search in the lower-cased text, which is how the model makes
  it: the classes \<open>\w\<close> and \<open>\s\<close> do not depend on case.
\<close>

text \<open>\<open>\w\<close> on code points 0..255: digits, letters, the underscore, and the characters
  of Latin-1 that \<open>str.isalnum()\<close> accepts.\<close>

definition is_word_char :: "char \<Rightarrow> bool" where
  "is_word_char c =
     (let n = (of_char c :: nat) in
      (48 \<le> n \<and> n \<le> 57) \<or> (65 \<le> n \<and> n \<le> 90) \<or> n = 95 \<or> (97 \<le> n \<and> n \<le> 122)
      \<or> n = 170 \<or> n = 178 \<or> n = 179 \<or> n = 181 \<or> n = 185 \<or> n = 186
      \<or> (188 \<le> n \<and> n \<le> 190) \<or> (192 \<le> n \<and> n \<le> 214) \<or> (216 \<le> n \<and> n \<le> 246)
      \<or> 248 \<le> n)"

text \<open>
  A position in the text is given by the character before it (\<open>None\<close> at the start) and
  the rest of the text from it. \<open>\b\<close> holds where exactly one of the two neighbours is a
  word character; outside the text counts as not a word character.
\<close>

definition next_char :: "string \<Rightarrow> char option" where
  "next_char rest = (case rest of [] \<Rightarrow> None | c # _ \<Rightarrow> Some c)"

definition word_opt :: "char option \<Rightarrow> bool" where
  "word_opt c = (case c of None \<Rightarrow> False | Some d \<Rightarrow> is_word_char d)"

definition wb :: "char option \<Rightarrow> string \<Rightarrow> bool" where
  "wb prev rest = (word_opt prev \<noteq> word_opt (next_char rest))"

text \<open>The character before the position reached after reading \<open>lit\<close>.\<close>

definition after_lit :: "char option \<Rightarrow> string \<Rightarrow> char option" where
  "after_lit prev lit = (if lit = [] then prev else Some (last lit))"

text \<open>\<open>re.search\<close>: the pattern matches at some position, the end of the text included.\<close>

fun search_from :: "(char option \<Rightarrow> string \<Rightarrow> bool) \<Rightarrow> char option \<Rightarrow> string \<Rightarrow> bool" where
  "search_from m prev [] = m prev []"
| "search_from m prev (c # cs) = (m prev (c # cs) \<or> search_from m (Some c) cs)"

definition re_search_i :: "(char option \<Rightarrow> string \<Rightarrow> bool) \<Rightarrow> string \<Rightarrow> bool" where
  "re_search_i m txt = search_from m None (lower txt)"

text \<open>The pattern \<open>\blit\b\<close> at a position.\<close>

definition m_word :: "string \<Rightarrow> char option \<Rightarrow> string \<Rightarrow> bool" where
  "m_word lit prev rest =
     (wb prev rest \<and> starts_with lit rest \<and> wb (after_lit prev lit) (drop (length lit) rest))"

text \<open>
  The pattern \<open>\blit(?:\b|\.|\s|$)\<close> of \<open>detect_vague_terms\<close> at a position (\<open>$\<close> also
  matches before a final newline, which \<open>\s\<close> covers).
\<close>

definition m_vague :: "string \<Rightarrow> char option \<Rightarrow> string \<Rightarrow> bool" where
  "m_vague lit prev rest =
     (wb prev rest \<and> starts_with lit rest \<and>
      (let tl = drop (length lit) rest in
       wb (after_lit prev lit) tl \<or> next_char tl = Some CHR ''.''
       \<or> (case next_char tl of None \<Rightarrow> False | Some c \<Rightarrow> is_space c) \<or> tl = []))"

text \<open>\<open>\bservices\s+(for|in|of|namely|consisting)\b\<close> at a position.\<close>

definition m_services_for :: "char option \<Rightarrow> string \<Rightarrow> bool" where
  "m_services_for prev rest =
     (wb prev rest \<and> starts_with ''services'' rest \<and>
      (let tl = drop 8 rest; ws = takeWhile is_space tl; tl2 = dropWhile is_space tl in
       ws \<noteq> [] \<and>
       list_ex (\<lambda>alt. starts_with alt tl2 \<and> wb (Some (last alt)) (drop (length alt) tl2))
         [''for'', ''in'', ''of'', ''namely'', ''consisting'']))"

text \<open>\<open>\bservice[s]?\b\<close> at a position.\<close>

definition m_service_s :: "char option \<Rightarrow> string \<Rightarrow> bool" where
  "m_service_s prev rest =
     (wb prev rest \<and> starts_with ''service'' rest \<and>
      (let tl = drop 7 rest in
       (starts_with ''s'' tl \<and> wb (Some CHR ''s'') (drop 1 tl)) \<or> wb (Some CHR ''e'') tl))"

text \<open>\<open>\bservices in the (nature|field)\b\<close> at a position.\<close>

definition m_services_in_the :: "char option \<Rightarrow> string \<Rightarrow> bool" where
  "m_services_in_the prev rest =
     (m_word ''services in the nature'' prev rest \<or> m_word ''services in the field'' prev rest)"

text \<open>\<open>\bthe company'?s\b\<close> at a position (the apostrophe is code point 39).\<close>

definition m_the_companys :: "char option \<Rightarrow> string \<Rightarrow> bool" where
  "m_the_companys prev rest =
     (m_word (''the company'' @ [CHR 0x27] @ ''s'') prev rest \<or> m_word ''the companys'' prev rest)"

text \<open>\<open>len(re.findall(p, text, re.IGNORECASE))\<close> for a pattern that cannot overlap
  itself: the number of positions where it matches.\<close>

fun count_from :: "(char option \<Rightarrow> string \<Rightarrow> bool) \<Rightarrow> char option \<Rightarrow> string \<Rightarrow> nat" where
  "count_from m prev [] = (if m prev [] then 1 else 0)"
| "count_from m prev (c # cs) = (if m prev (c # cs) then 1 else 0) + count_from m (Some c) cs"

text \<open>
  \<open>re.findall(r"\b\w{4,}\b", text)\<close>: the maximal runs of word characters that have at
  least four characters. The first argument is the run being read.
\<close>

fun word_runs_from :: "string \<Rightarrow> string \<Rightarrow> string list" where
  "word_runs_from w [] = (if w = [] then [] else [w])"
| "word_runs_from w (c # cs) =
     (if is_word_char c then word_runs_from (w @ [c]) cs
      else (if w = [] then word_runs_from [] cs else w # word_runs_from [] cs))"

definition words4 :: "string \<Rightarrow> string list" where
  "words4 txt = filter (\<lambda>w. length w \<ge> 4) (word_runs_from [] txt)"

section \<open>Pillar 2: the identification lens (tmep_1402_pillar2.py)\<close>

text \<open>Field names that an earlier record already uses carry the prefix \<open>p1c_\<close> or \<open>sf_\<close>.\<close>

record Pillar1ClassContext =
  p1c_class_number :: int
  p1c_class_title :: string
  p1c_class_category :: string
  p1c_filing_basis :: string
  p1c_specimen_type :: string
  p1c_specimen_description :: string
  has_pillar1_class_error :: bool
  has_pillar1_class_warning :: bool
  pillar1_error_summary :: string

record SubsectionFinding =
  sf_tmep_section :: string
  sf_severity :: string
  sf_item :: ftext
  sf_finding :: ftext
  sf_recommendation :: ftext

record TMEP1402AnalysisResult =
  is_definite :: bool
  identified_goods_services :: "string list"
  purpose_detected :: bool
  vague_terms_found :: "string list"
  structural_issues :: "string list"
  reasoning :: ftext
  subsection_findings :: "SubsectionFinding list"
  pillar1_dependency_note :: ftext

record TMEP1402Lens =
  lens_text :: string
  p1 :: "Pillar1ClassContext option"

definition SF :: "string \<Rightarrow> string \<Rightarrow> ftext \<Rightarrow> ftext \<Rightarrow> ftext \<Rightarrow> SubsectionFinding" where
  "SF sec sev it fi re =
     \<lparr>sf_tmep_section = sect sec, sf_severity = sev, sf_item = it, sf_finding = fi,
      sf_recommendation = re\<rparr>"

definition VAGUE_TERMS :: "string list" where
  "VAGUE_TERMS =
     [''including'', ''and related'', ''etc'', ''etc.'', ''products'', ''services'',
      ''solutions'', ''technology'', ''equipment'', ''devices'', ''materials'', ''systems'',
      ''components'', ''platform'', ''miscellaneous'', ''various'', ''all types'', ''any'',
      ''type of'', ''kind of'', ''and the like'', ''other'']"

definition PURPOSE_PATTERNS :: "string list" where
  "PURPOSE_PATTERNS = [''for'', ''namely'', ''consisting of'', ''in the field of'', ''used for'']"

definition BANNED_TERMS_1402_09 :: "string list" where
  "BANNED_TERMS_1402_09 = [''applicant'', ''registrant'']"

text \<open>
  \<open>SERVICE_ACTIVITY_PATTERNS\<close>: five patterns \<open>\blit\b\<close> and the pattern with the
  alternative \<open>(nature|field)\<close>.
\<close>

definition has_service_activity :: "string \<Rightarrow> bool" where
  "has_service_activity txt =
     (re_search_i (m_word ''services for'') txt \<or> re_search_i m_services_in_the txt
      \<or> re_search_i (m_word ''providing'') txt \<or> re_search_i (m_word ''rendering'') txt
      \<or> re_search_i (m_word ''offering'') txt \<or> re_search_i (m_word ''consulting'') txt)"

definition extract_candidate_goods :: "TMEP1402Lens \<Rightarrow> string list" where
  "extract_candidate_goods l =
     filter (\<lambda>seg. seg \<noteq> []) (map strip (split_on CHR '';'' (lens_text l)))"

definition detect_purpose_language :: "TMEP1402Lens \<Rightarrow> bool" where
  "detect_purpose_language l = list_ex (\<lambda>p. re_search_i (m_word p) (lens_text l)) PURPOSE_PATTERNS"

text \<open>One turn of the loop over \<open>VAGUE_TERMS\<close>; the state is the list \<open>found\<close>.\<close>

definition vague_step :: "string \<Rightarrow> string list \<Rightarrow> string \<Rightarrow> string list" where
  "vague_step txt found term =
     (if re_search_i (m_vague term) txt \<and> term \<notin> set found then
        (if term = ''services'' then
           (if \<not> re_search_i m_services_for txt then found @ [term] else found)
         else found @ [term])
      else found)"

definition detect_vague_terms :: "TMEP1402Lens \<Rightarrow> string list" where
  "detect_vague_terms l = foldl (vague_step (lens_text l)) [] VAGUE_TERMS"

definition has_bracket :: "string \<Rightarrow> bool" where
  "has_bracket txt = list_ex (\<lambda>c. c \<in> set ''()[]{}'') txt"

definition detect_structural_issues :: "TMEP1402Lens \<Rightarrow> string list" where
  "detect_structural_issues l =
     (let and_count = count_from (m_word ''and'') None (lower (lens_text l)) in
      (if and_count > 3
       then [''Excessive conjunction stacking ('and') may indicate over-breadth.''] else []) @
      (if has_bracket (lens_text l)
       then [''Parentheses or brackets detected. Prohibited under TMEP 1402.12.''] else []))"


subsection \<open>The eight subsection checks\<close>

definition check_1402_01 :: "string list \<Rightarrow> SubsectionFinding" where
  "check_1402_01 segments =
     (if segments = [] then
        SF ''1402.01'' ''ERROR'' [T ''Identification text'']
           [T ''Identification is empty or cannot be parsed into distinct goods/services.'']
           [T ''Provide a clear, itemized list of goods/services separated by semicolons.'']
      else
        SF ''1402.01'' ''OK'' [N (int (length segments)), T '' item(s) identified'']
           [T ''Identification contains '', N (int (length segments)), T '' item(s): '',
            TS (map (take 40) (take 3 segments)), T (if length segments > 3 then ''...'' else [])]
           [T ''No action required.''])"

definition placeholders :: "string list" where
  "placeholders =
     [''tbd'', ''to be determined'', ''see attached'', ''n/a'', ''[insert]'', ''xxx'',
      ''your goods here'']"

definition check_1402_02 :: "TMEP1402Lens \<Rightarrow> string list \<Rightarrow> SubsectionFinding" where
  "check_1402_02 l segments =
     (let text_lower = strip (lower (lens_text l)) in
      if any_in placeholders text_lower then
        SF ''1402.02'' ''ERROR'' [T ''Placeholder text detected'']
           [T ''Identification contains placeholder or incomplete text. Application will not be entitled to its filing date.'']
           [T ''Replace placeholder text with a complete, definite identification of actual goods/services.'']
      else if length text_lower < 10 then
        SF ''1402.02'' ''ERROR'' [T ''Identification too short'']
           [T ''Identification is too brief to secure a filing date.'']
           [T ''Provide a complete identification of goods/services.'']
      else
        SF ''1402.02'' ''OK'' [T ''Filing date entitlement'']
           [T ''Identification appears complete enough to support filing date entitlement.'']
           [T ''No action required.''])"

definition severe_vague_terms :: "string list" where
  "severe_vague_terms =
     [''miscellaneous'', ''various'', ''all types'', ''any'', ''and the like'', ''etc'', ''etc.'']"

definition check_1402_03 :: "string list \<Rightarrow> SubsectionFinding" where
  "check_1402_03 vague_found =
     (let severe_vague = filter (\<lambda>t. t \<in> set severe_vague_terms) vague_found;
          mild_vague = filter (\<lambda>t. t \<notin> set severe_vague) vague_found
      in
      if severe_vague \<noteq> [] then
        SF ''1402.03'' ''ERROR'' [T ''Indefinite terms: '', TS severe_vague]
           [T ''Severely indefinite terms found: '', TS severe_vague,
            T ''. These are categorically unacceptable under USPTO practice.'']
           [T ''Remove all indefinite terms. Replace with specific, enumerated goods/services.'']
      else if mild_vague \<noteq> [] then
        SF ''1402.03'' ''WARNING'' [T ''Potentially vague terms: '', TS mild_vague]
           [T ''Possibly indefinite terms found: '', TS mild_vague,
            T ''. These may be acceptable with additional specificity.'']
           [T ''Review terms: '', TS mild_vague,
            T ''. Add namely clauses to specify exact goods/services.'']
      else
        SF ''1402.03'' ''OK'' [T ''Specificity check'']
           [T ''No indefinite terms detected. Identification appears sufficiently specific.'']
           [T ''No action required.''])"

text \<open>
  In \<open>_check_1402_05\<close> the source compares the floating-point quotient
  \<open>len(overlap) / max(len(spec_words), 1)\<close> with \<open>0.1\<close>; the model compares the
  exact quotient, \<open>10 * len(overlap) < max(len(spec_words), 1)\<close>, which is the same
  test for sets of fewer than \<open>10^15\<close> words. The rounded percentage that the prose
  shows is left out of the texts. The check yields INFO, WARNING or OK, never ERROR.
\<close>

definition check_1402_05 :: "TMEP1402Lens \<Rightarrow> SubsectionFinding" where
  "check_1402_05 l =
     (case p1 l of
        None \<Rightarrow>
          SF ''1402.05'' ''INFO'' [T ''Accuracy check (no Pillar 1 context)'']
             [T ''No Pillar 1 context provided. Cannot cross-check identification accuracy against specimen.'']
             [T ''Run with Pillar 1 context for full 1402.05 accuracy check.'']
      | Some c \<Rightarrow>
          if has_pillar1_class_error c then
            SF ''1402.05'' ''WARNING'' [T ''Class '', N (p1c_class_number c), T '' - Accuracy deferred'']
               [T ''Pillar 1 detected a classification ERROR for this class. ... Pillar 1 issue: '',
                T (take 100 (pillar1_error_summary c))]
               [T ''Resolve Pillar 1 classification errors first, ...'']
          else if p1c_filing_basis c = ''1(b)'' then
            SF ''1402.05'' ''INFO''
               [T ''Class '', N (p1c_class_number c), T '' - 1(b) accuracy standard'']
               [T ''Intent-to-use application (1(b)). ...'']
               [T ''Ensure identification reflects actual intended use. ...'']
          else
            (let id_lower = lower (lens_text l);
                 spec_lower = lower (p1c_specimen_description c)
             in
             if spec_lower = [] then
               SF ''1402.05'' ''INFO'' [T ''No specimen description from Pillar 1'']
                  [T ''Specimen description not available for accuracy cross-check.'']
                  [T ''Provide specimen description in Pillar 1 class entry for full check.'']
             else
               (let id_words = remdups (words4 id_lower);
                    spec_words = remdups (words4 spec_lower);
                    overlap = filter (\<lambda>w. w \<in> set spec_words) id_words
                in
                if 10 * length overlap < max (length spec_words) 1 \<and> length spec_words > 3 then
                  SF ''1402.05'' ''WARNING'' [T ''Low overlap between identification and specimen'']
                     [T ''Low conceptual overlap between identification and specimen description ...'']
                     [T ''Review whether identification accurately describes what the specimen actually shows. ...'']
                else
                  SF ''1402.05'' ''OK'' [T ''Accuracy vs. specimen'']
                     [T ''Identification appears consistent with the specimen provided ...'']
                     [T ''No action required.''])))"

definition check_1402_09 :: "TMEP1402Lens \<Rightarrow> SubsectionFinding" where
  "check_1402_09 l =
     (let found_banned = filter (\<lambda>term. re_search_i (m_word term) (lens_text l))
                           BANNED_TERMS_1402_09
      in
      if found_banned \<noteq> [] then
        SF ''1402.09'' ''ERROR'' [T ''Banned terms found: '', TS found_banned]
           [T ''The term(s) '', TS found_banned, T '' appear in the identification. ...'']
           [T ''Remove '', TS found_banned, T '' from the identification. ...'']
      else
        SF ''1402.09'' ''OK'' [T ''Banned terms check'']
           [T ''No prohibited terms (applicant, registrant) found.'']
           [T ''No action required.''])"

definition future_tense_patterns :: "string list" where
  "future_tense_patterns = [''will'', ''intend'', ''planning to'', ''proposed'', ''future'']"

definition check_1402_10 :: "TMEP1402Lens \<Rightarrow> SubsectionFinding" where
  "check_1402_10 l =
     (let basis = (case p1 l of Some c \<Rightarrow> p1c_filing_basis c | None \<Rightarrow> ''1(a)'') in
      if basis \<noteq> ''1(b)'' then
        SF ''1402.10'' ''INFO'' [T ''Filing basis: '', T basis]
           [T ''Application is filed under '', T basis,
            T '', not 1(b). 1402.10 intent-to-use requirements do not apply.'']
           [T ''No action required.'']
      else
        (let found_future = filter (\<lambda>p. re_search_i (m_word p) (lens_text l))
                              future_tense_patterns
         in
         if found_future \<noteq> [] then
           SF ''1402.10'' ''WARNING'' [T ''Future-tense language in 1(b) identification'']
              [T ''Identification contains future-tense or speculative language ('',
               TS found_future, T ''). ...'']
              [T ''Remove future-tense wording. ...'']
         else
           SF ''1402.10'' ''OK'' [T ''1(b) identification format'']
              [T ''1(b) identification is stated definitively without future-tense language.'']
              [T ''No action required. Remember: specimen must be filed with SOU.'']))"

definition check_1402_11 :: "TMEP1402Lens \<Rightarrow> SubsectionFinding" where
  "check_1402_11 l =
     (let is_services =
            (case p1 l of Some c \<Rightarrow> p1c_class_category c = ''SERVICES''
             | None \<Rightarrow> re_search_i m_service_s (lens_text l))
      in
      if \<not> is_services then
        SF ''1402.11'' ''INFO'' [T ''1402.11 services check'']
           [T ''This appears to be a goods class. 1402.11 services format requirement does not apply.'']
           [T ''No action required.'']
      else
        (let has_internal =
               (re_search_i (m_word ''our'') (lens_text l) \<or> re_search_i (m_word ''my'') (lens_text l)
                \<or> re_search_i m_the_companys (lens_text l)
                \<or> re_search_i (m_word ''internal'') (lens_text l))
         in
         if has_internal then
           SF ''1402.11'' ''ERROR'' [T ''Internal-activity language in service identification'']
              [T ''Identification appears to describe the applicant's own internal activities ...'']
              [T ''Rewrite as: providing X services for others in the field of Y ...'']
         else if \<not> has_service_activity (lens_text l) then
           SF ''1402.11'' ''WARNING'' [T ''Service identification format'']
              [T ''Service identification does not explicitly state the activity is rendered for others. ...'']
              [T ''Add language such as providing, rendering, or offering...for others ...'']
         else
           SF ''1402.11'' ''OK'' [T ''Service activity format'']
              [T ''Identification correctly describes a service activity rendered for others.'']
              [T ''No action required.'']))"

definition check_1402_12 :: "string list \<Rightarrow> SubsectionFinding" where
  "check_1402_12 issues =
     (let bracket_issues = filter (\<lambda>i. str_in ''Parentheses'' i \<or> str_in ''brackets'' i)
                             issues
      in
      if bracket_issues \<noteq> [] then
        SF ''1402.12'' ''ERROR'' [T ''Parentheses/brackets in identification'']
           [T (hd bracket_issues)]
           [T ''Remove all parentheses ( ), brackets [ ], and braces { } from the identification. ...'']
      else
        SF ''1402.12'' ''OK'' [T ''Parentheses/brackets check'']
           [T ''No parentheses or brackets found.''] [T ''No action required.''])"

subsection \<open>\<open>TMEP1402Lens.evaluate\<close>\<close>

definition sf_count :: "string \<Rightarrow> SubsectionFinding list \<Rightarrow> int" where
  "sf_count sev fs = int (length (filter (\<lambda>f. sf_severity f = sev) fs))"

definition evaluate :: "TMEP1402Lens \<Rightarrow> TMEP1402AnalysisResult" where
  "evaluate l =
     (let goods_segments = extract_candidate_goods l;
          purpose_flag = detect_purpose_language l;
          vague_found = detect_vague_terms l;
          structural_flags = detect_structural_issues l;
          findings = [check_1402_01 goods_segments, check_1402_02 l goods_segments,
                      check_1402_03 vague_found, check_1402_05 l, check_1402_09 l,
                      check_1402_10 l, check_1402_11 l, check_1402_12 structural_flags];
          error_count = sf_count ''ERROR'' findings;
          warning_count = sf_count ''WARNING'' findings;
          is_definite = (error_count = 0);
          reasoning_parts =
            (if is_definite \<and> warning_count = 0 then
               [T ''The identification appears to list particular goods/services with sufficient specificity under TMEP 1402.'']
             else if is_definite \<and> warning_count > 0 then
               [T ''The identification meets minimum 1402 standards but has '', N warning_count,
                T '' warning(s) that should be addressed.'']
             else
               [T ''The identification does not sufficiently identify particular goods/services as required by TMEP 1402. '',
                N error_count, T '' error(s) must be corrected.'']) @
            (if vague_found \<noteq> [] then [T ''Vague terminology: '', TS vague_found, T ''.''] else []) @
            (if \<not> purpose_flag
             then [T ''No explicit commercial purpose qualifier detected (may be required depending on class).'']
             else []) @
            (if structural_flags \<noteq> [] then [TS structural_flags] else []);
          p1_note =
            (case p1 l of
               Some c \<Rightarrow>
                 [T ''Assessed in context of Class '', N (p1c_class_number c), T '' ('',
                  T (p1c_class_title c), T '') ['', T (p1c_class_category c),
                  T ''] as determined by Pillar 1. Filing basis: '', T (p1c_filing_basis c), T ''. ''] @
                 (if has_pillar1_class_error c
                  then [T ''Pillar 1 flagged a classification ERROR - some Pillar 2 checks are deferred until class is corrected.'']
                  else [])
             | None \<Rightarrow> [T ''No Pillar 1 context - standalone assessment only.''])
      in \<lparr>is_definite = is_definite,
          identified_goods_services = goods_segments,
          purpose_detected = purpose_flag,
          vague_terms_found = vague_found,
          structural_issues = structural_flags,
          reasoning = reasoning_parts,
          subsection_findings = findings,
          pillar1_dependency_note = p1_note\<rparr>)"

text \<open>A constructor call \<open>TMEP1402Lens(identification_text, pillar1_context)\<close>.\<close>

definition TMEP1402Lens_init :: "string \<Rightarrow> Pillar1ClassContext option \<Rightarrow> TMEP1402Lens" where
  "TMEP1402Lens_init identification_text pillar1_context =
     \<lparr>lens_text = identification_text, p1 = pillar1_context\<rparr>"


section \<open>Pillar 1: what a check may change\<close>

text \<open>
  \<open>extends s s'\<close>: the assessor \<open>s'\<close> holds the application of \<open>s\<close>, field for field,
  and its findings are those of \<open>s\<close> with more findings after them.
\<close>

definition extends :: "TMEP1401Assessor \<Rightarrow> TMEP1401Assessor \<Rightarrow> bool" where
  "extends s s' = (app s' = app s \<and> prefix (findings s) (findings s'))"

text \<open>The fourteen checks that cannot raise (section 1401.03 is the fifteenth).\<close>

definition total_checks :: "(TMEP1401Assessor \<Rightarrow> TMEP1401Assessor) list" where
  "total_checks =
     [check_1401_01, check_1401_02, check_1401_04, check_1401_05, check_1401_06,
      check_1401_07, check_1401_08, check_1401_09, check_1401_10, check_1401_11,
      check_1401_12, check_1401_13, check_1401_14, check_1401_15]"

text \<open>The findings a check appends for an application, on an assessor without findings.\<close>

definition appended :: "(TMEP1401Assessor \<Rightarrow> TMEP1401Assessor) \<Rightarrow> TrademarkApplication \<Rightarrow> AssessmentFinding list" where
  "appended check a = new_findings check (assessor a)"

text \<open>A check that appends findings computed from the application alone.\<close>

definition app_only :: "(TMEP1401Assessor \<Rightarrow> TMEP1401Assessor) \<Rightarrow> bool" where
  "app_only check = (\<forall>s. check s = append_findings (new_findings check (assessor (app s))) s)"


text \<open>
  The assessor \<open>s\<close> with the findings \<open>pre\<close> before its own: the state of a check that
  runs after other checks have appended \<open>pre\<close>.
\<close>

definition earlier :: "AssessmentFinding list \<Rightarrow> TMEP1401Assessor \<Rightarrow> TMEP1401Assessor" where
  "earlier pre s = s\<lparr>findings := pre @ findings s\<rparr>"

text \<open>
  The findings section 1401.03 appends for an application, on an assessor without
  findings (none when the check raises).
\<close>

definition appended_1401_03 :: "TrademarkApplication \<Rightarrow> AssessmentFinding list" where
  "appended_1401_03 a =
     (case check_1401_03 (assessor a) of Inr s' \<Rightarrow> findings s' | Inl e \<Rightarrow> [])"


(* ==== PROOFS ==== *)

section \<open>Strings\<close>

lemma starts_with_prefix [simp]: "starts_with xs ys = prefix xs ys"
  by (induction xs ys rule: starts_with.induct) simp_all

section \<open>Character classes on the bits of a character\<close>

text \<open>
  The same three functions read off the eight bits of the character (\<open>b0\<close> is the
  lowest). Each equation is checked on all 256 characters; evaluation uses them.
\<close>

lemma lower_char_bits [code]:
  "lower_char (Char b0 b1 b2 b3 b4 b5 b6 b7) =
     (if b6 \<and> \<not> b5 \<and>
         ((\<not> b7 \<and> (b0 \<or> b1 \<or> b2 \<or> b3 \<or> b4) \<and> \<not> (b4 \<and> b3 \<and> (b2 \<or> (b1 \<and> b0))))
          \<or> (b7 \<and> \<not> (b0 \<and> b1 \<and> b2 \<and> b3 \<and> b4) \<and> \<not> (b0 \<and> b1 \<and> b2 \<and> \<not> b3 \<and> b4)))
      then Char b0 b1 b2 b3 b4 True b6 b7 else Char b0 b1 b2 b3 b4 b5 b6 b7)"
  by (cases b0; cases b1; cases b2; cases b3; cases b4; cases b5; cases b6; cases b7;
      simp add: lower_char_def)

lemma is_space_bits [code]:
  "is_space (Char b0 b1 b2 b3 b4 b5 b6 b7) =
     ((\<not> b7 \<and> \<not> b6 \<and> \<not> b5 \<and> \<not> b4 \<and> b3 \<and> ((\<not> b2 \<and> (b1 \<or> b0)) \<or> (b2 \<and> \<not> b1)))
      \<or> (\<not> b7 \<and> \<not> b6 \<and> \<not> b5 \<and> b4 \<and> b3 \<and> b2)
      \<or> (\<not> b7 \<and> \<not> b6 \<and> b5 \<and> \<not> b4 \<and> \<not> b3 \<and> \<not> b2 \<and> \<not> b1 \<and> \<not> b0)
      \<or> (b7 \<and> \<not> b6 \<and> \<not> b5 \<and> \<not> b4 \<and> \<not> b3 \<and> b2 \<and> \<not> b1 \<and> b0)
      \<or> (b7 \<and> \<not> b6 \<and> b5 \<and> \<not> b4 \<and> \<not> b3 \<and> \<not> b2 \<and> \<not> b1 \<and> \<not> b0))"
  by (cases b0; cases b1; cases b2; cases b3; cases b4; cases b5; cases b6; cases b7;
      simp add: is_space_def)

lemma is_word_char_bits [code]:
  "is_word_char (Char b0 b1 b2 b3 b4 b5 b6 b7) =
     ((\<not> b7 \<and> \<not> b6 \<and> b5 \<and> b4 \<and> (\<not> b3 \<or> (\<not> b2 \<and> \<not> b1)))
      \<or> (\<not> b7 \<and> b6 \<and> \<not> b4 \<and> (b3 \<or> b2 \<or> b1 \<or> b0))
      \<or> (\<not> b7 \<and> b6 \<and> b4 \<and> (\<not> b3 \<or> (\<not> b2 \<and> \<not> (b1 \<and> b0))))
      \<or> (\<not> b7 \<and> b6 \<and> \<not> b5 \<and> b4 \<and> b3 \<and> b2 \<and> b1 \<and> b0)
      \<or> (b7 \<and> \<not> b6 \<and> b5 \<and> \<not> b4 \<and> b3 \<and> \<not> b2 \<and> b1 \<and> \<not> b0)
      \<or> (b7 \<and> \<not> b6 \<and> b5 \<and> b4 \<and>
          ((\<not> b3 \<and> \<not> b2 \<and> b1) \<or> (\<not> b3 \<and> b2 \<and> \<not> b1 \<and> b0)
           \<or> (b3 \<and> \<not> b2 \<and> (b1 \<noteq> b0)) \<or> (b3 \<and> b2 \<and> \<not> (b1 \<and> b0))))
      \<or> (b7 \<and> b6 \<and> \<not> b4)
      \<or> (b7 \<and> b6 \<and> b4 \<and> \<not> (\<not> b3 \<and> b2 \<and> b1 \<and> b0)))"
  by (cases b0; cases b1; cases b2; cases b3; cases b4; cases b5; cases b6; cases b7;
      simp add: is_word_char_def)


section \<open>Properties of the class-number check\<close>

lemma foldl_step_1401_02:
  "foldl step_1401_02 (acc, s) cs =
     (acc @ map class_number (filter (\<lambda>c. class_number c \<notin> VALID_CLASS_NUMBERS) cs),
      s\<lparr>findings := findings s @
           map error_1401_02 (filter (\<lambda>c. class_number c \<notin> VALID_CLASS_NUMBERS) cs)\<rparr>)"
  by (induction cs arbitrary: acc s) (simp_all add: step_1401_02_def append_finding_def)

lemma check_1401_02_findings:
  "findings (check_1401_02 s) =
     findings s @
     map error_1401_02 (filter (\<lambda>c. class_number c \<notin> VALID_CLASS_NUMBERS) (classes (app s))) @
     (if filter (\<lambda>c. class_number c \<notin> VALID_CLASS_NUMBERS) (classes (app s)) = []
      then [ok_1401_02 (classes (app s))] else [])"
  by (simp add: check_1401_02_def foldl_step_1401_02 append_finding_def)

lemma new_findings_1401_02:
  "new_findings check_1401_02 s =
     map error_1401_02 (filter (\<lambda>c. class_number c \<notin> VALID_CLASS_NUMBERS) (classes (app s))) @
     (if filter (\<lambda>c. class_number c \<notin> VALID_CLASS_NUMBERS) (classes (app s)) = []
      then [ok_1401_02 (classes (app s))] else [])"
  by (simp add: new_findings_def check_1401_02_findings)

lemma severity_error_1401_02 [simp]: "severity (error_1401_02 c) = ''ERROR''"
  by (simp add: error_1401_02_def)

lemma severity_ok_1401_02 [simp]: "severity (ok_1401_02 cs) = ''OK''"
  by (simp add: ok_1401_02_def)

text \<open>
  C5. Section 1401.02 appends, for the class entries whose number is outside 1..45, one
  ERROR finding each, in the order of the entries and carrying the entry's class number;
  when there is such an entry no OK finding is appended at all (so none for that class);
  the application-level OK finding (class number 0) is appended exactly when every
  entry's number is within 1..45, and then once.
\<close>

theorem check_1401_02_invalid_class_numbers:
  fixes s :: TMEP1401Assessor
  shows
  "findings (check_1401_02 s) = findings s @ new_findings check_1401_02 s
   \<and> filter (\<lambda>f. severity f = ''ERROR'') (new_findings check_1401_02 s) =
       map error_1401_02
         (filter (\<lambda>c. \<not> (1 \<le> class_number c \<and> class_number c \<le> 45)) (classes (app s)))
   \<and> (\<forall>c \<in> set (classes (app s)).
         \<not> (1 \<le> class_number c \<and> class_number c \<le> 45) \<longrightarrow>
         f_class_number (error_1401_02 c) = class_number c
         \<and> (\<forall>f \<in> set (new_findings check_1401_02 s). severity f \<noteq> ''OK''))
   \<and> filter (\<lambda>f. severity f = ''OK'') (new_findings check_1401_02 s) =
       (if \<forall>c \<in> set (classes (app s)). 1 \<le> class_number c \<and> class_number c \<le> 45
        then [ok_1401_02 (classes (app s))] else [])
   \<and> f_class_number (ok_1401_02 (classes (app s))) = 0"
proof -
  let ?bad = "filter (\<lambda>c. class_number c \<notin> VALID_CLASS_NUMBERS) (classes (app s))"
  have bad: "?bad = filter (\<lambda>c. \<not> (1 \<le> class_number c \<and> class_number c \<le> 45)) (classes (app s))"
    by (simp add: VALID_CLASS_NUMBERS_def)
  have empty: "(?bad = []) = (\<forall>c \<in> set (classes (app s)). 1 \<le> class_number c \<and> class_number c \<le> 45)"
    by (auto simp: filter_empty_conv VALID_CLASS_NUMBERS_def)
  have 1: "findings (check_1401_02 s) = findings s @ new_findings check_1401_02 s"
    by (simp add: check_1401_02_findings new_findings_1401_02)
  have 2: "filter (\<lambda>f. severity f = ''ERROR'') (new_findings check_1401_02 s) = map error_1401_02 ?bad"
    by (simp add: new_findings_1401_02 filter_map o_def)
  have 4: "filter (\<lambda>f. severity f = ''OK'') (new_findings check_1401_02 s) =
             (if ?bad = [] then [ok_1401_02 (classes (app s))] else [])"
    by (simp add: new_findings_1401_02 filter_map o_def)
  have 3: "\<forall>f \<in> set (new_findings check_1401_02 s). severity f \<noteq> ''OK''"
    if "c \<in> set (classes (app s))" "\<not> (1 \<le> class_number c \<and> class_number c \<le> 45)" for c
  proof -
    from that have "?bad \<noteq> []" unfolding empty by blast
    then show ?thesis by (auto simp: new_findings_1401_02)
  qed
  show ?thesis
    using 1 2 3 4 unfolding bad [symmetric] empty [symmetric]
    by (simp add: error_1401_02_def ok_1401_02_def)
qed

theorem check_1401_02_invalid_class_numbers_witness:
  "filter (\<lambda>f. severity f = ''ERROR'')
     (new_findings check_1401_02
        (assessor (application [entry 9 ''software'', entry 99 ''widgets''] 2 []))) =
     [error_1401_02 (entry 99 ''widgets'')]
   \<and> filter (\<lambda>f. severity f = ''OK'')
     (new_findings check_1401_02
        (assessor (application [entry 9 ''software'', entry 99 ''widgets''] 2 []))) = []"
  using check_1401_02_invalid_class_numbers
          [of "assessor (application [entry 9 ''software'', entry 99 ''widgets''] 2 [])"]
  by (simp add: assessor_def application_def entry_def)

section \<open>Properties of the fee check\<close>

lemma length_distinct_classes_of:
  "int (length (distinct_classes_of a)) = num_distinct_classes a"
  by (simp add: distinct_classes_of_def num_distinct_classes_def length_remdups_card_conv)

lemma findings_foldl_no_fee:
  "findings (foldl (\<lambda>st c. if \<not> fee_paid c
                              then append_finding (no_fee_error_1401_04 (app st) c) st else st) s cs) =
     findings s @ map (no_fee_error_1401_04 (app s)) (filter (\<lambda>c. \<not> fee_paid c) cs)
   \<and> app (foldl (\<lambda>st c. if \<not> fee_paid c
                              then append_finding (no_fee_error_1401_04 (app st) c) st else st) s cs) =
     app s"
  by (induction cs arbitrary: s) (simp_all add: append_finding_def)

lemma new_findings_1401_04:
  "new_findings check_1401_04 s =
     (if length (classes (app s)) \<noteq> length (distinct_classes_of (app s))
      then [duplicate_warning_1401_04
              (filter (\<lambda>cls. count_list (map class_number (classes (app s))) cls > 1)
                 (distinct_classes_of (app s)))]
      else []) @
     [fee_count_finding (app s)] @
     map (no_fee_error_1401_04 (app s)) (filter (\<lambda>c. \<not> fee_paid c) (classes (app s)))"
  by (simp add: new_findings_def check_1401_04_def Let_def findings_foldl_no_fee
      append_finding_def)

lemma fee_count_finding_severity:
  "severity (fee_count_finding a) =
     (if fees_paid_count a = 0 then ''INFO''
      else if fees_paid_count a < num_distinct_classes a then ''ERROR''
      else if fees_paid_count a > num_distinct_classes a then ''WARNING''
      else ''OK'')"
  by (simp add: fee_count_finding_def Let_def length_distinct_classes_of)

text \<open>
  C2, as the code has it. The fee check appends the application-level fee-count finding
  (class number 0) after the optional duplicate warning and before the per-class
  fee-flag errors. When \<open>fees_paid_count\<close> is 0 that finding is INFO (fee count not
  specified), whatever the number of classes. Otherwise it is OK when
  \<open>fees_paid_count\<close> equals the number of distinct class numbers, ERROR with the
  shortfall (distinct minus paid) when it is less, and WARNING with the excess (paid minus
  distinct) when it is greater.
\<close>

theorem check_1401_04_fee_count:
  fixes s :: TMEP1401Assessor
  defines "f \<equiv> fee_count_finding (app s)"
    and "paid \<equiv> fees_paid_count (app s)"
    and "nd \<equiv> num_distinct_classes (app s)"
  shows
  "(\<exists>pre. new_findings check_1401_04 s =
           pre @ [f] @ map (no_fee_error_1401_04 (app s))
                         (filter (\<lambda>c. \<not> fee_paid c) (classes (app s)))
         \<and> (pre = [] \<or> (\<exists>ds. pre = [duplicate_warning_1401_04 ds])))
   \<and> f_class_number f = 0
   \<and> (paid = 0 \<longrightarrow> severity f = ''INFO'')
   \<and> (paid \<noteq> 0 \<and> paid = nd \<longrightarrow> severity f = ''OK'')
   \<and> (paid \<noteq> 0 \<and> paid < nd \<longrightarrow>
        severity f = ''ERROR''
        \<and> take 2 (drop 6 (finding f)) =
            [T '' fee(s) were submitted. Shortfall: '', N (nd - paid)])
   \<and> (paid > nd \<longrightarrow>
        severity f = ''WARNING''
        \<and> take 2 (drop 4 (finding f)) = [T '' class(es) claimed. Excess: '', N (paid - nd)])"
proof -
  have nonneg: "0 \<le> nd" by (simp add: nd_def num_distinct_classes_def)
  have 1: "\<exists>pre. new_findings check_1401_04 s =
           pre @ [f] @ map (no_fee_error_1401_04 (app s))
                         (filter (\<lambda>c. \<not> fee_paid c) (classes (app s)))
         \<and> (pre = [] \<or> (\<exists>ds. pre = [duplicate_warning_1401_04 ds]))"
    unfolding new_findings_1401_04 f_def by auto
  have 2: "f_class_number f = 0"
    by (simp add: f_def fee_count_finding_def Let_def)
  have 3: "paid = 0 \<longrightarrow> severity f = ''INFO''"
    and 4: "paid \<noteq> 0 \<and> paid = nd \<longrightarrow> severity f = ''OK''"
    by (simp_all add: f_def paid_def nd_def fee_count_finding_severity)
  have 5: "paid \<noteq> 0 \<and> paid < nd \<longrightarrow>
        severity f = ''ERROR''
        \<and> take 2 (drop 6 (finding f)) =
            [T '' fee(s) were submitted. Shortfall: '', N (nd - paid)]"
    by (simp add: f_def paid_def nd_def fee_count_finding_def Let_def length_distinct_classes_of)
  have 6: "paid > nd \<longrightarrow>
        severity f = ''WARNING''
        \<and> take 2 (drop 4 (finding f)) = [T '' class(es) claimed. Excess: '', N (paid - nd)]"
    using nonneg
    by (auto simp add: f_def paid_def nd_def fee_count_finding_def Let_def length_distinct_classes_of)
  from 1 2 3 4 5 6 show ?thesis by blast
qed

theorem check_1401_04_fee_count_witness:
  "severity (fee_count_finding (application [entry 9 ''software'', entry 25 ''shirts''] 1 [])) = ''ERROR''
   \<and> take 2 (drop 6 (finding (fee_count_finding
        (application [entry 9 ''software'', entry 25 ''shirts''] 1 [])))) =
       [T '' fee(s) were submitted. Shortfall: '', N 1]"
  using check_1401_04_fee_count
          [of "assessor (application [entry 9 ''software'', entry 25 ''shirts''] 1 [])"]
  by (simp add: assessor_def application_def entry_def num_distinct_classes_def)

text \<open>
  The claim as stated fails when \<open>fees_paid_count\<close> is 0: with one class and no fee
  count given, 0 is less than the number of distinct classes, yet the check appends a
  single INFO finding and no ERROR.
\<close>

theorem check_1401_04_zero_fees_counterexample:
  "fees_paid_count (application [entry 9 ''software''] 0 []) <
     num_distinct_classes (application [entry 9 ''software''] 0 [])
   \<and> map severity (new_findings check_1401_04
         (assessor (application [entry 9 ''software''] 0 []))) = [''INFO'']"
  by (simp add: new_findings_1401_04 fee_count_finding_severity assessor_def application_def
      entry_def num_distinct_classes_def distinct_classes_of_def)

section \<open>Properties of the Pillar 3 result\<close>

lemma build_result_totals:
  "total_errors (build_result s d r m) = count_severity ''ERROR'' (r_findings (build_result s d r m))
   \<and> total_warnings (build_result s d r m) =
       count_severity ''WARNING'' (r_findings (build_result s d r m))
   \<and> is_multi_class_compliant (build_result s d r m) = (total_errors (build_result s d r m) = 0)"
  by (simp add: build_result_def Let_def)

lemma p3_run_full_assessment_is_build_result:
  "\<exists>s' d r m. p3_run_full_assessment s = build_result s' d r m"
  unfolding p3_run_full_assessment_def Let_def
  by (auto split: prod.splits)

text \<open>
  C10. In every result of the Pillar 3 entry point, \<open>total_errors\<close> is the number of
  findings of severity ERROR, \<open>total_warnings\<close> the number of findings of severity
  WARNING, and \<open>is_multi_class_compliant\<close> holds exactly when \<open>total_errors\<close> is 0, that
  is, exactly when no finding has severity ERROR.
\<close>

theorem p3_result_totals:
  fixes s :: Pillar3Assessor
  shows
  "total_errors (p3_run_full_assessment s) =
     int (length (filter (\<lambda>f. p3_severity f = ''ERROR'') (r_findings (p3_run_full_assessment s))))
   \<and> total_warnings (p3_run_full_assessment s) =
     int (length (filter (\<lambda>f. p3_severity f = ''WARNING'') (r_findings (p3_run_full_assessment s))))
   \<and> is_multi_class_compliant (p3_run_full_assessment s) =
     (total_errors (p3_run_full_assessment s) = 0)
   \<and> is_multi_class_compliant (p3_run_full_assessment s) =
     (filter (\<lambda>f. p3_severity f = ''ERROR'') (r_findings (p3_run_full_assessment s)) = [])"
proof -
  obtain s' d r m where eq: "p3_run_full_assessment s = build_result s' d r m"
    using p3_run_full_assessment_is_build_result by blast
  show ?thesis
    unfolding eq using build_result_totals [of s' d r m]
    by (simp add: count_severity_def)
qed

text \<open>
  C4. When the class summaries hold fewer than two distinct class numbers (none, one
  class, or one class number repeated), the entry point returns exactly one finding, the
  INFO finding for a single-class application, with no class eligible for division and
  no class refused, whatever the context and whatever findings the assessor held before.
\<close>

theorem p3_single_class_short_circuit:
  assumes "card (cs_class_number ` set (p3_classes s)) < 2"
  shows "r_findings (p3_run_full_assessment s) = [single_class_finding]
         \<and> p3_severity single_class_finding = ''INFO''
         \<and> division_eligible_classes (p3_run_full_assessment s) = []
         \<and> partial_refusal_classes (p3_run_full_assessment s) = []
         \<and> partial_refusal_reasons (p3_run_full_assessment s) = Map.empty
         \<and> \<not> division_recommended (p3_run_full_assessment s)
         \<and> is_multi_class_compliant (p3_run_full_assessment s)"
proof -
  have "length (remdups (map cs_class_number (p3_classes s))) < 2"
    using assms by (simp add: length_remdups_card_conv)
  then show ?thesis
    by (simp add: p3_run_full_assessment_def Let_def build_result_def p3_append_def
        single_class_finding_def P3_def count_severity_def)
qed

theorem p3_single_class_short_circuit_witness:
  "r_findings (p3_run_full_assessment
      (Pillar3Assessor_init [summary 9 ''software'' ''1(a)'', summary 9 [] ''1(b)'']
         (default_context\<lparr>division_requested := True, classes_to_divide_out := [9]\<rparr>))) =
     [single_class_finding]
   \<and> division_eligible_classes (p3_run_full_assessment
      (Pillar3Assessor_init [summary 9 ''software'' ''1(a)'', summary 9 [] ''1(b)'']
         (default_context\<lparr>division_requested := True, classes_to_divide_out := [9]\<rparr>))) = []
   \<and> partial_refusal_classes (p3_run_full_assessment
      (Pillar3Assessor_init [summary 9 ''software'' ''1(a)'', summary 9 [] ''1(b)'']
         (default_context\<lparr>division_requested := True, classes_to_divide_out := [9]\<rparr>))) = []"
  using p3_single_class_short_circuit
          [of "Pillar3Assessor_init [summary 9 ''software'' ''1(a)'', summary 9 [] ''1(b)'']
                 (default_context\<lparr>division_requested := True, classes_to_divide_out := [9]\<rparr>)"]
  by (simp add: Pillar3Assessor_init_def summary_def)

lemma length_filter_p3_severity:
  "length (filter (\<lambda>f. p3_severity f = sev) fs) =
   length (filter (\<lambda>x. x = sev) (map p3_severity fs))"
  by (simp add: filter_map o_def)

theorem p3_result_totals_witness:
  "total_errors (p3_run_full_assessment
      (Pillar3Assessor_init [summary 9 ''software'' ''1(a)'', summary 25 ''shirts'' ''1(b)'']
         default_context)) = 1
   \<and> total_warnings (p3_run_full_assessment
      (Pillar3Assessor_init [summary 9 ''software'' ''1(a)'', summary 25 ''shirts'' ''1(b)'']
         default_context)) = 1
   \<and> \<not> is_multi_class_compliant (p3_run_full_assessment
      (Pillar3Assessor_init [summary 9 ''software'' ''1(a)'', summary 25 ''shirts'' ''1(b)'']
         default_context))"
proof -
  have ev: "map p3_severity (r_findings (p3_run_full_assessment
      (Pillar3Assessor_init [summary 9 ''software'' ''1(a)'', summary 25 ''shirts'' ''1(b)'']
         default_context))) =
    [''OK'', ''OK'', ''ERROR'', ''OK'', ''WARNING'', ''OK'', ''OK'', ''INFO'', ''OK'',
     ''INFO'', ''INFO'', ''OK'', ''OK'', ''INFO'', ''INFO'']"
    by code_simp
  show ?thesis
    using p3_result_totals
            [of "Pillar3Assessor_init
                   [summary 9 ''software'' ''1(a)'', summary 25 ''shirts'' ''1(b)'']
                   default_context"]
    by (simp add: length_filter_p3_severity ev)
qed

section \<open>Properties of the identification lens\<close>

lemma evaluate_findings:
  "subsection_findings (evaluate l) =
     [check_1402_01 (extract_candidate_goods l), check_1402_02 l (extract_candidate_goods l),
      check_1402_03 (detect_vague_terms l), check_1402_05 l, check_1402_09 l,
      check_1402_10 l, check_1402_11 l, check_1402_12 (detect_structural_issues l)]"
  by (simp add: evaluate_def Let_def)

lemma evaluate_is_definite_eq:
  "is_definite (evaluate l) = (sf_count ''ERROR'' (subsection_findings (evaluate l)) = 0)"
  unfolding evaluate_findings by (simp add: evaluate_def Let_def)

lemma search_from_append:
  "m (after_lit prev xs) ys \<Longrightarrow> search_from m prev (xs @ ys)"
proof (induction xs arbitrary: prev)
  case Nil
  then show ?case by (cases ys) (simp_all add: after_lit_def)
next
  case (Cons x xs)
  have "after_lit prev (x # xs) = after_lit (Some x) xs" by (simp add: after_lit_def)
  with Cons show ?case by simp
qed

lemma is_space_lower: "is_space c \<Longrightarrow> lower_char c = c"
  by (auto simp: is_space_def lower_char_def Let_def)

lemma is_space_not_word: "is_space c \<Longrightarrow> \<not> is_word_char c"
  by (auto simp: is_space_def is_word_char_def Let_def)

lemma m_vague_self:
  "t \<noteq> [] \<Longrightarrow> is_word_char (hd t) \<Longrightarrow> \<not> is_word_char c \<Longrightarrow> m_vague t (Some c) t"
  by (cases t) (simp_all add: m_vague_def wb_def word_opt_def next_char_def Let_def)

lemma severe_starts_with_letter:
  "t \<in> set severe_vague_terms \<Longrightarrow> t \<noteq> [] \<and> is_word_char (hd t)"
  by (auto simp: severe_vague_terms_def is_word_char_def)

lemma m_vague_severe:
  assumes "t \<in> set severe_vague_terms" "is_space c"
  shows "m_vague t (Some c) t"
  using severe_starts_with_letter[OF assms(1)] is_space_not_word[OF assms(2)]
  by (simp add: m_vague_self)

lemma lower_severe: "t \<in> set severe_vague_terms \<Longrightarrow> lower t = t"
  by (auto simp: severe_vague_terms_def lower_def lower_char_def)

lemma vague_search_appended:
  assumes "t \<in> set severe_vague_terms" "is_space c"
  shows "re_search_i (m_vague t) (txt @ c # t)"
proof -
  have "lower (txt @ c # t) = (lower txt @ [c]) @ t"
    using assms by (simp add: lower_def is_space_lower lower_severe[unfolded lower_def])
  moreover have "search_from (m_vague t) None ((lower txt @ [c]) @ t)"
    by (rule search_from_append) (simp add: after_lit_def m_vague_severe[OF assms])
  ultimately show ?thesis by (simp add: re_search_i_def)
qed

lemma foldl_vague_step_keeps:
  "t \<in> set found \<Longrightarrow> t \<in> set (foldl (vague_step txt) found terms)"
  by (induction terms arbitrary: found) (auto simp: vague_step_def)

lemma foldl_vague_step_finds:
  assumes "re_search_i (m_vague t) txt" "t \<noteq> ''services''" "t \<in> set terms"
  shows "t \<in> set (foldl (vague_step txt) found terms)"
  using assms(3)
proof (induction terms arbitrary: found)
  case Nil then show ?case by simp
next
  case (Cons a terms)
  show ?case
  proof (cases "a = t")
    case True
    have "t \<in> set (vague_step txt found t)"
      using assms(1,2) by (auto simp: vague_step_def)
    then show ?thesis using True by (simp add: foldl_vague_step_keeps)
  next
    case False
    with Cons show ?thesis by simp
  qed
qed

lemma severe_in_vague: "t \<in> set severe_vague_terms \<Longrightarrow> t \<in> set VAGUE_TERMS \<and> t \<noteq> ''services''"
  by (auto simp: severe_vague_terms_def VAGUE_TERMS_def)

lemma check_1402_03_error:
  "t \<in> set severe_vague_terms \<Longrightarrow> t \<in> set vague_found \<Longrightarrow>
   sf_severity (check_1402_03 vague_found) = ''ERROR''"
  by (auto simp: check_1402_03_def Let_def SF_def filter_empty_conv)




text \<open>
  C6. When the evaluation of an identification text is definite, the evaluation of the
  text followed by a whitespace character and one of the severe vague terms
  (miscellaneous, various, all types, any, and the like, etc, etc.) is not definite: the
  appended term is found by the vague-term search and section 1402.03 answers ERROR.
  (The conclusion does not depend on the first evaluation being definite.)
\<close>

theorem severe_vague_term_flips_is_definite:
  assumes "is_definite (evaluate (TMEP1402Lens_init txt pillar1_context))"
    and "t \<in> set severe_vague_terms"
    and "is_space c"
  shows "\<not> is_definite (evaluate (TMEP1402Lens_init (txt @ c # t) pillar1_context))"
proof -
  let ?l = "TMEP1402Lens_init (txt @ c # t) pillar1_context"
  have "t \<in> set (detect_vague_terms ?l)"
    unfolding detect_vague_terms_def
    using vague_search_appended [OF assms(2,3)] severe_in_vague [OF assms(2)]
    by (simp add: TMEP1402Lens_init_def foldl_vague_step_finds)
  then have "sf_severity (check_1402_03 (detect_vague_terms ?l)) = ''ERROR''"
    using assms(2) check_1402_03_error by blast
  then have "sf_count ''ERROR'' (subsection_findings (evaluate ?l)) \<noteq> 0"
    unfolding evaluate_findings by (simp add: sf_count_def)
  then show ?thesis
    by (simp add: evaluate_is_definite_eq)
qed

theorem severe_vague_term_flips_is_definite_witness:
  "is_definite (evaluate (TMEP1402Lens_init ''Downloadable software for accounting'' None))
   \<and> \<not> is_definite
       (evaluate (TMEP1402Lens_init ''Downloadable software for accounting miscellaneous'' None))"
proof -
  have h: "is_definite (evaluate (TMEP1402Lens_init ''Downloadable software for accounting'' None))"
    by code_simp
  have "\<not> is_definite (evaluate (TMEP1402Lens_init
           (''Downloadable software for accounting'' @ CHR '' '' # ''miscellaneous'') None))"
    by (rule severe_vague_term_flips_is_definite [OF h])
       (simp_all add: severe_vague_terms_def is_space_def)
  with h show ?thesis by simp
qed


section \<open>Properties of the keyword matcher\<close>

lemma foldl_add_sum:
  "foldl (\<lambda>score kw. score + f kw) a kws = a + sum_list (map f kws)"
  for a :: int
  by (induction kws arbitrary: a) simp_all

lemma class_score_sum: "class_score q kws = sum_list (map (kw_points q) kws)"
  by (simp add: class_score_def foldl_add_sum)

lemma foldl_suggest_step:
  "foldl (suggest_step q) acc tbl =
     acc @ map (\<lambda>it. (fst it, title (snd it), class_score q (class_keywords (snd it))))
             (filter (\<lambda>it. class_score q (class_keywords (snd it)) > 0) tbl)"
  by (induction tbl arbitrary: acc) (auto simp: suggest_step_def Let_def)

lemma insort_key_stable_sorted:
  assumes "sorted_wrt (\<lambda>a b. key a < key b \<or> (key a = key b \<and> R a b)) ys"
    and "\<forall>y \<in> set ys. R x y"
  shows "sorted_wrt (\<lambda>a b. key a < key b \<or> (key a = key b \<and> R a b)) (insort_key key x ys)"
  using assms
proof (induction ys)
  case Nil
  then show ?case by simp
next
  case (Cons y ys)
  show ?case
  proof (cases "key x \<le> key y")
    case True
    have "\<forall>z \<in> set (y # ys). key x < key z \<or> (key x = key z \<and> R x z)"
    proof
      fix z assume z: "z \<in> set (y # ys)"
      have "key y \<le> key z" using Cons.prems(1) z by auto
      with True have "key x \<le> key z" by simp
      moreover have "R x z" using Cons.prems(2) z by blast
      ultimately show "key x < key z \<or> (key x = key z \<and> R x z)" by auto
    qed
    with True Cons.prems(1) show ?thesis by simp
  next
    case False
    have ih: "sorted_wrt (\<lambda>a b. key a < key b \<or> (key a = key b \<and> R a b)) (insort_key key x ys)"
      using Cons by simp
    have "\<forall>z \<in> set (insort_key key x ys). key y < key z \<or> (key y = key z \<and> R y z)"
      using Cons.prems(1) False by (auto simp: set_insort_key)
    with False ih show ?thesis by simp
  qed
qed

lemma sort_key_stable_sorted:
  fixes key :: "'a \<Rightarrow> int"
  assumes "sorted_wrt R xs"
  shows "sorted_wrt (\<lambda>a b. key a < key b \<or> (key a = key b \<and> R a b)) (sort_key key xs)"
  using assms
proof (induction xs)
  case Nil
  then show ?case by simp
next
  case (Cons x xs)
  have "sort_key key (x # xs) = insort_key key x (sort_key key xs)"
    by (simp add: sort_key_def)
  moreover have "\<forall>y \<in> set (sort_key key xs). R x y"
    using Cons.prems by simp
  ultimately show ?case
    using Cons insort_key_stable_sorted [of key R "sort_key key xs" x] by simp
qed

lemma NICE_CLASSES_numbers: "map fst NICE_CLASSES = [1..45]"
  by code_simp

lemma NICE_CLASSES_lowercase:
  "list_all (\<lambda>it. list_all (\<lambda>kw. lower kw = kw) (class_keywords (snd it))) NICE_CLASSES"
  by code_simp


lemma str_in_refl: "str_in xs xs"
  by (cases xs) simp_all

lemma ranked_suggestions_eq:
  "ranked_suggestions tbl keyword =
     sort_key (\<lambda>x. - sug_score x)
       (map (\<lambda>it. (fst it, title (snd it),
                    class_score (strip (lower keyword)) (class_keywords (snd it))))
          (filter (\<lambda>it. class_score (strip (lower keyword)) (class_keywords (snd it)) > 0) tbl))"
  by (simp add: ranked_suggestions_def Let_def foldl_suggest_step)

lemma ranked_suggestions_sorted:
  assumes "sorted_wrt (<) (map fst tbl)"
  shows "sorted_wrt (\<lambda>a b. sug_score a > sug_score b
                          \<or> (sug_score a = sug_score b \<and> sug_class a < sug_class b))
           (ranked_suggestions tbl keyword)"
proof -
  let ?q = "strip (lower keyword)"
  let ?g = "\<lambda>it. (fst it, title (snd it), class_score ?q (class_keywords (snd it)))"
  let ?xs = "filter (\<lambda>it. class_score ?q (class_keywords (snd it)) > 0) tbl"
  have "sorted_wrt (\<lambda>x y. fst x < fst y) tbl"
    using assms by (simp add: sorted_wrt_map)
  then have "sorted_wrt (\<lambda>x y. fst x < fst y) ?xs"
    by (rule sorted_wrt_filter)
  then have "sorted_wrt (\<lambda>a b. sug_class a < sug_class b) (map ?g ?xs)"
    by (simp add: sorted_wrt_map sug_class_def)
  from sort_key_stable_sorted [OF this, of "\<lambda>x. - sug_score x"]
  show ?thesis
    unfolding ranked_suggestions_eq
    by (rule sorted_wrt_mono_rel [rotated]) auto
qed

text \<open>
  C1. Let \<open>q\<close> be the query term, lower-cased and stripped. The table holds the 45
  classes 1..45 in this order, and every keyword in it is lower-case, so that comparing
  \<open>q\<close> with a keyword compares term and keyword without regard to case. A keyword
  adds 10 to the score of its class when \<open>q\<close> equals it, otherwise 5 when one of the
  two contains the other, otherwise 2 when a whitespace-split word of \<open>q\<close> occurs in
  the keyword, otherwise nothing; the score of a class is the sum over its whole keyword
  list. The ranked list holds exactly the classes with a score above 0, each once, in
  descending order of score and, among equal scores, in the order of the table; the
  function returns its first five elements.
\<close>

theorem suggest_class_for_keyword_scoring:
  fixes keyword :: string
  defines "q \<equiv> strip (lower keyword)"
  defines "score \<equiv> \<lambda>info. sum_list (map (kw_points q) (class_keywords info))"
  shows
  "map fst NICE_CLASSES = [1..45]
   \<and> (\<forall>it \<in> set NICE_CLASSES. \<forall>kw \<in> set (class_keywords (snd it)). lower kw = kw)
   \<and> (\<forall>kw. (q = kw \<longrightarrow> kw_points q kw = 10)
          \<and> (q \<noteq> kw \<and> (str_in q kw \<or> str_in kw q) \<longrightarrow> kw_points q kw = 5)
          \<and> (\<not> (str_in q kw \<or> str_in kw q) \<and> (\<exists>word \<in> set (split_ws q). str_in word kw)
               \<longrightarrow> kw_points q kw = 2)
          \<and> (\<not> (str_in q kw \<or> str_in kw q) \<and> \<not> (\<exists>word \<in> set (split_ws q). str_in word kw)
               \<longrightarrow> kw_points q kw = 0))
   \<and> set (ranked_suggestions NICE_CLASSES keyword) =
       {(n, title info, score info) | n info. (n, info) \<in> set NICE_CLASSES \<and> score info > 0}
   \<and> length (ranked_suggestions NICE_CLASSES keyword) =
       length (filter (\<lambda>it. score (snd it) > 0) NICE_CLASSES)
   \<and> sorted_wrt (\<lambda>a b. sug_score a > sug_score b
                        \<or> (sug_score a = sug_score b \<and> sug_class a < sug_class b))
        (ranked_suggestions NICE_CLASSES keyword)
   \<and> suggest_class_for_keyword keyword = take 5 (ranked_suggestions NICE_CLASSES keyword)
   \<and> length (suggest_class_for_keyword keyword) \<le> 5"
proof -
  have 1: "map fst NICE_CLASSES = [1..45]" by (rule NICE_CLASSES_numbers)
  have 2: "\<forall>it \<in> set NICE_CLASSES. \<forall>kw \<in> set (class_keywords (snd it)). lower kw = kw"
    using NICE_CLASSES_lowercase by (simp add: list_all_iff)
  have 3: "\<forall>kw. (q = kw \<longrightarrow> kw_points q kw = 10)
          \<and> (q \<noteq> kw \<and> (str_in q kw \<or> str_in kw q) \<longrightarrow> kw_points q kw = 5)
          \<and> (\<not> (str_in q kw \<or> str_in kw q) \<and> (\<exists>word \<in> set (split_ws q). str_in word kw)
               \<longrightarrow> kw_points q kw = 2)
          \<and> (\<not> (str_in q kw \<or> str_in kw q) \<and> \<not> (\<exists>word \<in> set (split_ws q). str_in word kw)
               \<longrightarrow> kw_points q kw = 0)"
    by (auto simp: kw_points_def list_ex_iff str_in_refl)
  have sc: "class_score q (class_keywords info) = score info" for info
    by (simp add: score_def class_score_sum)
  have 4: "set (ranked_suggestions NICE_CLASSES keyword) =
       {(n, title info, score info) | n info. (n, info) \<in> set NICE_CLASSES \<and> score info > 0}"
    unfolding ranked_suggestions_eq q_def [symmetric]
    by (auto simp: sc image_iff)
  have 5: "length (ranked_suggestions NICE_CLASSES keyword) =
       length (filter (\<lambda>it. score (snd it) > 0) NICE_CLASSES)"
    unfolding ranked_suggestions_eq q_def [symmetric] by (simp add: sc)
  have 6: "sorted_wrt (\<lambda>a b. sug_score a > sug_score b
                        \<or> (sug_score a = sug_score b \<and> sug_class a < sug_class b))
        (ranked_suggestions NICE_CLASSES keyword)"
    by (rule ranked_suggestions_sorted) (simp add: 1)
  have 7: "suggest_class_for_keyword keyword = take 5 (ranked_suggestions NICE_CLASSES keyword)"
    by (simp add: suggest_class_for_keyword_def suggest_on_def)
  have 8: "length (suggest_class_for_keyword keyword) \<le> 5"
    unfolding 7 by simp
  from 1 2 3 4 5 6 7 8 show ?thesis by blast
qed

theorem suggest_class_for_keyword_scoring_witness:
  "suggest_class_for_keyword '' EV '' =
     [(42, ''Scientific and Technology Services'', 20), (10, ''Medical Devices'', 15),
      (9, ''Scientific and Electronic Apparatus'', 10), (12, ''Vehicles'', 10),
      (32, ''Beer and Non-Alcoholic Beverages'', 10)]
   \<and> suggest_class_for_keyword '' EV '' = take 5 (ranked_suggestions NICE_CLASSES '' EV '')
   \<and> kw_points (strip (lower '' EV '')) ''ev'' = 10"
proof -
  have ev: "suggest_class_for_keyword '' EV '' =
     [(42, ''Scientific and Technology Services'', 20), (10, ''Medical Devices'', 15),
      (9, ''Scientific and Electronic Apparatus'', 10), (12, ''Vehicles'', 10),
      (32, ''Beer and Non-Alcoholic Beverages'', 10)]"
    by code_simp
  have q: "strip (lower '' EV '') = ''ev''"
    by code_simp
  show ?thesis
    using suggest_class_for_keyword_scoring [of "'' EV ''"] ev q by simp
qed

subsection \<open>The keyword matcher on a store\<close>

lemma lookup_append: "lookup h a = Some v \<Longrightarrow> lookup (h @ ys) a = Some v"
  by (auto simp: lookup_def nth_append split: if_splits)

lemma lookup_new [simp]: "lookup (h @ [v]) (length h) = Some v"
  by (simp add: lookup_def)

lemma class_at_append:
  assumes "class_at h a info"
  shows "class_at (h @ ys) a info"
proof -
  from assms obtain ka where
    l1: "lookup h a = Some (ClassDict (category info) (title info) ka)"
    and l2: "lookup h ka = Some (StrList (class_keywords info))"
    by (auto simp: class_at_def split: option.splits pyobj.splits)
  show ?thesis
    by (simp add: class_at_def lookup_append [OF l1] lookup_append [OF l2])
qed

lemma table_at_append:
  assumes "table_at h a tbl"
  shows "table_at (h @ ys) a tbl"
proof -
  from assms obtain items where
    l: "lookup h a = Some (TableDict items)"
    and all: "list_all2 (\<lambda>it e. fst it = fst e \<and> class_at h (snd it) (snd e)) items tbl"
    by (auto simp: table_at_def split: option.splits pyobj.splits)
  from all have "list_all2 (\<lambda>it e. fst it = fst e \<and> class_at (h @ ys) (snd it) (snd e)) items tbl"
    by (rule list_all2_mono) (simp add: class_at_append)
  then show ?thesis
    by (simp add: table_at_def lookup_append [OF l])
qed

lemma items_turn_step:
  assumes t: "table_at h0 da tbl" and i: "i < length tbl"
    and it: "lookup h0 da = Some (TableDict items)"
  shows "items_turn da (length h0) q (length items) (h0 @ [TupleList acc]) i =
           Some (h0 @ [TupleList (suggest_step q acc (tbl ! i))])"
proof -
  from t it have all: "list_all2 (\<lambda>it e. fst it = fst e \<and> class_at h0 (snd it) (snd e)) items tbl"
    by (simp add: table_at_def)
  then have len: "length items = length tbl" by (rule list_all2_lengthD)
  from all i have f: "fst (items ! i) = fst (tbl ! i)"
    and c: "class_at h0 (snd (items ! i)) (snd (tbl ! i))"
    by (auto simp: list_all2_conv_all_nth)
  obtain cn ca where ii: "items ! i = (cn, ca)" by (cases "items ! i")
  obtain n info where ti: "tbl ! i = (n, info)" by (cases "tbl ! i")
  from f ii ti have cn: "cn = n" by simp
  from c ii ti obtain ka where
    l1: "lookup h0 ca = Some (ClassDict (category info) (title info) ka)"
    and l2: "lookup h0 ka = Some (StrList (class_keywords info))"
    by (auto simp: class_at_def split: option.splits pyobj.splits)
  have app: "list_append (length h0) x (h0 @ [TupleList acc]) = Some (h0 @ [TupleList (acc @ [x])])"
    for x
    by (simp add: list_append_def)
  show ?thesis
    unfolding items_turn_def
    by (simp add: lookup_append [OF it] lookup_append [OF l1] lookup_append [OF l2]
        ii ti cn app suggest_step_def Let_def)
qed

lemma items_loop:
  assumes t: "table_at h0 da tbl" and it: "lookup h0 da = Some (TableDict items)"
  shows "\<forall>i \<in> set ixs. i < length tbl \<Longrightarrow>
         fold_option (items_turn da (length h0) q (length items)) (h0 @ [TupleList acc]) ixs =
           Some (h0 @ [TupleList (foldl (suggest_step q) acc (map (nth tbl) ixs))])"
proof (induction ixs arbitrary: acc)
  case Nil
  show ?case by simp
next
  case (Cons i ixs)
  then have i: "i < length tbl" by simp
  show ?case
    using Cons by (simp add: items_turn_step [OF t i it])
qed

lemma call_result:
  assumes t: "table_at h da tbl"
  shows "call_suggest_class_for_keyword da keyword h =
           Some (Suc (length h),
                 h @ [TupleList (ranked_suggestions tbl keyword), TupleList (suggest_on tbl keyword)])"
proof -
  from t obtain items where it: "lookup h da = Some (TableDict items)"
    by (auto simp: table_at_def split: option.splits pyobj.splits)
  from t it have len: "length items = length tbl"
    by (auto simp: table_at_def dest: list_all2_lengthD)
  let ?q = "strip (lower keyword)"
  have loop: "fold_option (items_turn da (length h) ?q (length items)) (h @ [TupleList []])
                [0..<length items] =
              Some (h @ [TupleList (foldl (suggest_step ?q) [] tbl)])"
    using items_loop [OF t it, of "[0..<length items]" ?q "[]"]
    by (simp add: len map_nth)
  have srt: "list_sort_by_score (length h) (h @ [TupleList xs]) =
               Some (h @ [TupleList (sort_key (\<lambda>x. - sug_score x) xs)])" for xs
    by (simp add: list_sort_by_score_def)
  have slc: "list_slice 5 (length h) (h @ [TupleList xs]) =
               Some (Suc (length h), h @ [TupleList xs, TupleList (take 5 xs)])" for xs
    by (simp add: list_slice_def new_object_def)
  show ?thesis
    unfolding call_suggest_class_for_keyword_def
    by (simp add: Let_def new_object_def lookup_append [OF it] loop srt slc
        ranked_suggestions_def suggest_on_def)
qed

lemma tuples_at_last:
  "tuples_at (h @ [a, TupleList xs]) (Suc (length h)) = Some xs"
  by (simp add: tuples_at_def lookup_def nth_append)

lemma tuples_at_append:
  assumes "tuples_at h a = Some xs"
  shows "tuples_at (h @ ys) a = Some xs"
proof -
  from assms have l: "lookup h a = Some (TupleList xs)"
    by (auto simp: tuples_at_def split: option.splits pyobj.splits)
  show ?thesis by (simp add: tuples_at_def lookup_append [OF l])
qed

lemma class_objects_at:
  "list_all2 (\<lambda>it e. fst it = fst e
                \<and> class_at (pre @ class_objects (length pre) tbl @ post) (snd it) (snd e))
     (class_items (length pre) tbl) tbl"
proof (induction tbl arbitrary: pre)
  case Nil
  show ?case by simp
next
  case (Cons kv rest)
  let ?c = "ClassDict (category (snd kv)) (title (snd kv)) (Suc (length pre))"
  let ?s = "StrList (class_keywords (snd kv))"
  let ?h = "pre @ class_objects (length pre) (kv # rest) @ post"
  have h: "?h = (pre @ [?c, ?s]) @ class_objects (length (pre @ [?c, ?s])) rest @ post"
    by simp
  have l1: "lookup ?h (length pre) = Some ?c"
    by (simp add: lookup_def nth_append)
  have l2: "lookup ?h (Suc (length pre)) = Some ?s"
  proof -
    have "?h ! length (pre @ [?c]) = ?s"
      using nth_append_length [of "pre @ [?c]" ?s "class_objects (length pre + 2) rest @ post"]
      by simp
    then show ?thesis by (simp add: lookup_def)
  qed
  have c: "class_at ?h (length pre) (snd kv)"
    using l1 l2 by (simp add: class_at_def)
  have r: "list_all2 (\<lambda>it e. fst it = fst e \<and> class_at ?h (snd it) (snd e))
             (class_items (length (pre @ [?c, ?s])) rest) rest"
    unfolding h by (rule Cons.IH)
  show ?case
    using c r by simp
qed

lemma table_at_load_table: "table_at (load_table tbl) 0 tbl"
  using class_objects_at [of "[TableDict (class_items 1 tbl)]" tbl "[]"]
  by (simp add: table_at_def load_table_def lookup_def)

text \<open>
  C8. With the table held in the store, a call of \<open>suggest_class_for_keyword\<close> returns,
  and so does a second call with the same term made in the store the first call left.
  Both return the same ordered list of (class number, title, score) triples, the list
  \<open>suggest_on\<close> computes from the term and the table alone; the list returned first is
  still that list after the second call. Every object that was in the store before a
  call is in it afterwards, at its address and unchanged (the calls only add their own
  lists), so the table is the same for every later call.
\<close>

theorem suggest_class_for_keyword_deterministic:
  assumes "table_at h table_addr tbl"
  shows "\<exists>r1 h1 r2 h2.
           call_suggest_class_for_keyword table_addr keyword h = Some (r1, h1)
         \<and> call_suggest_class_for_keyword table_addr keyword h1 = Some (r2, h2)
         \<and> tuples_at h1 r1 = Some (suggest_on tbl keyword)
         \<and> tuples_at h2 r2 = Some (suggest_on tbl keyword)
         \<and> tuples_at h2 r1 = Some (suggest_on tbl keyword)
         \<and> prefix h h1 \<and> prefix h1 h2
         \<and> table_at h1 table_addr tbl \<and> table_at h2 table_addr tbl"
proof -
  let ?h1 = "h @ [TupleList (ranked_suggestions tbl keyword), TupleList (suggest_on tbl keyword)]"
  let ?h2 = "?h1 @ [TupleList (ranked_suggestions tbl keyword), TupleList (suggest_on tbl keyword)]"
  have t1: "table_at ?h1 table_addr tbl" using assms by (rule table_at_append)
  have t2: "table_at ?h2 table_addr tbl" using t1 by (rule table_at_append)
  have c1: "call_suggest_class_for_keyword table_addr keyword h = Some (Suc (length h), ?h1)"
    using assms by (rule call_result)
  have c2: "call_suggest_class_for_keyword table_addr keyword ?h1 = Some (Suc (length ?h1), ?h2)"
    using t1 by (rule call_result)
  have r1: "tuples_at ?h1 (Suc (length h)) = Some (suggest_on tbl keyword)"
    by (rule tuples_at_last)
  have r2: "tuples_at ?h2 (Suc (length ?h1)) = Some (suggest_on tbl keyword)"
    by (rule tuples_at_last)
  have r3: "tuples_at ?h2 (Suc (length h)) = Some (suggest_on tbl keyword)"
    using r1 by (rule tuples_at_append)
  have p1: "prefix h ?h1" and p2: "prefix ?h1 ?h2" by simp_all
  from c1 c2 r1 r2 r3 p1 p2 t1 t2 show ?thesis by blast
qed

theorem suggest_class_for_keyword_deterministic_witness:
  "table_at (load_table NICE_CLASSES) 0 NICE_CLASSES
   \<and> (\<exists>r1 h1 r2 h2.
          call_suggest_class_for_keyword 0 ''bag'' (load_table NICE_CLASSES) = Some (r1, h1)
        \<and> call_suggest_class_for_keyword 0 ''bag'' h1 = Some (r2, h2)
        \<and> tuples_at h1 r1 = Some [(18, ''Leather Goods'', 20)]
        \<and> tuples_at h2 r2 = Some [(18, ''Leather Goods'', 20)]
        \<and> prefix (load_table NICE_CLASSES) h2)"
proof -
  have m: "table_at (load_table NICE_CLASSES) 0 NICE_CLASSES"
    by (rule table_at_load_table)
  have ev: "suggest_on NICE_CLASSES ''bag'' = [(18, ''Leather Goods'', 20)]"
    by code_simp
  from suggest_class_for_keyword_deterministic [OF m, of "''bag''"] obtain r1 h1 r2 h2 where
    "call_suggest_class_for_keyword 0 ''bag'' (load_table NICE_CLASSES) = Some (r1, h1)"
    "call_suggest_class_for_keyword 0 ''bag'' h1 = Some (r2, h2)"
    "tuples_at h1 r1 = Some [(18, ''Leather Goods'', 20)]"
    "tuples_at h2 r2 = Some [(18, ''Leather Goods'', 20)]"
    "prefix (load_table NICE_CLASSES) h1" "prefix h1 h2"
    unfolding ev by blast
  moreover from this have "prefix (load_table NICE_CLASSES) h2"
    by (meson prefix_order.order_trans)
  ultimately show ?thesis using m by blast
qed


section \<open>Properties of the Pillar 1 run\<close>

lemma extends_refl [simp]: "extends s s"
  by (simp add: extends_def)

lemma extends_trans: "extends a b \<Longrightarrow> extends b c \<Longrightarrow> extends a c"
  by (auto simp: extends_def)

lemma extends_append_findings [simp]: "extends s (append_findings fs s)"
  by (simp add: extends_def append_findings_def)

lemma extends_append_finding [simp]: "extends s (append_finding f s)"
  by (simp add: extends_def append_finding_def)

lemma foldl_extends:
  assumes "\<And>st c. extends st (f st c)"
  shows "extends s (foldl f s cs)"
proof (induction cs arbitrary: s)
  case Nil
  show ?case by simp
next
  case (Cons c cs)
  have "extends s (f s c)" by (rule assms)
  moreover have "extends (f s c) (foldl f (f s c) cs)" by (rule Cons.IH)
  ultimately show ?case using extends_trans by simp
qed

lemma foldl_pair_extends:
  assumes "\<And>b st c. extends st (snd (f (b, st) c))"
  shows "extends s (snd (foldl f (b, s) cs))"
proof (induction cs arbitrary: b s)
  case Nil
  show ?case by simp
next
  case (Cons c cs)
  obtain b' s' where eq: "f (b, s) c = (b', s')" by (cases "f (b, s) c")
  have "extends s s'" using assms [of s b c] eq by simp
  moreover have "extends s' (snd (foldl f (b', s') cs))" by (rule Cons.IH)
  ultimately show ?case using extends_trans eq by simp
qed

lemma foldE_extends:
  assumes "\<And>st c st'. f st c = Inr st' \<Longrightarrow> extends st st'"
    and "foldE f s cs = Inr s'"
  shows "extends s s'"
  using assms(2)
proof (induction cs arbitrary: s)
  case Nil
  then show ?case by simp
next
  case (Cons c cs)
  then obtain s1 where s1: "f s c = Inr s1" and rest: "foldE f s1 cs = Inr s'"
    by (auto split: sum.splits)
  have "extends s s1" using assms(1) s1 by blast
  moreover have "extends s1 s'" using Cons.IH rest by blast
  ultimately show ?case using extends_trans by blast
qed

lemma foldE_total:
  assumes "\<And>st c. \<exists>st'. f st c = Inr st'"
  shows "\<exists>s'. foldE f s cs = Inr s'"
proof (induction cs arbitrary: s)
  case Nil
  show ?case by simp
next
  case (Cons c cs)
  obtain s1 where "f s c = Inr s1" using assms by blast
  then show ?case using Cons.IH [of s1] by simp
qed

lemma foldl_append_findings:
  "foldl (\<lambda>st c. append_findings (F c) st) s cs = append_findings (concat (map F cs)) s"
  by (induction cs arbitrary: s) (simp_all add: append_findings_def)

lemma extends_check_1401_01: "extends s (check_1401_01 s)"
proof -
  let ?f = "\<lambda>st c. case st of (found_invalid_basis, s1) \<Rightarrow>
                    if filing_basis c \<notin> set valid_bases
                    then (True,
                          append_findings
                            [AF ''1401.01'' ''ERROR'' (class_number c)
                                [T ''Filing basis: '', T (filing_basis c)]
                                [T ''Invalid or unrecognized filing basis. ...'']
                                [T ''Correct filing basis to one of: '', TS valid_bases, T ''.'']] s1)
                    else (found_invalid_basis, s1)"
  have step: "extends s (snd (foldl ?f (False, s) (classes (app s))))"
    by (rule foldl_pair_extends) simp
  obtain b s1 where eq: "foldl ?f (False, s) (classes (app s)) = (b, s1)"
    by (cases "foldl ?f (False, s) (classes (app s))")
  with step have "extends s s1" by simp
  moreover have "check_1401_01 s =
      (if \<not> b then append_findings
                 [AF ''1401.01'' ''OK'' 0 [T ''Filing Basis'']
                     [T ''All filing bases are recognized under the Lanham Act. ...'']
                     [T ''No action required.'']] s1 else s1)"
    unfolding check_1401_01_def eq by simp
  ultimately show ?thesis
    using extends_trans [OF _ extends_append_findings] by auto
qed

lemma extends_check_1401_02: "extends s (check_1401_02 s)"
proof -
  have "findings (check_1401_02 s) = findings s @ new_findings check_1401_02 s"
    by (simp add: check_1401_02_findings new_findings_1401_02)
  moreover have "app (check_1401_02 s) = app s"
    by (simp add: check_1401_02_def foldl_step_1401_02 append_finding_def split: prod.splits)
  ultimately show ?thesis by (simp add: extends_def)
qed

lemma extends_check_1401_04: "extends s (check_1401_04 s)"
proof -
  have "extends s (if length (map class_number (classes (app s))) \<noteq> length (distinct_classes_of (app s))
          then append_finding
                 (duplicate_warning_1401_04
                    (filter (\<lambda>cls. count_list (map class_number (classes (app s))) cls > 1)
                       (distinct_classes_of (app s)))) s
          else s)" (is "extends s ?s1")
    by simp
  moreover have "extends ?s1 (append_finding (fee_count_finding (app ?s1)) ?s1)" (is "extends _ ?s2")
    by simp
  moreover have "extends ?s2 (foldl (\<lambda>st c. if \<not> fee_paid c
                         then append_finding (no_fee_error_1401_04 (app st) c) st else st)
               ?s2 (classes (app ?s2)))"
    by (rule foldl_extends) simp
  ultimately show ?thesis
    unfolding check_1401_04_def Let_def using extends_trans by blast
qed

lemma append_findings_twice [simp]:
  "append_findings fs (append_findings gs s) = append_findings (gs @ fs) s"
  by (simp add: append_findings_def)

lemma app_append_findings [simp]: "app (append_findings fs s) = app s"
  by (simp add: append_findings_def)

lemma findings_append_findings [simp]: "findings (append_findings fs s) = findings s @ fs"
  by (simp add: append_findings_def)

lemma new_findings_append [simp]:
  "new_findings (\<lambda>s. append_findings (G (app s)) s) s = G (app s)"
  by (simp add: new_findings_def)

lemma app_onlyI:
  assumes "\<And>s. check s = append_findings (G (app s)) s"
  shows "app_only check"
proof -
  have "new_findings check (assessor a) = G a" for a
    by (simp add: new_findings_def assms assessor_def)
  then show ?thesis by (simp add: app_only_def assms)
qed

lemma check_1401_05_eq:
  "check_1401_05 s = append_findings (concat (map class_findings_1401_05 (classes (app s)))) s"
  by (simp add: check_1401_05_def foldl_append_findings)

lemma check_1401_06_eq:
  "check_1401_06 s = append_findings (concat (map class_findings_1401_06 (classes (app s)))) s"
  by (simp add: check_1401_06_def foldl_append_findings)

lemma check_1401_07_eq:
  "check_1401_07 s = append_findings (concat (map class_findings_1401_07 (classes (app s)))) s"
  by (simp add: check_1401_07_def foldl_append_findings)

lemma check_1401_10_eq:
  "check_1401_10 s =
     append_findings
       (concat (map (\<lambda>c. concat (map (term_findings_1401_10 (filing_date (app s)) c)
                                   recently_added_terms)) (classes (app s)))
        @ [general_notice_1401_10]) s"
  by (simp add: check_1401_10_def Let_def foldl_append_findings)

lemma check_1401_11_eq:
  "check_1401_11 s =
     append_findings
       (concat (map misplacement_errors_1401_11 (classes (app s))) @ date_findings_1401_11 (app s)) s"
  by (simp add: check_1401_11_def Let_def foldl_append_findings)

lemma check_1401_12_eq:
  "\<exists>G. \<forall>s. check_1401_12 s = append_findings (G (app s)) s"
  by (rule exI [of _ "\<lambda>a. concat (map class_findings_1401_12 (classes a)) @
           [AF ''1401.12'' ''INFO'' 0 [T ''9th Edition Nice Agreement Review'']
               [T ''9th Edition (2002-2006): Key changes included refinements to educational and entertainment services (Class 41), ...'']
               [T ''If application was filed during 2002-2006, verify against 9th Edition ID Manual entries. ...'']]"])
     (simp add: check_1401_12_def Let_def foldl_append_findings)

lemma check_1401_13_eq:
  "check_1401_13 s = append_findings (concat (map class_findings_1401_13 (classes (app s)))) s"
  by (simp add: check_1401_13_def foldl_append_findings)

lemma check_1401_14_eq:
  "check_1401_14 s = append_findings (concat (map class_findings_1401_14 (classes (app s)))) s"
  by (simp add: check_1401_14_def foldl_append_findings)

lemma check_1401_15_eq:
  "\<exists>G. \<forall>s. check_1401_15 s = append_findings (G (app s)) s"
  by (rule exI [of _ "\<lambda>a. concat (map class_findings_1401_15 (classes a)) @
           [AF ''1401.15'' ''INFO'' 0 [T ''12th Edition (Current) Compliance - Nov 2025'']
               [T ''This assessment is based on the 12th Edition of the Nice Agreement (effective January 1, 2023), ...'']
               [T ''Ensure all identification language conforms to 12th Edition requirements and current USPTO ID Manual entries.'']]"])
     (simp add: check_1401_15_def Let_def foldl_append_findings)

lemma check_1401_09_eq:
  "check_1401_09 s = append_findings (new_findings check_1401_09 (assessor (app s))) s"
proof (cases "map_of NICE_EDITION_TIMELINE (nice_edition_claimed (app s))")
  case None
  then show ?thesis
    by (simp add: check_1401_09_def new_findings_def assessor_def Let_def)
next
  case e: (Some edition_info)
  show ?thesis
  proof (cases "filing_date (app s) = []")
    case True
    with e show ?thesis
      by (simp add: check_1401_09_def new_findings_def assessor_def Let_def append_findings_def)
  next
    case ne: False
    show ?thesis
    proof (cases "strptime_ymd (filing_date (app s))")
      case None
      with e ne show ?thesis
        by (simp add: check_1401_09_def new_findings_def assessor_def Let_def)
    next
      case f: (Some filing_dt)
      show ?thesis
      proof (cases "strptime_ymd (ed_start edition_info)")
        case None
        with e ne f show ?thesis
          by (simp add: check_1401_09_def new_findings_def assessor_def Let_def)
      next
        case st: (Some edition_start)
        show ?thesis
        proof (cases "strptime_ymd (ed_end edition_info)")
          case None
          with e ne f st show ?thesis
            by (simp add: check_1401_09_def new_findings_def assessor_def Let_def)
        next
          case en: (Some edition_end)
          with e ne f st show ?thesis
            by (simp add: check_1401_09_def new_findings_def assessor_def Let_def)
        qed
      qed
    qed
  qed
qed

lemma app_only_checks:
  "app_only check_1401_05" "app_only check_1401_06" "app_only check_1401_07"
  "app_only check_1401_09" "app_only check_1401_10" "app_only check_1401_11"
  "app_only check_1401_12" "app_only check_1401_13" "app_only check_1401_14"
  "app_only check_1401_15"
proof -
  show "app_only check_1401_05" by (rule app_onlyI) (rule check_1401_05_eq)
  show "app_only check_1401_06" by (rule app_onlyI) (rule check_1401_06_eq)
  show "app_only check_1401_07" by (rule app_onlyI) (rule check_1401_07_eq)
  show "app_only check_1401_09" unfolding app_only_def by (rule allI) (rule check_1401_09_eq)
  show "app_only check_1401_10" by (rule app_onlyI) (rule check_1401_10_eq)
  show "app_only check_1401_11" by (rule app_onlyI) (rule check_1401_11_eq)
  show "app_only check_1401_12" using check_1401_12_eq app_onlyI by blast
  show "app_only check_1401_13" by (rule app_onlyI) (rule check_1401_13_eq)
  show "app_only check_1401_14" by (rule app_onlyI) (rule check_1401_14_eq)
  show "app_only check_1401_15" using check_1401_15_eq app_onlyI by blast
qed

lemma app_only_extends: "app_only check \<Longrightarrow> extends s (check s)"
  unfolding app_only_def by (metis extends_append_findings)

lemma app_only_findings:
  "app_only check \<Longrightarrow> app s = a \<Longrightarrow>
   findings (check s) = findings s @ new_findings check (assessor a)"
  unfolding app_only_def by (metis findings_append_findings)

lemma extends_class_step_1401_08: "extends s (class_step_1401_08 s c)"
  unfolding class_step_1401_08_def Let_def
  by (auto split: option.splits intro: extends_trans [OF extends_append_findings])

lemma extends_check_1401_08: "extends s (check_1401_08 s)"
  unfolding check_1401_08_def by (rule foldl_extends) (rule extends_class_step_1401_08)

lemma suggested_class_known:
  assumes "x \<in> set (suggest_class_for_keyword term)"
  shows "\<exists>info. get_class_info (sug_class x) = Some info"
proof -
  have "x \<in> set (ranked_suggestions NICE_CLASSES term)"
    using assms by (auto simp: suggest_class_for_keyword_def suggest_on_def dest: in_set_takeD)
  then have "sug_class x \<in> fst ` set NICE_CLASSES"
    unfolding ranked_suggestions_eq by (force simp: sug_class_def)
  then have "map_of NICE_CLASSES (sug_class x) \<noteq> None"
    by (simp add: map_of_eq_None_iff)
  then show ?thesis by (auto simp: get_class_info_def)
qed

lemma step_B_1401_03_total: "\<exists>s'. step_B_1401_03 claimed class_info s term = Inr s'"
proof (cases "suggest_class_for_keyword term")
  case Nil
  then show ?thesis by (simp add: step_B_1401_03_def)
next
  case (Cons best rest)
  then have "best \<in> set (suggest_class_for_keyword term)" by simp
  then obtain info where "get_class_info (sug_class best) = Some info"
    using suggested_class_known by blast
  with Cons show ?thesis by (simp add: step_B_1401_03_def Let_def)
qed

lemma step_B_1401_03_extends:
  "step_B_1401_03 claimed class_info s term = Inr s' \<Longrightarrow> extends s s'"
  unfolding step_B_1401_03_def Let_def
  by (auto split: list.splits option.splits if_splits)

lemma extends_step_D: "extends s (step_D_1401_03 c class_info m s)"
  by (simp add: step_D_1401_03_def Let_def)

lemma class_step_1401_03_total: "\<exists>s'. class_step_1401_03 s c = Inr s'"
proof (cases "get_class_info (class_number c)")
  case None
  then show ?thesis by (simp add: class_step_1401_03_def Let_def)
next
  case (Some class_info)
  obtain s2 where "foldE (step_B_1401_03 (class_number c) class_info)
      (append_findings (map (error_A_1401_03 (class_number c) class_info)
         (step_A_1401_03 (class_number c) (strip (lower (identification c))) class_info)) s)
      (split_terms (strip (lower (identification c)))) = Inr s2"
    using foldE_total [of "step_B_1401_03 (class_number c) class_info"] step_B_1401_03_total
    by blast
  with Some show ?thesis by (simp add: class_step_1401_03_def Let_def)
qed

lemma class_step_1401_03_extends:
  assumes "class_step_1401_03 s c = Inr s'"
  shows "extends s s'"
proof (cases "get_class_info (class_number c)")
  case None
  with assms show ?thesis by (simp add: class_step_1401_03_def Let_def)
next
  case (Some class_info)
  let ?id = "strip (lower (identification c))"
  let ?s1 = "append_findings (map (error_A_1401_03 (class_number c) class_info)
         (step_A_1401_03 (class_number c) ?id class_info)) s"
  from assms Some obtain s2 where
    b: "foldE (step_B_1401_03 (class_number c) class_info) ?s1 (split_terms ?id) = Inr s2"
    and s': "s' = step_D_1401_03 c class_info
                    (step_A_1401_03 (class_number c) ?id class_info \<noteq> [])
                    (append_findings (step_C_1401_03 c ?id class_info) s2)"
    by (auto simp: class_step_1401_03_def Let_def split: sum.splits)
  have "extends ?s1 s2"
    using foldE_extends [OF _ b] step_B_1401_03_extends by blast
  then have "extends s s2"
    using extends_trans [OF extends_append_findings] by blast
  then have "extends s (append_findings (step_C_1401_03 c ?id class_info) s2)"
    using extends_trans [OF _ extends_append_findings] by blast
  then show ?thesis
    unfolding s' using extends_trans [OF _ extends_step_D] by blast
qed

lemma check_1401_03_total: "\<exists>s'. check_1401_03 s = Inr s'"
  unfolding check_1401_03_def by (rule foldE_total) (rule class_step_1401_03_total)

lemma check_1401_03_extends: "check_1401_03 s = Inr s' \<Longrightarrow> extends s s'"
  unfolding check_1401_03_def using foldE_extends class_step_1401_03_extends by blast

lemma extends_total_checks: "check \<in> set total_checks \<Longrightarrow> extends s (check s)"
  unfolding total_checks_def
  using extends_check_1401_01 extends_check_1401_02 extends_check_1401_04
    extends_check_1401_08 app_only_extends app_only_checks
  by auto

lemma extends_checks_04_to_08:
  "extends s (check_1401_08 (check_1401_07 (check_1401_06 (check_1401_05 (check_1401_04 s)))))"
  by (meson extends_trans extends_check_1401_04 extends_check_1401_08 app_only_extends
      app_only_checks)

lemma findings_checks_04_to_15:
  "findings (checks_04_to_15 s) =
     findings (check_1401_08 (check_1401_07 (check_1401_06 (check_1401_05 (check_1401_04 s))))) @
     appended check_1401_09 (app s) @ appended check_1401_10 (app s) @
     appended check_1401_11 (app s) @ appended check_1401_12 (app s) @
     appended check_1401_13 (app s) @ appended check_1401_14 (app s) @
     appended check_1401_15 (app s)
   \<and> app (checks_04_to_15 s) = app s"
proof -
  let ?t8 = "check_1401_08 (check_1401_07 (check_1401_06 (check_1401_05 (check_1401_04 s))))"
  have a8: "app ?t8 = app s" using extends_checks_04_to_08 [of s] by (simp add: extends_def)
  have step: "app_only check \<Longrightarrow> app t = app s \<Longrightarrow>
      findings (check t) = findings t @ appended check (app s) \<and> app (check t) = app s"
    for check t
    using app_only_findings [of check t "app s"] app_only_extends [of check t]
    by (simp add: appended_def extends_def)
  note s9 = step [OF app_only_checks(4) a8]
  note s10 = step [OF app_only_checks(5) conjunct2 [OF s9]]
  note s11 = step [OF app_only_checks(6) conjunct2 [OF s10]]
  note s12 = step [OF app_only_checks(7) conjunct2 [OF s11]]
  note s13 = step [OF app_only_checks(8) conjunct2 [OF s12]]
  note s14 = step [OF app_only_checks(9) conjunct2 [OF s13]]
  note s15 = step [OF app_only_checks(10) conjunct2 [OF s14]]
  show ?thesis
    unfolding checks_04_to_15_def
    using s9 s10 s11 s12 s13 s14 s15 by simp
qed

lemma run_full_assessment_result:
  "\<exists>s3. run_full_assessment s = Inr (checks_04_to_15 s3) \<and> app s3 = app s"
proof -
  let ?s = "s\<lparr>findings := []\<rparr>"
  let ?s2 = "check_1401_02 (check_1401_01 ?s)"
  obtain s3 where s3: "check_1401_03 ?s2 = Inr s3"
    using check_1401_03_total by blast
  have "extends ?s ?s2"
    using extends_trans [OF extends_check_1401_01 extends_check_1401_02] .
  moreover have "extends ?s2 s3" using check_1401_03_extends [OF s3] .
  ultimately have "app s3 = app s" by (simp add: extends_def)
  moreover have "run_full_assessment s = Inr (checks_04_to_15 s3)"
    by (simp add: run_full_assessment_def Let_def s3)
  ultimately show ?thesis by blast
qed

text \<open>
  C9. A run of the Pillar 1 entry point returns (no exception leaves it) with the
  application it started with: every field of the application, the list of class
  entries and every field of every entry included, has the value it had before. Each of
  the fifteen checks leaves the application as it is and keeps the findings made
  before it, appending its own after them.
\<close>

theorem run_full_assessment_frame:
  fixes s :: TMEP1401Assessor
  shows "(\<exists>s'. run_full_assessment s = Inr s' \<and> app s' = app s
               \<and> classes (app s') = classes (app s))
         \<and> (\<forall>check \<in> set total_checks. extends s (check s))
         \<and> (\<forall>s'. check_1401_03 s = Inr s' \<longrightarrow> extends s s')"
proof -
  obtain s3 where "run_full_assessment s = Inr (checks_04_to_15 s3)" "app s3 = app s"
    using run_full_assessment_result by blast
  then have "\<exists>s'. run_full_assessment s = Inr s' \<and> app s' = app s
               \<and> classes (app s') = classes (app s)"
    using findings_checks_04_to_15 [of s3] by simp
  then show ?thesis
    using extends_total_checks check_1401_03_extends by blast
qed

theorem run_full_assessment_frame_witness:
  "\<exists>s'. run_full_assessment (assessor (application [entry 25 ''shirts''] 1 ''2024-01-15'')) = Inr s'
       \<and> app s' = application [entry 25 ''shirts''] 1 ''2024-01-15''
       \<and> classes (app s') = [entry 25 ''shirts'']
       \<and> extends (assessor (application [entry 25 ''shirts''] 1 ''2024-01-15''))
             (check_1401_04 (assessor (application [entry 25 ''shirts''] 1 ''2024-01-15'')))"
proof -
  let ?a = "application [entry 25 ''shirts''] 1 ''2024-01-15''"
  note t = run_full_assessment_frame [of "assessor ?a"]
  from t obtain s' where r: "run_full_assessment (assessor ?a) = Inr s'"
    and a: "app s' = app (assessor ?a)"
    by blast
  have m: "check_1401_04 \<in> set total_checks" by (simp add: total_checks_def)
  from t m have e: "extends (assessor ?a) (check_1401_04 (assessor ?a))" by blast
  have a': "app s' = ?a" using a by (simp add: assessor_def)
  have c: "classes (app s') = [entry 25 ''shirts'']"
    unfolding a' by (simp add: application_def)
  from r a' c e show ?thesis by blast
qed

subsection \<open>The findings of a run, check by check\<close>

lemma tmep_section_AF [simp]: "tmep_section (AF sec sev cn it fi re) = sect sec"
  by (simp add: AF_def)

lemma sect_eq [simp]: "(sect a = sect b) = (a = b)"
  by (simp add: sect_def)

lemma app_earlier [simp]: "app (earlier pre s) = app s"
  by (simp add: earlier_def)

lemma findings_earlier [simp]: "findings (earlier pre s) = pre @ findings s"
  by (simp add: earlier_def)

lemma earlier_append_findings [simp]:
  "append_findings fs (earlier pre s) = earlier pre (append_findings fs s)"
  by (simp add: earlier_def append_findings_def)

lemma earlier_assessor: "earlier (findings s) (assessor (app s)) = s"
  by (cases s) (simp add: earlier_def assessor_def)

lemma foldE_map_sum:
  assumes "\<And>st x. f (w st) x = map_sum id w (f st x)"
  shows "foldE f (w s) xs = map_sum id w (foldE f s xs)"
proof (induction xs arbitrary: s)
  case Nil
  show ?case by simp
next
  case (Cons x xs)
  show ?case by (cases "f s x") (simp_all add: assms Cons.IH)
qed

lemma foldl_commute:
  assumes "\<And>st x. f (w st) x = w (f st x)"
  shows "foldl f (w s) xs = w (foldl f s xs)"
  by (induction xs arbitrary: s) (simp_all add: assms)

lemma foldE_invariant:
  assumes "\<And>st c st'. I st \<Longrightarrow> f st c = Inr st' \<Longrightarrow> I st'"
    and "I s" and "foldE f s cs = Inr s'"
  shows "I s'"
  using assms(2,3)
proof (induction cs arbitrary: s)
  case Nil
  then show ?case by simp
next
  case (Cons c cs)
  then obtain s1 where s1: "f s c = Inr s1" and rest: "foldE f s1 cs = Inr s'"
    by (auto split: sum.splits)
  have "I s1" using assms(1) Cons.prems(1) s1 by blast
  then show ?case using Cons.IH rest by blast
qed

text \<open>Section 1401.03 after earlier checks that made no finding of section 1401.03.\<close>

lemma step_B_1401_03_earlier:
  "step_B_1401_03 claimed class_info (earlier pre s) term =
     map_sum id (earlier pre) (step_B_1401_03 claimed class_info s term)"
  by (simp add: step_B_1401_03_def Let_def split: list.splits option.splits)

lemma step_D_1401_03_earlier:
  assumes "\<forall>f \<in> set pre. tmep_section f \<noteq> sect ''1401.03''"
  shows "step_D_1401_03 c class_info m (earlier pre s) =
           earlier pre (step_D_1401_03 c class_info m s)"
  using assms by (auto simp: step_D_1401_03_def Let_def list_ex_iff)

lemma class_step_1401_03_earlier:
  assumes "\<forall>f \<in> set pre. tmep_section f \<noteq> sect ''1401.03''"
  shows "class_step_1401_03 (earlier pre s) c =
           map_sum id (earlier pre) (class_step_1401_03 s c)"
proof (cases "get_class_info (class_number c)")
  case None
  then show ?thesis by (simp add: class_step_1401_03_def Let_def)
next
  case (Some class_info)
  let ?id = "strip (lower (identification c))"
  let ?s1 = "append_findings (map (error_A_1401_03 (class_number c) class_info)
         (step_A_1401_03 (class_number c) ?id class_info)) s"
  have b: "foldE (step_B_1401_03 (class_number c) class_info) (earlier pre ?s1) (split_terms ?id) =
           map_sum id (earlier pre)
             (foldE (step_B_1401_03 (class_number c) class_info) ?s1 (split_terms ?id))"
    by (rule foldE_map_sum) (rule step_B_1401_03_earlier)
  show ?thesis
    unfolding class_step_1401_03_def Let_def
    by (cases "foldE (step_B_1401_03 (class_number c) class_info) ?s1 (split_terms ?id)")
       (simp_all add: Some b step_D_1401_03_earlier [OF assms])
qed

lemma check_1401_03_earlier:
  assumes "\<forall>f \<in> set pre. tmep_section f \<noteq> sect ''1401.03''"
  shows "check_1401_03 (earlier pre s) = map_sum id (earlier pre) (check_1401_03 s)"
  unfolding check_1401_03_def
  using foldE_map_sum [of class_step_1401_03 "earlier pre" s "classes (app s)"]
    class_step_1401_03_earlier [OF assms]
  by simp

lemma check_1401_03_findings:
  assumes "\<forall>f \<in> set (findings s). tmep_section f \<noteq> sect ''1401.03''"
  shows "\<exists>s'. check_1401_03 s = Inr s'
            \<and> findings s' = findings s @ appended_1401_03 (app s) \<and> app s' = app s"
proof -
  obtain t where t: "check_1401_03 (assessor (app s)) = Inr t"
    using check_1401_03_total by blast
  have "check_1401_03 (earlier (findings s) (assessor (app s))) = Inr (earlier (findings s) t)"
    by (simp add: check_1401_03_earlier [OF assms] t)
  then have r: "check_1401_03 s = Inr (earlier (findings s) t)"
    by (simp add: earlier_assessor)
  have "app t = app s"
    using check_1401_03_extends [OF t] by (simp add: extends_def assessor_def)
  then show ?thesis
    using r t by (simp add: appended_1401_03_def)
qed

text \<open>Section 1401.08 after earlier checks that made no finding of section 1401.08.\<close>

lemma flag_or_ok_earlier:
  assumes "\<not> list_ex P pre"
  shows "(if b then append_findings Y (append_findings X (earlier pre s))
          else if \<not> list_ex P (findings (append_findings X (earlier pre s)))
               then append_findings Z (append_findings X (earlier pre s))
               else append_findings X (earlier pre s)) =
         earlier pre
           (if b then append_findings Y (append_findings X s)
            else if \<not> list_ex P (findings (append_findings X s))
                 then append_findings Z (append_findings X s)
                 else append_findings X s)"
  using assms by (auto simp: list_ex_iff)

lemma class_step_1401_08_earlier:
  assumes "\<forall>f \<in> set pre. tmep_section f \<noteq> sect ''1401.08''"
  shows "class_step_1401_08 (earlier pre s) c = earlier pre (class_step_1401_08 s c)"
proof (cases "get_class_info (class_number c)")
  case None
  then show ?thesis by (simp add: class_step_1401_08_def Let_def)
next
  case (Some class_info)
  show ?thesis
    unfolding class_step_1401_08_def Let_def Some option.case
    apply (rule flag_or_ok_earlier)
    using assms by (simp add: list_ex_iff)
qed

lemma check_1401_08_findings:
  assumes "\<forall>f \<in> set (findings s). tmep_section f \<noteq> sect ''1401.08''"
  shows "findings (check_1401_08 s) = findings s @ appended check_1401_08 (app s)
         \<and> app (check_1401_08 s) = app s"
proof -
  have "check_1401_08 (earlier (findings s) (assessor (app s))) =
          earlier (findings s) (check_1401_08 (assessor (app s)))"
    unfolding check_1401_08_def
    using foldl_commute [of class_step_1401_08 "earlier (findings s)"]
      class_step_1401_08_earlier [OF assms]
    by simp
  then have r: "check_1401_08 s = earlier (findings s) (check_1401_08 (assessor (app s)))"
    by (simp add: earlier_assessor)
  have "app (check_1401_08 s) = app s"
    using extends_check_1401_08 [of s] by (simp add: extends_def)
  moreover have "findings (check_1401_08 s) = findings s @ appended check_1401_08 (app s)"
    using arg_cong [OF r, of findings]
    by (simp add: appended_def new_findings_def assessor_def)
  ultimately show ?thesis by simp
qed

text \<open>Sections 1401.01, 1401.02 and 1401.04 append findings computed from the application.\<close>

lemma foldl_step_1401_01:
  "foldl (\<lambda>st c. case st of (found_invalid_basis, s1) \<Rightarrow>
                    if filing_basis c \<notin> set valid_bases
                    then (True,
                          append_findings
                            [AF ''1401.01'' ''ERROR'' (class_number c)
                                [T ''Filing basis: '', T (filing_basis c)]
                                [T ''Invalid or unrecognized filing basis. ...'']
                                [T ''Correct filing basis to one of: '', TS valid_bases, T ''.'']] s1)
                    else (found_invalid_basis, s1))
         (b, s) cs =
     (b \<or> filter (\<lambda>c. filing_basis c \<notin> set valid_bases) cs \<noteq> [],
      append_findings
        (map (\<lambda>c. AF ''1401.01'' ''ERROR'' (class_number c)
                     [T ''Filing basis: '', T (filing_basis c)]
                     [T ''Invalid or unrecognized filing basis. ...'']
                     [T ''Correct filing basis to one of: '', TS valid_bases, T ''.''])
             (filter (\<lambda>c. filing_basis c \<notin> set valid_bases) cs)) s)"
proof (induction cs arbitrary: b s)
  case Nil
  show ?case by (simp add: append_findings_def)
next
  case (Cons c cs)
  show ?case by (simp add: Cons.IH)
qed

lemma check_1401_01_eq:
  "\<exists>G. \<forall>s. check_1401_01 s = append_findings (G (app s)) s
          \<and> (\<forall>f \<in> set (G (app s)). tmep_section f = sect ''1401.01'')"
  by (rule exI [of _ "\<lambda>a.
        map (\<lambda>c. AF ''1401.01'' ''ERROR'' (class_number c)
                     [T ''Filing basis: '', T (filing_basis c)]
                     [T ''Invalid or unrecognized filing basis. ...'']
                     [T ''Correct filing basis to one of: '', TS valid_bases, T ''.''])
             (filter (\<lambda>c. filing_basis c \<notin> set valid_bases) (classes a)) @
        (if filter (\<lambda>c. filing_basis c \<notin> set valid_bases) (classes a) = []
         then [AF ''1401.01'' ''OK'' 0 [T ''Filing Basis'']
                  [T ''All filing bases are recognized under the Lanham Act. ...'']
                  [T ''No action required.'']]
         else [])"])
     (auto simp: check_1401_01_def foldl_step_1401_01)

lemma check_1401_02_eq:
  "check_1401_02 s = append_findings (new_findings check_1401_02 (assessor (app s))) s"
  by (simp add: new_findings_1401_02 assessor_def check_1401_02_def foldl_step_1401_02
      append_finding_def append_findings_def)

lemma check_1401_04_eq:
  "check_1401_04 s = append_findings (new_findings check_1401_04 (assessor (app s))) s"
proof -
  have a: "app (check_1401_04 s) = app s"
    using extends_check_1401_04 [of s] by (simp add: extends_def)
  have f: "findings (check_1401_04 s) = findings s @ new_findings check_1401_04 s"
    using extends_check_1401_04 [of s] by (auto simp: extends_def new_findings_def prefix_def)
  have n: "new_findings check_1401_04 s = new_findings check_1401_04 (assessor (app s))"
    by (simp add: new_findings_1401_04 assessor_def)
  show ?thesis
    using a f n by (cases s, cases "check_1401_04 s") (simp add: append_findings_def)
qed

lemma app_only_first_checks:
  "app_only check_1401_01" "app_only check_1401_02" "app_only check_1401_04"
proof -
  show "app_only check_1401_01" using check_1401_01_eq app_onlyI by blast
  show "app_only check_1401_02" unfolding app_only_def by (rule allI) (rule check_1401_02_eq)
  show "app_only check_1401_04" unfolding app_only_def by (rule allI) (rule check_1401_04_eq)
qed

text \<open>Every finding of sections 1401.01 to 1401.07 carries the section of its check.\<close>

lemma section_1401_01:
  assumes "f \<in> set (appended check_1401_01 a)"
  shows "tmep_section f = sect ''1401.01''"
proof -
  from check_1401_01_eq obtain G where
    G: "\<forall>s. check_1401_01 s = append_findings (G (app s)) s
          \<and> (\<forall>f \<in> set (G (app s)). tmep_section f = sect ''1401.01'')"
    ..
  from G have e: "check_1401_01 (assessor a) = append_findings (G (app (assessor a))) (assessor a)"
    and S: "\<forall>f \<in> set (G (app (assessor a))). tmep_section f = sect ''1401.01''"
    by blast+
  have "findings (check_1401_01 (assessor a)) = G (app (assessor a))"
    unfolding e by (simp add: assessor_def)
  then have "appended check_1401_01 a = G (app (assessor a))"
    by (simp add: appended_def new_findings_def assessor_def)
  with S assms show ?thesis by simp
qed

lemma section_1401_02:
  assumes "f \<in> set (appended check_1401_02 a)"
  shows "tmep_section f = sect ''1401.02''"
proof -
  have e: "tmep_section (error_1401_02 c) = sect ''1401.02''" for c
    by (simp add: error_1401_02_def)
  have k: "tmep_section (ok_1401_02 cs) = sect ''1401.02''" for cs
    by (simp add: ok_1401_02_def)
  from assms show ?thesis
    unfolding appended_def new_findings_1401_02
    using e k by (auto split: if_splits)
qed

lemma section_fee_count_finding: "tmep_section (fee_count_finding a) = sect ''1401.04''"
  by (simp add: fee_count_finding_def Let_def)

lemma section_1401_04:
  assumes "f \<in> set (appended check_1401_04 a)"
  shows "tmep_section f = sect ''1401.04''"
proof -
  have d: "tmep_section (duplicate_warning_1401_04 ds) = sect ''1401.04''" for ds
    by (simp add: duplicate_warning_1401_04_def)
  have n: "tmep_section (no_fee_error_1401_04 b c) = sect ''1401.04''" for b c
    by (simp add: no_fee_error_1401_04_def)
  from assms show ?thesis
    unfolding appended_def new_findings_1401_04
    using d n section_fee_count_finding by (auto split: if_splits)
qed

lemma section_class_findings_1401_05:
  "list_all (\<lambda>f. tmep_section f = sect ''1401.05'') (class_findings_1401_05 c)"
  by (simp add: class_findings_1401_05_def Let_def list.pred_map comp_def case_prod_beta
      list.pred_True split: option.split)

lemma section_class_findings_1401_06:
  "list_all (\<lambda>f. tmep_section f = sect ''1401.06'') (class_findings_1401_06 c)"
  by (simp add: class_findings_1401_06_def Let_def split: option.split prod.split)

lemma section_class_findings_1401_07:
  "list_all (\<lambda>f. tmep_section f = sect ''1401.07'') (class_findings_1401_07 c)"
  by (simp add: class_findings_1401_07_def Let_def split: option.split prod.split)

lemma section_1401_05:
  assumes "f \<in> set (appended check_1401_05 a)"
  shows "tmep_section f = sect ''1401.05''"
proof -
  have "appended check_1401_05 a = concat (map class_findings_1401_05 (classes a))"
    by (simp add: appended_def new_findings_def check_1401_05_eq assessor_def)
  with assms section_class_findings_1401_05 show ?thesis
    by (auto simp: list_all_iff)
qed

lemma section_1401_06:
  assumes "f \<in> set (appended check_1401_06 a)"
  shows "tmep_section f = sect ''1401.06''"
proof -
  have "appended check_1401_06 a = concat (map class_findings_1401_06 (classes a))"
    by (simp add: appended_def new_findings_def check_1401_06_eq assessor_def)
  with assms section_class_findings_1401_06 show ?thesis
    by (auto simp: list_all_iff)
qed

lemma section_1401_07:
  assumes "f \<in> set (appended check_1401_07 a)"
  shows "tmep_section f = sect ''1401.07''"
proof -
  have "appended check_1401_07 a = concat (map class_findings_1401_07 (classes a))"
    by (simp add: appended_def new_findings_def check_1401_07_eq assessor_def)
  with assms section_class_findings_1401_07 show ?thesis
    by (auto simp: list_all_iff)
qed

lemma section_step_B_1401_03:
  assumes "\<forall>f \<in> set (findings s). tmep_section f = sect ''1401.03''"
    and "step_B_1401_03 claimed class_info s term = Inr s'"
  shows "\<forall>f \<in> set (findings s'). tmep_section f = sect ''1401.03''"
  using assms unfolding step_B_1401_03_def Let_def
  by (auto split: list.splits option.splits if_splits)

lemma section_step_C_1401_03:
  "list_all (\<lambda>f. tmep_section f = sect ''1401.03'') (step_C_1401_03 c id_text class_info)"
  by (simp add: step_C_1401_03_def Let_def)

lemma section_class_step_1401_03:
  assumes I: "\<forall>f \<in> set (findings s). tmep_section f = sect ''1401.03''"
    and r: "class_step_1401_03 s c = Inr s'"
  shows "\<forall>f \<in> set (findings s'). tmep_section f = sect ''1401.03''"
proof (cases "get_class_info (class_number c)")
  case None
  with I r show ?thesis by (simp add: class_step_1401_03_def Let_def)
next
  case (Some class_info)
  let ?id = "strip (lower (identification c))"
  let ?s1 = "append_findings (map (error_A_1401_03 (class_number c) class_info)
         (step_A_1401_03 (class_number c) ?id class_info)) s"
  from r Some obtain s2 where
    b: "foldE (step_B_1401_03 (class_number c) class_info) ?s1 (split_terms ?id) = Inr s2"
    and s': "s' = step_D_1401_03 c class_info
                    (step_A_1401_03 (class_number c) ?id class_info \<noteq> [])
                    (append_findings (step_C_1401_03 c ?id class_info) s2)"
    by (auto simp: class_step_1401_03_def Let_def split: sum.splits)
  have 1: "\<forall>f \<in> set (findings ?s1). tmep_section f = sect ''1401.03''"
    using I by (auto simp: error_A_1401_03_def split: prod.splits)
  have 2: "\<forall>f \<in> set (findings s2). tmep_section f = sect ''1401.03''"
    using foldE_invariant
      [of "\<lambda>st. \<forall>f \<in> set (findings st). tmep_section f = sect ''1401.03''"
          "step_B_1401_03 (class_number c) class_info", OF _ 1 b]
      section_step_B_1401_03
    by blast
  show ?thesis
    unfolding s' using 2
    using section_step_C_1401_03 [of c ?id class_info]
    by (auto simp: step_D_1401_03_def Let_def list_all_iff)
qed

lemma section_1401_03:
  "f \<in> set (appended_1401_03 a) \<Longrightarrow> tmep_section f = sect ''1401.03''"
proof -
  obtain t where t: "check_1401_03 (assessor a) = Inr t"
    using check_1401_03_total by blast
  have "\<forall>f \<in> set (findings (assessor a)). tmep_section f = sect ''1401.03''"
    by (simp add: assessor_def)
  then have "\<forall>f \<in> set (findings t). tmep_section f = sect ''1401.03''"
    using foldE_invariant
      [of "\<lambda>st. \<forall>f \<in> set (findings st). tmep_section f = sect ''1401.03''"
          class_step_1401_03 "assessor a" "classes (app (assessor a))" t]
      section_class_step_1401_03 t
    unfolding check_1401_03_def by blast
  then show "f \<in> set (appended_1401_03 a) \<Longrightarrow> tmep_section f = sect ''1401.03''"
    by (simp add: appended_1401_03_def t)
qed

text \<open>The run: the findings are cleared, and each check appends its own in turn.\<close>

lemma run_full_assessment_findings:
  "\<exists>s'. run_full_assessment s = Inr s' \<and> app s' = app s
       \<and> findings s' =
           appended check_1401_01 (app s) @ appended check_1401_02 (app s) @
           appended_1401_03 (app s) @ appended check_1401_04 (app s) @
           appended check_1401_05 (app s) @ appended check_1401_06 (app s) @
           appended check_1401_07 (app s) @ appended check_1401_08 (app s) @
           appended check_1401_09 (app s) @ appended check_1401_10 (app s) @
           appended check_1401_11 (app s) @ appended check_1401_12 (app s) @
           appended check_1401_13 (app s) @ appended check_1401_14 (app s) @
           appended check_1401_15 (app s)"
proof -
  let ?a = "app s"
  let ?s0 = "s\<lparr>findings := []\<rparr>"
  have step: "app_only check \<Longrightarrow> app t = ?a \<Longrightarrow>
      findings (check t) = findings t @ appended check ?a \<and> app (check t) = ?a"
    for check t
    using app_only_findings [of check t ?a] app_only_extends [of check t]
    by (simp add: appended_def extends_def)
  have a0: "app ?s0 = ?a" by simp
  let ?s1 = "check_1401_01 ?s0"
  let ?s2 = "check_1401_02 ?s1"
  note s1 = step [OF app_only_first_checks(1) a0]
  note s2 = step [OF app_only_first_checks(2) conjunct2 [OF s1]]
  have f2: "findings ?s2 = appended check_1401_01 ?a @ appended check_1401_02 ?a"
    using s1 s2 by simp
  have no3: "\<forall>f \<in> set (findings ?s2). tmep_section f \<noteq> sect ''1401.03''"
    unfolding f2 using section_1401_01 [of _ ?a] section_1401_02 [of _ ?a] by fastforce
  obtain s3 where r3: "check_1401_03 ?s2 = Inr s3"
    and f3: "findings s3 = findings ?s2 @ appended_1401_03 ?a" and a3: "app s3 = ?a"
    using check_1401_03_findings [OF no3] s2 by auto
  let ?s4 = "check_1401_04 s3"
  let ?s5 = "check_1401_05 ?s4"
  let ?s6 = "check_1401_06 ?s5"
  let ?s7 = "check_1401_07 ?s6"
  let ?s8 = "check_1401_08 ?s7"
  note s4 = step [OF app_only_first_checks(3) a3]
  note s5 = step [OF app_only_checks(1) conjunct2 [OF s4]]
  note s6 = step [OF app_only_checks(2) conjunct2 [OF s5]]
  note s7 = step [OF app_only_checks(3) conjunct2 [OF s6]]
  have f7: "findings ?s7 =
      appended check_1401_01 ?a @ appended check_1401_02 ?a @ appended_1401_03 ?a @
      appended check_1401_04 ?a @ appended check_1401_05 ?a @ appended check_1401_06 ?a @
      appended check_1401_07 ?a"
    using f2 f3 s4 s5 s6 s7 by simp
  have no8: "\<forall>f \<in> set (findings ?s7). tmep_section f \<noteq> sect ''1401.08''"
    unfolding f7
    using section_1401_01 [of _ ?a] section_1401_02 [of _ ?a] section_1401_03 [of _ ?a]
      section_1401_04 [of _ ?a] section_1401_05 [of _ ?a] section_1401_06 [of _ ?a]
      section_1401_07 [of _ ?a]
    by fastforce
  have s8: "findings ?s8 = findings ?s7 @ appended check_1401_08 ?a \<and> app ?s8 = ?a"
    using check_1401_08_findings [OF no8] s7 by simp
  note s9 = step [OF app_only_checks(4) conjunct2 [OF s8]]
  note s10 = step [OF app_only_checks(5) conjunct2 [OF s9]]
  note s11 = step [OF app_only_checks(6) conjunct2 [OF s10]]
  note s12 = step [OF app_only_checks(7) conjunct2 [OF s11]]
  note s13 = step [OF app_only_checks(8) conjunct2 [OF s12]]
  note s14 = step [OF app_only_checks(9) conjunct2 [OF s13]]
  note s15 = step [OF app_only_checks(10) conjunct2 [OF s14]]
  have run: "run_full_assessment s = Inr (checks_04_to_15 s3)"
    by (simp add: run_full_assessment_def Let_def r3)
  have "findings (checks_04_to_15 s3) =
      appended check_1401_01 ?a @ appended check_1401_02 ?a @ appended_1401_03 ?a @
      appended check_1401_04 ?a @ appended check_1401_05 ?a @ appended check_1401_06 ?a @
      appended check_1401_07 ?a @ appended check_1401_08 ?a @
      appended check_1401_09 ?a @ appended check_1401_10 ?a @
      appended check_1401_11 ?a @ appended check_1401_12 ?a @
      appended check_1401_13 ?a @ appended check_1401_14 ?a @
      appended check_1401_15 ?a"
    unfolding checks_04_to_15_def
    using f7 s8 s9 s10 s11 s12 s13 s14 s15 by simp
  moreover have "app (checks_04_to_15 s3) = ?a"
    unfolding checks_04_to_15_def using s15 by simp
  ultimately show ?thesis using run by blast
qed

text \<open>
  C7, as the code has it. When the filing date does not parse, the run still returns,
  and its findings are what the fifteen checks append for the application, each in its
  turn from section 1401.01 to section 1401.15, and nothing else. Section 1401.09
  appends the INFO finding on the parse failure when the claimed edition is in the
  timeline and the filing date is not empty; it appends nothing when the filing date is
  empty, and only its WARNING when the edition is not in the timeline. Section 1401.10
  catches the failure and appends its general notice only; section 1401.11 catches it
  and appends its class 42 errors only.
\<close>

theorem parse_failure_handling:
  assumes "strptime_ymd (filing_date (app s)) = None"
  shows "(\<exists>s'. run_full_assessment s = Inr s'
            \<and> findings s' =
                appended check_1401_01 (app s) @ appended check_1401_02 (app s) @
                appended_1401_03 (app s) @ appended check_1401_04 (app s) @
                appended check_1401_05 (app s) @ appended check_1401_06 (app s) @
                appended check_1401_07 (app s) @ appended check_1401_08 (app s) @
                appended check_1401_09 (app s) @ appended check_1401_10 (app s) @
                appended check_1401_11 (app s) @ appended check_1401_12 (app s) @
                appended check_1401_13 (app s) @ appended check_1401_14 (app s) @
                appended check_1401_15 (app s))
         \<and> (map_of NICE_EDITION_TIMELINE (nice_edition_claimed (app s)) \<noteq> None
              \<and> filing_date (app s) \<noteq> [] \<longrightarrow>
              appended check_1401_09 (app s) = [parse_failure_info])
         \<and> (map_of NICE_EDITION_TIMELINE (nice_edition_claimed (app s)) \<noteq> None
              \<and> filing_date (app s) = [] \<longrightarrow>
              appended check_1401_09 (app s) = [])
         \<and> (map_of NICE_EDITION_TIMELINE (nice_edition_claimed (app s)) = None \<longrightarrow>
              map severity (appended check_1401_09 (app s)) = [''WARNING''])
         \<and> severity parse_failure_info = ''INFO''
         \<and> appended check_1401_10 (app s) = [general_notice_1401_10]
         \<and> appended check_1401_11 (app s) =
             concat (map misplacement_errors_1401_11 (classes (app s)))"
proof -
  have 1: "\<exists>s'. run_full_assessment s = Inr s'
            \<and> findings s' =
                appended check_1401_01 (app s) @ appended check_1401_02 (app s) @
                appended_1401_03 (app s) @ appended check_1401_04 (app s) @
                appended check_1401_05 (app s) @ appended check_1401_06 (app s) @
                appended check_1401_07 (app s) @ appended check_1401_08 (app s) @
                appended check_1401_09 (app s) @ appended check_1401_10 (app s) @
                appended check_1401_11 (app s) @ appended check_1401_12 (app s) @
                appended check_1401_13 (app s) @ appended check_1401_14 (app s) @
                appended check_1401_15 (app s)"
    using run_full_assessment_findings [of s] by blast
  have 2: "map_of NICE_EDITION_TIMELINE (nice_edition_claimed (app s)) \<noteq> None
              \<and> filing_date (app s) \<noteq> [] \<longrightarrow>
              appended check_1401_09 (app s) = [parse_failure_info]"
    using assms
    by (auto simp: appended_def new_findings_def assessor_def check_1401_09_def Let_def)
  have 3: "map_of NICE_EDITION_TIMELINE (nice_edition_claimed (app s)) \<noteq> None
              \<and> filing_date (app s) = [] \<longrightarrow>
              appended check_1401_09 (app s) = []"
    by (auto simp: appended_def new_findings_def assessor_def check_1401_09_def Let_def)
  have 4: "map_of NICE_EDITION_TIMELINE (nice_edition_claimed (app s)) = None \<longrightarrow>
              map severity (appended check_1401_09 (app s)) = [''WARNING'']"
    by (auto simp: appended_def new_findings_def assessor_def check_1401_09_def Let_def AF_def)
  have 5: "severity parse_failure_info = ''INFO''"
    by (simp add: parse_failure_info_def AF_def)
  have t: "term_findings_1401_10 (filing_date (app s)) c ti = []" for c ti
    using assms by (cases ti) (auto simp: term_findings_1401_10_def)
  have 6: "appended check_1401_10 (app s) = [general_notice_1401_10]"
    by (simp add: appended_def new_findings_def check_1401_10_eq assessor_def t)
  have d: "date_findings_1401_11 (app s) = []"
    using assms by (simp add: date_findings_1401_11_def)
  have 7: "appended check_1401_11 (app s) =
             concat (map misplacement_errors_1401_11 (classes (app s)))"
    by (simp add: appended_def new_findings_def check_1401_11_eq assessor_def d)
  from 1 2 3 4 5 6 7 show ?thesis by blast
qed

theorem parse_failure_handling_witness:
  "strptime_ymd ''not-a-date'' = None
   \<and> appended check_1401_09 (application [entry 25 ''Software for inventory management''] 1 ''not-a-date'')
       = [parse_failure_info]
   \<and> appended check_1401_10 (application [entry 25 ''Software for inventory management''] 1 ''not-a-date'')
       = [general_notice_1401_10]
   \<and> (\<exists>s'. run_full_assessment
               (assessor (application [entry 25 ''Software for inventory management''] 1 ''not-a-date''))
             = Inr s'
           \<and> parse_failure_info \<in> set (findings s')
           \<and> general_notice_1401_10 \<in> set (findings s'))"
proof -
  let ?a = "application [entry 25 ''Software for inventory management''] 1 ''not-a-date''"
  have h0: "strptime_ymd ''not-a-date'' = None" by code_simp
  have a: "app (assessor ?a) = ?a" by (simp add: assessor_def)
  have fd: "filing_date ?a = ''not-a-date''" by (simp add: application_def)
  have ed: "map_of NICE_EDITION_TIMELINE (nice_edition_claimed ?a) \<noteq> None"
    by (simp add: application_def NICE_EDITION_TIMELINE_def)
  have h: "strptime_ymd (filing_date (app (assessor ?a))) = None"
    unfolding a fd by (rule h0)
  note t = parse_failure_handling [OF h, unfolded a]
  from t have n9: "appended check_1401_09 ?a = [parse_failure_info]"
    using ed fd by simp
  from t have n10: "appended check_1401_10 ?a = [general_notice_1401_10]"
    by blast
  from t obtain s' where
    r: "run_full_assessment (assessor ?a) = Inr s'"
    and f: "findings s' =
                appended check_1401_01 ?a @ appended check_1401_02 ?a @
                appended_1401_03 ?a @ appended check_1401_04 ?a @
                appended check_1401_05 ?a @ appended check_1401_06 ?a @
                appended check_1401_07 ?a @ appended check_1401_08 ?a @
                appended check_1401_09 ?a @ appended check_1401_10 ?a @
                appended check_1401_11 ?a @ appended check_1401_12 ?a @
                appended check_1401_13 ?a @ appended check_1401_14 ?a @
                appended check_1401_15 ?a"
    by blast
  have "parse_failure_info \<in> set (findings s')" "general_notice_1401_10 \<in> set (findings s')"
    unfolding f n9 n10 by simp_all
  with r h0 n9 n10 show ?thesis by blast
qed

text \<open>
  The claim as stated fails for section 1401.11: with a filing date that is not empty and
  does not parse, the check reaches the parse, catches the failure and appends no
  finding at all, so no INFO finding on the parse failure.
\<close>

theorem parse_failure_silent_counterexample:
  "strptime_ymd (filing_date (application [entry 42 ''software development''] 1 ''not-a-date'')) = None
   \<and> filing_date (application [entry 42 ''software development''] 1 ''not-a-date'') \<noteq> []
   \<and> new_findings check_1401_11
        (assessor (application [entry 42 ''software development''] 1 ''not-a-date'')) = []"
  by code_simp


end
